(* ===== verification/Prelude.thy ===== *)
theory Prelude
  imports Complex_Main "HOL-Library.Word"
begin

text \<open>
  Shared vocabulary of the development: the Python exceptions that the script
  \<open>src/script.py\<close> can raise, results as sums \<open>py_exc + 'a\<close> (the exception on the
  left), sequencing of such results, Python's \<open>round(x, 2)\<close> and \<open>"{:.2f}".format\<close>
  on reals, and the ASCII string methods (\<open>lower\<close>, \<open>upper\<close>, \<open>capitalize\<close>,
  \<open>split\<close>, \<open>endswith\<close>) that the script applies to algorithm and file names.
  Python floats are modelled as reals: rounding is exact and half-to-even, as CPython
  rounds the exact value of a double.
\<close>

named_theorems py_simps "evaluation rules of the modelled Python primitives"

subsection \<open>Exceptions and results\<close>

text \<open>A key of a subscript \<open>x[k]\<close>: a dictionary key (a string) or a list index.\<close>

datatype py_key = KStr string | KIdx int

datatype py_exc =
    KeyError py_key
  | IndexError
  | TypeError
  | AttributeError
  | ValueError
  | ZeroDivisionError
  | TopologyError
  | EOFError

type_synonym 'a py_result = "py_exc + 'a"

definition rbind :: "'a py_result \<Rightarrow> ('a \<Rightarrow> 'b py_result) \<Rightarrow> 'b py_result" where
  "rbind r f = (case r of Inl e \<Rightarrow> Inl e | Inr a \<Rightarrow> f a)"

text \<open>A loop over a list that stops at the first exception.\<close>

fun rmap :: "('a \<Rightarrow> 'b py_result) \<Rightarrow> 'a list \<Rightarrow> 'b list py_result" where
  "rmap f [] = Inr []"
| "rmap f (x # xs) = rbind (f x) (\<lambda>y. rbind (rmap f xs) (\<lambda>ys. Inr (y # ys)))"

text \<open>\<open>str(KeyError(k))\<close>: a string key is shown with its quotes, an index without.\<close>

definition digit_char :: "nat \<Rightarrow> char" where
  "digit_char d = ''0123456789'' ! d"

fun digits_nat :: "nat \<Rightarrow> string" where
  "digits_nat n = (if n < 10 then [digit_char n]
                   else digits_nat (n div 10) @ [digit_char (n mod 10)])"

declare digits_nat.simps [simp del]

definition show_int :: "int \<Rightarrow> string" where
  "show_int i = (if i < 0 then ''-'' @ digits_nat (nat (- i)) else digits_nat (nat i))"

fun show_key :: "py_key \<Rightarrow> string" where
  "show_key (KStr s) = [CHR 0x27] @ s @ [CHR 0x27]"
| "show_key (KIdx i) = show_int i"

subsection \<open>Rounding\<close>

text \<open>Round half to even to an integer: Python's \<open>round\<close> on the exact value.\<close>

definition round_half_even :: "real \<Rightarrow> int" where
  "round_half_even y =
     (let f = \<lfloor>y\<rfloor>; d = y - of_int f in
      if d < 1/2 then f else if 1/2 < d then f + 1 else if even f then f else f + 1)"

text \<open>\<open>round(x, 2)\<close>.\<close>

definition py_round2 :: "real \<Rightarrow> real" where
  "py_round2 x = of_int (round_half_even (x * 100)) / 100"

text \<open>\<open>"{:.2f}".format(x)\<close>: the same rounding, printed with exactly two decimals;
  the sign of a negative value is kept even where it rounds to zero.\<close>

definition two_digits :: "nat \<Rightarrow> string" where
  "two_digits n = [digit_char (n div 10), digit_char (n mod 10)]"

definition fmt2 :: "real \<Rightarrow> string" where
  "fmt2 x = (let k = round_half_even (\<bar>x\<bar> * 100) in
             (if x < 0 then ''-'' else '''') @ digits_nat (nat k div 100) @ ''.''
               @ two_digits (nat k mod 100))"

subsection \<open>ASCII string methods\<close>

definition ascii_upper :: string where
  "ascii_upper = ''ABCDEFGHIJKLMNOPQRSTUVWXYZ''"

definition ascii_lower :: string where
  "ascii_lower = ''abcdefghijklmnopqrstuvwxyz''"

definition py_lower_char :: "char \<Rightarrow> char" where
  "py_lower_char c = (case map_of (zip ascii_upper ascii_lower) c of None \<Rightarrow> c | Some d \<Rightarrow> d)"

definition py_upper_char :: "char \<Rightarrow> char" where
  "py_upper_char c = (case map_of (zip ascii_lower ascii_upper) c of None \<Rightarrow> c | Some d \<Rightarrow> d)"

definition py_lower :: "string \<Rightarrow> string" where
  "py_lower s = map py_lower_char s"

definition py_upper :: "string \<Rightarrow> string" where
  "py_upper s = map py_upper_char s"

definition py_capitalize :: "string \<Rightarrow> string" where
  "py_capitalize s = (case s of [] \<Rightarrow> [] | c # cs \<Rightarrow> py_upper_char c # py_lower cs)"

definition py_endswith :: "string \<Rightarrow> string \<Rightarrow> bool" where
  "py_endswith s suf = (length suf \<le> length s \<and> drop (length s - length suf) s = suf)"

text \<open>\<open>s.split(sep)\<close> for a one-character separator: every occurrence splits,
  empty fields included.\<close>

fun py_split :: "char \<Rightarrow> string \<Rightarrow> string list" where
  "py_split c [] = [[]]"
| "py_split c (x # xs) =
     (if x = c then [] # py_split c xs
      else (case py_split c xs of f # fs \<Rightarrow> (x # f) # fs | [] \<Rightarrow> [[x]]))"

text \<open>Python's \<open>xs[i]\<close> on a list: an index in \<open>[-len(xs), len(xs))\<close> is
  taken modulo the length (so \<open>-1\<close> is the last element), any other raises.\<close>

definition py_index :: "'a list \<Rightarrow> int \<Rightarrow> 'a py_result" where
  "py_index xs i =
     (if - int (length xs) \<le> i \<and> i < int (length xs)
      then Inr (xs ! nat (i mod int (length xs))) else Inl IndexError)"

subsection \<open>Reading numbers back\<close>

text \<open>How \<open>pd.read_csv\<close> reads a cell written as \<open>[-]digits[.digits]\<close>: the decimal
  it denotes. Any other text is not a number.\<close>

definition digit_val :: "char \<Rightarrow> nat option" where
  "digit_val c = (let n = of_char c :: nat in if 48 \<le> n \<and> n \<le> 57 then Some (n - 48) else None)"

fun parse_digits :: "nat \<Rightarrow> string \<Rightarrow> nat option" where
  "parse_digits acc [] = Some acc"
| "parse_digits acc (c # cs) =
     (case digit_val c of None \<Rightarrow> None | Some d \<Rightarrow> parse_digits (10 * acc + d) cs)"

definition parse_nat :: "string \<Rightarrow> nat option" where
  "parse_nat s = (if s = [] then None else parse_digits 0 s)"

definition parse_unsigned :: "string \<Rightarrow> real option" where
  "parse_unsigned s =
     (case py_split CHR ''.'' s of
        [i] \<Rightarrow> map_option real (parse_nat i)
      | [i, f] \<Rightarrow> (case (parse_nat i, parse_nat f) of
                     (Some a, Some b) \<Rightarrow> Some (real a + real b / 10 ^ length f)
                   | _ \<Rightarrow> None)
      | _ \<Rightarrow> None)"

definition parse_decimal :: "string \<Rightarrow> real option" where
  "parse_decimal s =
     (if s \<noteq> [] \<and> hd s = CHR ''-'' then map_option uminus (parse_unsigned (tl s))
      else parse_unsigned s)"

subsection \<open>Lemmas\<close>

lemma py_lower_char_cases: "py_lower_char c = c \<or> py_lower_char c \<in> set ascii_lower"
  by (auto simp: py_lower_char_def dest: map_of_SomeD set_zip_rightD split: option.split)

lemma py_upper_char_cases: "py_upper_char c = c \<or> py_upper_char c \<in> set ascii_upper"
  by (auto simp: py_upper_char_def dest: map_of_SomeD set_zip_rightD split: option.split)

lemma py_lower_keeps_out:
  "c \<notin> set ascii_lower \<Longrightarrow> c \<notin> set s \<Longrightarrow> c \<notin> set (py_lower s)"
proof
  assume "c \<notin> set ascii_lower" "c \<notin> set s" "c \<in> set (py_lower s)"
  then obtain x where "x \<in> set s" "py_lower_char x = c" by (auto simp: py_lower_def)
  with \<open>c \<notin> set ascii_lower\<close> \<open>c \<notin> set s\<close> show False
    using py_lower_char_cases [of x] by auto
qed

text \<open>A congruence that evaluates the first argument of \<open>rbind\<close> before its
  continuation.\<close>

lemma rbind_cong: "r = r' \<Longrightarrow> rbind r f = rbind r' f"
  by simp

lemma rbind_Inl [simp]: "rbind (Inl e) f = Inl e"
  and rbind_Inr [simp]: "rbind (Inr a) f = f a"
  by (simp_all add: rbind_def)

lemma rbind_eq_Inr [simp]:
  "rbind r f = Inr b \<longleftrightarrow> (\<exists>a. r = Inr a \<and> f a = Inr b)"
  by (cases r) simp_all

lemma rbind_eq_Inl:
  "rbind r f = Inl e \<longleftrightarrow> r = Inl e \<or> (\<exists>a. r = Inr a \<and> f a = Inl e)"
  by (cases r) simp_all

lemma round_half_even_int [simp]: "round_half_even (of_int k) = k"
  by (simp add: round_half_even_def)

lemma round_half_even_close: "\<bar>of_int (round_half_even y) - y\<bar> \<le> 1/2"
proof -
  have "of_int \<lfloor>y\<rfloor> \<le> y" and "y < of_int \<lfloor>y\<rfloor> + 1"
    by linarith+
  then show ?thesis
    by (auto simp: round_half_even_def Let_def)
qed

lemma py_round2_cents [simp]: "py_round2 (of_int k / 100) = of_int k / 100"
  by (simp add: py_round2_def)

lemma py_round2_of_int [simp]: "py_round2 (of_int k) = of_int k"
proof -
  have "round_half_even (of_int k * 100) = k * 100"
    using round_half_even_int [of "k * 100"] by simp
  then show ?thesis by (simp add: py_round2_def)
qed

lemma py_round2_numeral [simp]: "py_round2 (numeral n) = numeral n"
  using py_round2_of_int [of "numeral n"] by simp

lemma py_round2_idem [simp]: "py_round2 (py_round2 x) = py_round2 x"
  by (simp add: py_round2_def)

lemma py_round2_close: "\<bar>py_round2 x - x\<bar> \<le> 1/200"
proof -
  have "\<bar>of_int (round_half_even (x * 100)) - x * 100\<bar> \<le> 1/2"
    by (rule round_half_even_close)
  then have "\<bar>(of_int (round_half_even (x * 100)) - x * 100) / 100\<bar> \<le> 1/200"
    by simp
  then show ?thesis
    by (simp add: py_round2_def diff_divide_distrib)
qed

lemma py_round2_zero [simp]: "py_round2 0 = 0"
  by (simp add: py_round2_def round_half_even_def)

lemma round_half_even_bounds: "\<lfloor>y\<rfloor> \<le> round_half_even y \<and> round_half_even y \<le> \<lfloor>y\<rfloor> + 1"
  by (simp add: round_half_even_def Let_def)

lemma round_half_even_mono:
  assumes "x \<le> y" shows "round_half_even x \<le> round_half_even y"
proof (cases "\<lfloor>x\<rfloor> = \<lfloor>y\<rfloor>")
  case True
  then show ?thesis using assms by (auto simp: round_half_even_def Let_def)
next
  case False
  then have "\<lfloor>x\<rfloor> + 1 \<le> \<lfloor>y\<rfloor>" using assms floor_mono [OF assms] by linarith
  then show ?thesis using round_half_even_bounds [of x] round_half_even_bounds [of y] by linarith
qed

lemma py_round2_mono: "x \<le> y \<Longrightarrow> py_round2 x \<le> py_round2 y"
  unfolding py_round2_def by (simp add: divide_right_mono round_half_even_mono)

lemma fmt2_zero [simp]: "fmt2 0 = ''0.00''"
  by (simp add: fmt2_def round_half_even_def two_digits_def digit_char_def digits_nat.simps)

lemma py_split_nonempty [simp]: "py_split c s \<noteq> []"
  by (induction s) (auto split: list.split)

lemma py_split_append_sep:
  "c \<notin> set a \<Longrightarrow> py_split c (a @ c # b) = a # py_split c b"
  by (induction a) auto

lemma py_split_no_sep: "c \<notin> set a \<Longrightarrow> py_split c a = [a]"
  by (induction a) auto

lemma py_index_0 [simp]:
  "py_index [] i = Inl IndexError" "py_index (x # xs) 0 = Inr x"
  by (simp_all add: py_index_def)

lemma py_index_hd: "xs \<noteq> [] \<Longrightarrow> py_index xs 0 = Inr (hd xs)"
  by (cases xs) simp_all

lemma digit_val_digit_char [simp]:
  assumes "d < 10" shows "digit_val (digit_char d) = Some d"
proof -
  have "d = 0 \<or> d = 1 \<or> d = 2 \<or> d = 3 \<or> d = 4 \<or> d = 5 \<or> d = 6 \<or> d = 7 \<or> d = 8 \<or> d = 9"
    using assms by presburger
  then show ?thesis
    by (elim disjE) (simp_all add: digit_val_def digit_char_def)
qed

lemma parse_digits_append:
  "parse_digits acc (xs @ ys) = (case parse_digits acc xs of None \<Rightarrow> None | Some a \<Rightarrow> parse_digits a ys)"
  by (induction acc xs rule: parse_digits.induct) (auto split: option.split)

lemma parse_digits_digits_nat: "parse_digits 0 (digits_nat n) = Some n"
proof (induction n rule: digits_nat.induct)
  case (1 n)
  show ?case
  proof (cases "n < 10")
    case True
    then show ?thesis by (simp add: digits_nat.simps [of n])
  next
    case False
    with "1.IH" show ?thesis
      by (simp add: digits_nat.simps [of n] parse_digits_append)
  qed
qed

lemma digit_char_set: "d < 10 \<Longrightarrow> digit_char d \<in> set ''0123456789''"
  unfolding digit_char_def by (rule nth_mem) simp

lemma digit_char_not_sep:
  assumes "d < 10" shows "digit_char d \<noteq> CHR ''.'' \<and> digit_char d \<noteq> CHR ''-''"
proof -
  have "d = 0 \<or> d = 1 \<or> d = 2 \<or> d = 3 \<or> d = 4 \<or> d = 5 \<or> d = 6 \<or> d = 7 \<or> d = 8 \<or> d = 9"
    using assms by presburger
  then show ?thesis
    by (elim disjE) (simp_all add: digit_char_def)
qed

lemma digits_nat_no_sep: "CHR ''.'' \<notin> set (digits_nat n) \<and> CHR ''-'' \<notin> set (digits_nat n)"
proof (induction n rule: digits_nat.induct)
  case (1 n)
  show ?case
    using "1" digit_char_not_sep [of n] digit_char_not_sep [of "n mod 10"]
    by (cases "n < 10") (auto simp: digits_nat.simps [of n])
qed

lemma digits_nat_nonempty: "digits_nat n \<noteq> []"
  by (simp add: digits_nat.simps)

lemma parse_nat_digits_nat: "parse_nat (digits_nat n) = Some n"
  by (simp add: parse_nat_def digits_nat_nonempty parse_digits_digits_nat)

lemma parse_nat_two_digits: "n < 100 \<Longrightarrow> parse_nat (two_digits n) = Some n"
  by (simp add: parse_nat_def two_digits_def)

lemma length_two_digits: "length (two_digits n) = 2"
  by (simp add: two_digits_def)

lemma parse_unsigned_fmt:
  assumes "r < 100"
  shows "parse_unsigned (digits_nat q @ CHR ''.'' # two_digits r) = Some (real q + real r / 100)"
proof -
  have "CHR ''.'' \<notin> set (digits_nat q)"
    using digits_nat_no_sep by blast
  moreover have "CHR ''.'' \<notin> set (two_digits r)"
  proof -
    have "r div 10 < 10" using assms by (simp add: div_less_iff_less_mult)
    then show ?thesis
      using digit_char_not_sep [of "r div 10"] digit_char_not_sep [of "r mod 10"]
      by (auto simp: two_digits_def)
  qed
  ultimately have "py_split CHR ''.'' (digits_nat q @ CHR ''.'' # two_digits r) = [digits_nat q, two_digits r]"
    by (simp add: py_split_append_sep py_split_no_sep)
  then show ?thesis
    using assms by (simp add: parse_unsigned_def parse_nat_digits_nat parse_nat_two_digits length_two_digits)
qed

lemma round_half_even_uminus: "round_half_even (- y) = - round_half_even y"
proof (cases "y = of_int \<lfloor>y\<rfloor>")
  case True
  then obtain k where y: "y = of_int k" by blast
  then show ?thesis using round_half_even_int [of "- k"] by simp
next
  case False
  let ?f = "\<lfloor>y\<rfloor>"
  have "of_int ?f \<le> y" by (rule of_int_floor_le)
  with False have lt: "of_int ?f < y" by linarith
  have lt2: "y < of_int ?f + 1" by linarith
  have fl: "\<lfloor>- y\<rfloor> = - ?f - 1"
    using lt lt2 by (intro floor_unique) linarith+
  have d: "- y - of_int (- ?f - 1) = 1 - (y - of_int ?f)" by simp
  consider "y - of_int ?f < 1/2" | "1/2 < y - of_int ?f" | "y - of_int ?f = 1/2" by linarith
  then show ?thesis
  proof cases
    case 1
    then show ?thesis unfolding round_half_even_def Let_def fl d by simp
  next
    case 2
    then show ?thesis unfolding round_half_even_def Let_def fl d by simp
  next
    case 3
    then show ?thesis unfolding round_half_even_def Let_def fl d by (simp add: even_minus)
  qed
qed

lemma parse_decimal_unsigned:
  "s \<noteq> [] \<Longrightarrow> hd s \<noteq> CHR ''-'' \<Longrightarrow> parse_decimal s = parse_unsigned s"
  by (simp add: parse_decimal_def)

lemma round_half_even_nonneg: "0 \<le> y \<Longrightarrow> 0 \<le> round_half_even y"
  using round_half_even_bounds [of y] by linarith

text \<open>A value written with \<open>"{:.2f}".format\<close> (the packet-loss column) reads
  back as the value rounded to two decimals, as \<open>round(x, 2)\<close> would give it: the
  text form loses nothing beyond the rounding.\<close>

theorem fmt2_roundtrip: "parse_decimal (fmt2 x) = Some (py_round2 x)"
proof -
  let ?K = "round_half_even (\<bar>x\<bar> * 100)"
  let ?body = "digits_nat (nat ?K div 100) @ CHR ''.'' # two_digits (nat ?K mod 100)"
  have K: "0 \<le> ?K" by (rule round_half_even_nonneg) simp
  have "real (nat ?K) = real (nat ?K div 100) * 100 + real (nat ?K mod 100)"
    by (metis div_mult_mod_eq of_nat_add of_nat_mult of_nat_numeral)
  then have "real (nat ?K div 100) + real (nat ?K mod 100) / 100 = real (nat ?K) / 100"
    by (simp add: field_simps)
  then have val: "parse_unsigned ?body = Some (of_int ?K / 100)"
    using K by (simp add: parse_unsigned_fmt)
  have body_hd: "?body \<noteq> [] \<and> hd ?body \<noteq> CHR ''-''"
    using digits_nat_nonempty [of "nat ?K div 100"] digits_nat_no_sep [of "nat ?K div 100"]
    by (cases "digits_nat (nat ?K div 100)") auto
  have fmt: "fmt2 x = (if x < 0 then ''-'' else []) @ ?body"
    by (simp add: fmt2_def Let_def)
  show ?thesis
  proof (cases "x < 0")
    case True
    then have "round_half_even (x * 100) = - ?K"
      using round_half_even_uminus [of "\<bar>x\<bar> * 100"] by simp
    then show ?thesis
      using True val by (simp add: fmt parse_decimal_def py_round2_def)
  next
    case False
    then have "round_half_even (x * 100) = ?K" by simp
    then show ?thesis
      using False val body_hd by (simp add: fmt parse_decimal_unsigned py_round2_def)
  qed
qed

end
