(* ===== verification/Topology.thy ===== *)
theory Topology
  imports Prelude
begin

text \<open>
  The topology manager: \<open>LinuxRouter\<close> and \<open>create_topology\<close> (\<open>src/script.py\<close>
  lines 15--69) and the network's \<open>stop\<close> called by \<open>cleanup\<close>. The script builds
  the network by a sequence of Mininet calls and shell commands; each becomes a
  constructor of \<open>topo_cmd\<close>, and \<open>topo_step\<close> gives its effect on the emulated
  network as Mininet and Linux define it: \<open>addHost\<close> records its \<open>ip\<close> and
  \<open>defaultRoute\<close> parameters and \<open>net.start()\<close> applies them to the host's first
  interface and then calls the node's \<open>config\<close> (for a \<open>LinuxRouter\<close>: forwarding on);
  \<open>addLink\<close> gives each end the next free port \<open><node>-eth<n>\<close>; \<open>setIP\<close> replaces the
  interface's IPv4 address; \<open>ip route add\<close> is accepted only when the gateway lies on a
  connected subnet (Linux refuses it otherwise, and the script ignores the refusal).
  Reachability is a forwarding walk over the resulting routing tables
  (longest-prefix match, next hop resolved on the link), bounded by fuel.
  Addresses are 32- and 128-bit words; the IPv6 literals of the script are written
  out as their eight 16-bit groups. The invariant \<open>wf_net\<close> (every link end an
  existing port of its node, no port on two links) holds of every network the commands
  build.
\<close>

type_synonym ipv4addr = "32 word"
type_synonym ipv6addr = "128 word"

definition ipv4 :: "nat \<Rightarrow> nat \<Rightarrow> nat \<Rightarrow> nat \<Rightarrow> ipv4addr" where
  "ipv4 a b c d = of_nat (((a * 256 + b) * 256 + c) * 256 + d)"

definition ipv6 :: "nat list \<Rightarrow> ipv6addr" where
  "ipv6 groups = of_nat (foldl (\<lambda>acc g. acc * 65536 + g) 0 groups)"

text \<open>\<open>a\<close> lies in \<open>p/n\<close>: the first \<open>n\<close> bits agree.\<close>

definition in_prefix :: "'a::len word \<Rightarrow> nat \<Rightarrow> 'a word \<Rightarrow> bool" where
  "in_prefix p n a = (drop_bit (LENGTH('a) - n) a = drop_bit (LENGTH('a) - n) p)"

subsection \<open>Nodes, interfaces and links\<close>

datatype node = R1 | R2 | H1 | H2

fun node_name :: "node \<Rightarrow> string" where
  "node_name R1 = ''r1''" | "node_name R2 = ''r2''" | "node_name H1 = ''h1''" | "node_name H2 = ''h2''"

text \<open>An interface is a node and a port number; its name is \<open><node>-eth<port>\<close>.\<close>

type_synonym intf = "node \<times> nat"

definition intf_name :: "intf \<Rightarrow> string" where
  "intf_name i = node_name (fst i) @ ''-eth'' @ digits_nat (snd i)"

text \<open>An address on a port, with its prefix length; a route: destination prefix,
  its length, gateway, and the port the gateway was resolved on.\<close>

type_synonym 'a addr_entry = "nat \<times> 'a word \<times> nat"
type_synonym 'a route = "'a word \<times> nat \<times> 'a word \<times> nat"

text \<open>What one emulated node holds: its Mininet class and deferred \<open>addHost\<close>
  parameters, its ports, addresses and routes per family, the two forwarding switches
  (\<open>net.ipv4.ip_forward\<close>, \<open>net.ipv6.conf.all.forwarding\<close>) and the congestion
  control algorithm set in its namespace.\<close>

record node_st =
  is_router :: bool
  param_ip :: "(ipv4addr \<times> nat) option"
  param_default :: "ipv4addr option"
  ports :: nat
  addrs4 :: "32 addr_entry list"
  addrs6 :: "128 addr_entry list"
  routes4 :: "32 route list"
  routes6 :: "128 route list"
  fwd4 :: bool
  fwd6 :: bool
  congestion :: string

record link =
  l_a :: intf
  l_b :: intf
  l_loss :: "int option"
  l_delay :: "int option"

record net =
  nodes :: "node \<Rightarrow> node_st option"
  links :: "link list"
  started :: bool

definition empty_net :: net where
  "empty_net = \<lparr>nodes = (\<lambda>_. None), links = [], started = False\<rparr>"

definition new_node :: "bool \<Rightarrow> (ipv4addr \<times> nat) option \<Rightarrow> ipv4addr option \<Rightarrow> node_st" where
  "new_node router ip dflt =
     \<lparr>is_router = router, param_ip = ip, param_default = dflt, ports = 0,
      addrs4 = [], addrs6 = [], routes4 = [], routes6 = [], fwd4 = False, fwd6 = False,
      congestion = ''cubic''\<rparr>"

subsection \<open>Commands and their effect\<close>

datatype topo_cmd =
    AddHost node bool "(ipv4addr \<times> nat) option" "ipv4addr option"
  | AddLink node node "int option" "int option"
  | SetIP intf ipv4addr nat
  | AddAddr6 intf ipv6addr nat
  | AddRoute4 node ipv4addr nat ipv4addr
  | AddRoute6 node ipv6addr nat ipv6addr
  | Start
  | Stop

definition update_node :: "node \<Rightarrow> (node_st \<Rightarrow> node_st) \<Rightarrow> net \<Rightarrow> net" where
  "update_node n f t =
     (case nodes t n of None \<Rightarrow> t | Some s \<Rightarrow> t\<lparr>nodes := (nodes t)(n \<mapsto> f s)\<rparr>)"

text \<open>\<open>ifconfig <intf> <ip>/<len>\<close>: the port's IPv4 address is replaced.\<close>

definition set_ip4 :: "nat \<Rightarrow> ipv4addr \<Rightarrow> nat \<Rightarrow> node_st \<Rightarrow> node_st" where
  "set_ip4 p a len s = s\<lparr>addrs4 := [e \<leftarrow> addrs4 s. fst e \<noteq> p] @ [(p, a, len)]\<rparr>"

text \<open>The port of a connected subnet containing \<open>gw\<close>, if any.\<close>

definition onlink_port :: "'a::len addr_entry list \<Rightarrow> 'a word \<Rightarrow> nat option" where
  "onlink_port addrs gw =
     (case [e \<leftarrow> addrs. in_prefix (fst (snd e)) (snd (snd e)) gw] of
        [] \<Rightarrow> None | e # _ \<Rightarrow> Some (fst e))"

text \<open>\<open>ip route add <p>/<n> via <gw>\<close>: accepted when the gateway is on link.\<close>

definition add_route :: "'a::len addr_entry list \<Rightarrow> 'a route list \<Rightarrow> 'a word \<Rightarrow> nat \<Rightarrow> 'a word
    \<Rightarrow> 'a route list" where
  "add_route addrs rts p n gw =
     (case onlink_port addrs gw of None \<Rightarrow> rts | Some port \<Rightarrow> rts @ [(p, n, gw, port)])"

text \<open>\<open>net.start()\<close> for one node: \<open>configDefault\<close> sets the \<open>addHost\<close> address on the
  first port and the default route, then \<open>LinuxRouter.config\<close> (lines 16--19) switches
  forwarding on.\<close>

definition config_node :: "node_st \<Rightarrow> node_st" where
  "config_node s =
     (let s1 = (case param_ip s of None \<Rightarrow> s | Some (a, len) \<Rightarrow> set_ip4 0 a len s);
          s2 = (case param_default s of None \<Rightarrow> s1
                | Some gw \<Rightarrow> s1\<lparr>routes4 := add_route (addrs4 s1) (routes4 s1) 0 0 gw\<rparr>)
      in if is_router s2 then s2\<lparr>fwd4 := True, fwd6 := True\<rparr> else s2)"

text \<open>\<open>LinuxRouter.terminate\<close> (lines 21--24): forwarding off before the node goes.\<close>

definition terminate_node :: "node_st \<Rightarrow> node_st" where
  "terminate_node s = (if is_router s then s\<lparr>fwd4 := False, fwd6 := False\<rparr> else s)"

fun topo_step :: "net \<Rightarrow> topo_cmd \<Rightarrow> net" where
  "topo_step t (AddHost n router ip dflt) =
     t\<lparr>nodes := (nodes t)(n \<mapsto> new_node router ip dflt)\<rparr>"
| "topo_step t (AddLink a b loss delay) =
     (case (nodes t a, nodes t b) of
        (Some sa, Some sb) \<Rightarrow>
          (let t1 = update_node a (\<lambda>s. s\<lparr>ports := Suc (ports s)\<rparr>) t;
               pb = (if a = b then Suc (ports sa) else ports sb);
               t2 = update_node b (\<lambda>s. s\<lparr>ports := Suc (ports s)\<rparr>) t1
           in t2\<lparr>links := links t2 @ [\<lparr>l_a = (a, ports sa), l_b = (b, pb),
                                         l_loss = loss, l_delay = delay\<rparr>]\<rparr>)
      | _ \<Rightarrow> t)"
| "topo_step t (SetIP (n, p) a len) = update_node n (set_ip4 p a len) t"
| "topo_step t (AddAddr6 (n, p) a len) =
     update_node n (\<lambda>s. s\<lparr>addrs6 := addrs6 s @ [(p, a, len)]\<rparr>) t"
| "topo_step t (AddRoute4 n p len gw) =
     update_node n (\<lambda>s. s\<lparr>routes4 := add_route (addrs4 s) (routes4 s) p len gw\<rparr>) t"
| "topo_step t (AddRoute6 n p len gw) =
     update_node n (\<lambda>s. s\<lparr>routes6 := add_route (addrs6 s) (routes6 s) p len gw\<rparr>) t"
| "topo_step t Start = t\<lparr>nodes := map_option config_node \<circ> nodes t, started := True\<rparr>"
| "topo_step t Stop = t\<lparr>nodes := map_option terminate_node \<circ> nodes t, links := [], started := False\<rparr>"

definition run_topo :: "net \<Rightarrow> topo_cmd list \<Rightarrow> net" where
  "run_topo t cs = foldl topo_step t cs"

text \<open>Lines 28--67, command by command.\<close>

definition create_topology_cmds :: "int \<Rightarrow> int \<Rightarrow> topo_cmd list" where
  "create_topology_cmds loss delay =
    [AddHost R1 True (Some (ipv4 10 0 1 1, 24)) None,
     AddHost R2 True (Some (ipv4 10 0 2 1, 24)) None,
     AddHost H1 False (Some (ipv4 10 0 1 2, 24)) (Some (ipv4 10 0 1 1)),
     AddHost H2 False (Some (ipv4 10 0 2 2, 24)) (Some (ipv4 10 0 2 1)),
     AddLink H1 R1 None None,
     AddLink H2 R2 None None,
     AddLink R1 R2 (Some loss) (Some delay),
     SetIP (R1, 1) (ipv4 192 168 1 1) 30,
     SetIP (R2, 1) (ipv4 192 168 1 2) 30,
     AddAddr6 (R1, 1) (ipv6 [0x2001, 0xdb8, 1, 0, 0, 0, 0, 1]) 64,
     AddAddr6 (R2, 1) (ipv6 [0x2001, 0xdb8, 1, 0, 0, 0, 0, 2]) 64,
     AddAddr6 (H1, 0) (ipv6 [0x2001, 0xdb8, 0, 1, 0, 0, 0, 2]) 64,
     AddAddr6 (H2, 0) (ipv6 [0x2001, 0xdb8, 0, 2, 0, 0, 0, 2]) 64,
     AddRoute6 H1 0 0 (ipv6 [0x2001, 0xdb8, 0, 1, 0, 0, 0, 1]),
     AddRoute6 H2 0 0 (ipv6 [0x2001, 0xdb8, 0, 2, 0, 0, 0, 1]),
     AddAddr6 (R1, 0) (ipv6 [0x2001, 0xdb8, 0, 1, 0, 0, 0, 1]) 64,
     AddAddr6 (R2, 0) (ipv6 [0x2001, 0xdb8, 0, 2, 0, 0, 0, 1]) 64,
     AddRoute4 R1 (ipv4 10 0 2 0) 24 (ipv4 192 168 1 2),
     AddRoute4 R2 (ipv4 10 0 1 0) 24 (ipv4 192 168 1 1),
     AddRoute6 R1 (ipv6 [0x2001, 0xdb8, 0, 2, 0, 0, 0, 0]) 64 (ipv6 [0x2001, 0xdb8, 1, 0, 0, 0, 0, 2]),
     AddRoute6 R2 (ipv6 [0x2001, 0xdb8, 0, 1, 0, 0, 0, 0]) 64 (ipv6 [0x2001, 0xdb8, 1, 0, 0, 0, 0, 1]),
     Start]"

definition create_topology :: "int \<Rightarrow> int \<Rightarrow> net" where
  "create_topology loss delay = run_topo empty_net (create_topology_cmds loss delay)"

text \<open>\<open>net.stop()\<close>, called by \<open>cleanup\<close> (line 151).\<close>

definition stop_net :: "net \<Rightarrow> net" where
  "stop_net t = topo_step t Stop"

subsection \<open>Forwarding\<close>

text \<open>The route a node takes to \<open>dst\<close>: the connected subnets (next hop the
  destination itself) and the installed routes (next hop the gateway); the longest
  matching prefix wins, the first listed among equals.\<close>

definition candidates :: "'a::len addr_entry list \<Rightarrow> 'a route list \<Rightarrow> 'a word
    \<Rightarrow> (nat \<times> nat \<times> 'a word) list" where
  "candidates addrs rts dst =
     [(n, p, dst). (p, a, n) \<leftarrow> addrs, in_prefix a n dst] @
     [(n, p, gw). (pf, n, gw, p) \<leftarrow> rts, in_prefix pf n dst]"

fun best_route :: "(nat \<times> nat \<times> 'a) list \<Rightarrow> (nat \<times> nat \<times> 'a) option" where
  "best_route [] = None"
| "best_route (c # cs) =
     (case best_route cs of None \<Rightarrow> Some c
      | Some d \<Rightarrow> if fst d > fst c then Some d else Some c)"

definition route_lookup :: "'a::len addr_entry list \<Rightarrow> 'a route list \<Rightarrow> 'a word
    \<Rightarrow> (nat \<times> 'a word) option" where
  "route_lookup addrs rts dst = map_option snd (best_route (candidates addrs rts dst))"

text \<open>The node at the other end of the link on port \<open>(n, p)\<close>, when the next hop is
  one of its addresses on that link's port.\<close>

definition link_peer :: "net \<Rightarrow> intf \<Rightarrow> intf option" where
  "link_peer t i =
     (case [l \<leftarrow> links t. l_a l = i \<or> l_b l = i] of
        [] \<Rightarrow> None | l # _ \<Rightarrow> Some (if l_a l = i then l_b l else l_a l))"

text \<open>One address family: how to read a node's addresses, routes and forwarding switch.\<close>

record 'w family =
  f_addrs :: "node_st \<Rightarrow> (nat \<times> 'w \<times> nat) list"
  f_routes :: "node_st \<Rightarrow> ('w \<times> nat \<times> 'w \<times> nat) list"
  f_fwd :: "node_st \<Rightarrow> bool"

definition fam4 :: "32 word family" where
  "fam4 = \<lparr>f_addrs = addrs4, f_routes = routes4, f_fwd = fwd4\<rparr>"

definition fam6 :: "128 word family" where
  "fam6 = \<lparr>f_addrs = addrs6, f_routes = routes6, f_fwd = fwd6\<rparr>"

datatype fwd_result = Delivered node | Dropped node

definition is_local :: "'a::len word family \<Rightarrow> node_st \<Rightarrow> 'a word \<Rightarrow> bool" where
  "is_local fam s a = (\<exists>e \<in> set (f_addrs fam s). fst (snd e) = a)"

definition next_node :: "'a::len word family \<Rightarrow> net \<Rightarrow> intf \<Rightarrow> 'a word \<Rightarrow> node option" where
  "next_node fam t i nh =
     (case link_peer t i of None \<Rightarrow> None
      | Some (m, q) \<Rightarrow> (case nodes t m of None \<Rightarrow> None
          | Some sm \<Rightarrow> if (q, nh) \<in> set (map (\<lambda>e. (fst e, fst (snd e))) (f_addrs fam sm))
                      then Some m else None))"

text \<open>A packet for \<open>dst\<close> at node \<open>n\<close>; \<open>origin\<close> says it was sent by \<open>n\<close> itself,
  which needs no forwarding. Each hop spends one unit of fuel; \<open>None\<close> is running out.\<close>

fun forward :: "'a::len word family \<Rightarrow> nat \<Rightarrow> net \<Rightarrow> node \<Rightarrow> bool \<Rightarrow> 'a word \<Rightarrow> fwd_result option" where
  "forward fam 0 t n origin dst = None"
| "forward fam (Suc fuel) t n origin dst =
     (case nodes t n of None \<Rightarrow> Some (Dropped n)
      | Some s \<Rightarrow>
          if \<not> started t then Some (Dropped n)
          else if is_local fam s dst then Some (Delivered n)
          else if \<not> origin \<and> \<not> f_fwd fam s then Some (Dropped n)
          else (case route_lookup (f_addrs fam s) (f_routes fam s) dst of
                  None \<Rightarrow> Some (Dropped n)
                | Some (p, nh) \<Rightarrow> (case next_node fam t (n, p) nh of
                      None \<Rightarrow> Some (Dropped n)
                    | Some m \<Rightarrow> forward fam fuel t m False dst)))"

subsection \<open>Well-formed networks\<close>

text \<open>Mininet's bookkeeping of links: every end of a link is an existing port of an
  existing node, and no interface is the end of two links.\<close>

definition port_ok :: "net \<Rightarrow> intf \<Rightarrow> bool" where
  "port_ok t i = (case map_option ports (nodes t (fst i)) of None \<Rightarrow> False | Some k \<Rightarrow> snd i < k)"

definition link_intfs :: "net \<Rightarrow> intf list" where
  "link_intfs t = concat (map (\<lambda>l. [l_a l, l_b l]) (links t))"

definition wf_net :: "net \<Rightarrow> bool" where
  "wf_net t = (list_all (port_ok t) (link_intfs t) \<and> distinct (link_intfs t))"

text \<open>A command Mininet and Linux accept in the network built so far: \<open>addHost\<close> of a
  new name (an existing name would orphan its links), \<open>addLink\<close> between added nodes,
  an address on an existing interface, and \<open>ip route add ... via gw\<close> with the gateway
  on a connected subnet (Linux refuses it otherwise, and the script ignores the
  refusal). \<open>cmds_ok\<close> says every command of a sequence is accepted when it runs.\<close>

fun cmd_ok :: "net \<Rightarrow> topo_cmd \<Rightarrow> bool" where
  "cmd_ok t (AddHost n _ _ _) = (nodes t n = None)"
| "cmd_ok t (AddLink a b _ _) = (nodes t a \<noteq> None \<and> nodes t b \<noteq> None)"
| "cmd_ok t (SetIP i _ _) = port_ok t i"
| "cmd_ok t (AddAddr6 i _ _) = port_ok t i"
| "cmd_ok t (AddRoute4 n _ _ gw) =
     (case nodes t n of None \<Rightarrow> False | Some s \<Rightarrow> onlink_port (addrs4 s) gw \<noteq> None)"
| "cmd_ok t (AddRoute6 n _ _ gw) =
     (case nodes t n of None \<Rightarrow> False | Some s \<Rightarrow> onlink_port (addrs6 s) gw \<noteq> None)"
| "cmd_ok t Start = True"
| "cmd_ok t Stop = True"

fun cmds_ok :: "net \<Rightarrow> topo_cmd list \<Rightarrow> bool" where
  "cmds_ok t [] = True"
| "cmds_ok t (c # cs) = (cmd_ok t c \<and> cmds_ok (topo_step t c) cs)"

subsection \<open>The network \<open>create_topology\<close> builds\<close>

lemmas topo_defs = create_topology_def create_topology_cmds_def run_topo_def empty_net_def
  new_node_def update_node_def set_ip4_def add_route_def onlink_port_def config_node_def
  in_prefix_def

lemmas fwd_defs = fam4_def fam6_def is_local_def route_lookup_def candidates_def in_prefix_def
  next_node_def link_peer_def

lemma topo_links: "links (create_topology loss delay) =
  [\<lparr>l_a = (H1, 0), l_b = (R1, 0), l_loss = None, l_delay = None\<rparr>,
   \<lparr>l_a = (H2, 0), l_b = (R2, 0), l_loss = None, l_delay = None\<rparr>,
   \<lparr>l_a = (R1, 1), l_b = (R2, 1), l_loss = Some loss, l_delay = Some delay\<rparr>]"
  by (simp add: topo_defs)

lemma topo_started: "started (create_topology loss delay)"
  by (simp add: topo_defs)

lemma topo_R1: "nodes (create_topology loss delay) R1 = Some
  \<lparr>is_router = True, param_ip = Some (ipv4 10 0 1 1, 24), param_default = None, ports = 2,
   addrs4 = [(1, ipv4 192 168 1 1, 30), (0, ipv4 10 0 1 1, 24)],
   addrs6 = [(1, ipv6 [0x2001, 0xdb8, 1, 0, 0, 0, 0, 1], 64),
             (0, ipv6 [0x2001, 0xdb8, 0, 1, 0, 0, 0, 1], 64)],
   routes4 = [(ipv4 10 0 2 0, 24, ipv4 192 168 1 2, 1)],
   routes6 = [(ipv6 [0x2001, 0xdb8, 0, 2, 0, 0, 0, 0], 64, ipv6 [0x2001, 0xdb8, 1, 0, 0, 0, 0, 2], 1)],
   fwd4 = True, fwd6 = True, congestion = ''cubic''\<rparr>"
  by (simp add: topo_defs ipv4_def ipv6_def)

lemma topo_R2: "nodes (create_topology loss delay) R2 = Some
  \<lparr>is_router = True, param_ip = Some (ipv4 10 0 2 1, 24), param_default = None, ports = 2,
   addrs4 = [(1, ipv4 192 168 1 2, 30), (0, ipv4 10 0 2 1, 24)],
   addrs6 = [(1, ipv6 [0x2001, 0xdb8, 1, 0, 0, 0, 0, 2], 64),
             (0, ipv6 [0x2001, 0xdb8, 0, 2, 0, 0, 0, 1], 64)],
   routes4 = [(ipv4 10 0 1 0, 24, ipv4 192 168 1 1, 1)],
   routes6 = [(ipv6 [0x2001, 0xdb8, 0, 1, 0, 0, 0, 0], 64, ipv6 [0x2001, 0xdb8, 1, 0, 0, 0, 0, 1], 1)],
   fwd4 = True, fwd6 = True, congestion = ''cubic''\<rparr>"
  by (simp add: topo_defs ipv4_def ipv6_def)

lemma topo_H1: "nodes (create_topology loss delay) H1 = Some
  \<lparr>is_router = False, param_ip = Some (ipv4 10 0 1 2, 24), param_default = Some (ipv4 10 0 1 1),
   ports = 1, addrs4 = [(0, ipv4 10 0 1 2, 24)],
   addrs6 = [(0, ipv6 [0x2001, 0xdb8, 0, 1, 0, 0, 0, 2], 64)],
   routes4 = [(0, 0, ipv4 10 0 1 1, 0)],
   routes6 = [(0, 0, ipv6 [0x2001, 0xdb8, 0, 1, 0, 0, 0, 1], 0)],
   fwd4 = False, fwd6 = False, congestion = ''cubic''\<rparr>"
  by (simp add: topo_defs ipv4_def ipv6_def)

lemma topo_H2: "nodes (create_topology loss delay) H2 = Some
  \<lparr>is_router = False, param_ip = Some (ipv4 10 0 2 2, 24), param_default = Some (ipv4 10 0 2 1),
   ports = 1, addrs4 = [(0, ipv4 10 0 2 2, 24)],
   addrs6 = [(0, ipv6 [0x2001, 0xdb8, 0, 2, 0, 0, 0, 2], 64)],
   routes4 = [(0, 0, ipv4 10 0 2 1, 0)],
   routes6 = [(0, 0, ipv6 [0x2001, 0xdb8, 0, 2, 0, 0, 0, 1], 0)],
   fwd4 = False, fwd6 = False, congestion = ''cubic''\<rparr>"
  by (simp add: topo_defs ipv4_def ipv6_def)

lemmas topo_facts = topo_links topo_started topo_R1 topo_R2 topo_H1 topo_H2

lemma topo_nodes_some: "nodes (create_topology loss delay) n \<noteq> None"
  by (cases n) (simp_all add: topo_facts)

lemma fuel_Suc4: "k + 4 = Suc (Suc (Suc (Suc k)))"
  by simp

text \<open>The default route \<open>0/0\<close> matches every address.\<close>

lemma drop_bit_32_ipv4 [simp]: "drop_bit 32 (w::32 word) = 0"
  by (simp add: drop_bit_word_beyond)

lemma drop_bit_128_ipv6 [simp]: "drop_bit 128 (w::128 word) = 0"
  by (simp add: drop_bit_word_beyond)

subsection \<open>Forwarding and route lookup\<close>

lemma forward_mono:
  "forward fam k t n origin dst = Some r \<Longrightarrow> forward fam (k + j) t n origin dst = Some r"
proof (induction k arbitrary: n origin)
  case 0
  then show ?case by simp
next
  case (Suc k)
  then show ?case
    by (auto split: option.splits if_splits prod.splits)
qed

lemma best_route_None: "best_route cs = None \<longleftrightarrow> cs = []"
  by (induction cs) (auto split: option.splits)

lemma best_route_Some:
  "best_route cs = Some c \<Longrightarrow> c \<in> set cs \<and> (\<forall>c' \<in> set cs. fst c' \<le> fst c)"
proof (induction cs arbitrary: c)
  case Nil
  then show ?case by simp
next
  case (Cons x cs)
  show ?case
  proof (cases "best_route cs")
    case None
    with Cons.prems show ?thesis by (simp add: best_route_None)
  next
    case (Some d)
    with Cons.IH[of d] Cons.prems show ?thesis
      by (auto split: if_splits)
  qed
qed

subsection \<open>Lemmas on well-formedness\<close>

lemma links_update_node [simp]: "links (update_node n f t) = links t"
  by (simp add: update_node_def split: option.split)

lemma started_update_node [simp]: "started (update_node n f t) = started t"
  by (simp add: update_node_def split: option.split)

lemma nodes_update_node:
  "nodes (update_node n f t) m = (if m = n then map_option f (nodes t n) else nodes t m)"
  by (simp add: update_node_def split: option.split)

lemma port_ok_links [simp]: "port_ok (t\<lparr>links := ls\<rparr>) = port_ok t"
  by (simp add: port_ok_def fun_eq_iff)

lemma port_ok_grow:
  assumes "\<And>n s. nodes t n = Some s \<Longrightarrow> \<exists>s'. nodes t' n = Some s' \<and> ports s \<le> ports s'"
    and "port_ok t i"
  shows "port_ok t' i"
  using assms by (fastforce simp: port_ok_def split: option.splits)

lemma wf_net_same_ports:
  assumes "links t' = links t"
    and "\<And>n. map_option ports (nodes t' n) = map_option ports (nodes t n)"
  shows "wf_net t' = wf_net t"
proof -
  have "port_ok t' = port_ok t"
    using assms(2) by (simp add: port_ok_def fun_eq_iff)
  then show ?thesis
    using assms(1) by (simp add: wf_net_def link_intfs_def)
qed

lemma wf_net_AddLink:
  assumes wf: "wf_net t"
  shows "wf_net (topo_step t (AddLink a b loss delay))"
proof (cases "nodes t a")
  case None
  with wf show ?thesis by simp
next
  case (Some sa)
  show ?thesis
  proof (cases "nodes t b")
    case None
    with wf Some show ?thesis by (simp split: option.split)
  next
    case (Some sb)
    let ?t1 = "update_node a (\<lambda>s. s\<lparr>ports := Suc (ports s)\<rparr>) t"
    let ?pb = "if a = b then Suc (ports sa) else ports sb"
    let ?t2 = "update_node b (\<lambda>s. s\<lparr>ports := Suc (ports s)\<rparr>) ?t1"
    let ?l = "\<lparr>l_a = (a, ports sa), l_b = (b, ?pb), l_loss = loss, l_delay = delay\<rparr>"
    have step: "topo_step t (AddLink a b loss delay) = ?t2\<lparr>links := links ?t2 @ [?l]\<rparr>"
      using \<open>nodes t a = Some sa\<close> Some by simp
    have grow: "\<exists>s'. nodes ?t2 n = Some s' \<and> ports s \<le> ports s'" if "nodes t n = Some s" for n s
      using that by (auto simp: nodes_update_node)
    have old_ok: "port_ok ?t2 i" if "port_ok t i" for i
      using port_ok_grow[OF grow that] .
    have new_ok: "port_ok ?t2 (a, ports sa)" "port_ok ?t2 (b, ?pb)"
      using \<open>nodes t a = Some sa\<close> Some by (auto simp: port_ok_def nodes_update_node)
    have fresh: "(a, ports sa) \<notin> set (link_intfs t)" "(b, ?pb) \<notin> set (link_intfs t)"
      using wf \<open>nodes t a = Some sa\<close> Some
      by (auto simp: wf_net_def list_all_iff port_ok_def)
    have "(a, ports sa) \<noteq> (b, ?pb)"
      by simp
    then show ?thesis
      using wf old_ok new_ok fresh
      by (simp add: step wf_net_def link_intfs_def list_all_iff del: topo_step.simps)
  qed
qed

lemma ports_config_node [simp]: "ports (config_node s) = ports s"
  by (simp add: config_node_def set_ip4_def Let_def split: option.split prod.split)

lemma topo_step_intf:
  "topo_step t (SetIP i a len) = update_node (fst i) (set_ip4 (snd i) a len) t"
  "topo_step t (AddAddr6 i a6 len) = update_node (fst i) (\<lambda>s. s\<lparr>addrs6 := addrs6 s @ [(snd i, a6, len)]\<rparr>) t"
  by (cases i; simp)+

lemma wf_net_update_node:
  "(\<And>s. ports (f s) = ports s) \<Longrightarrow> wf_net (update_node n f t) = wf_net t"
  by (rule wf_net_same_ports) (simp_all add: nodes_update_node option.map_comp comp_def)

lemma create_topology_wf: "wf_net (create_topology loss delay)"
  using topo_nodes_some
  by (simp add: wf_net_def link_intfs_def port_ok_def topo_facts)

text \<open>The four walks between the hosts, one hop per node.\<close>

lemma forward_h1_h2_ipv4:
  "forward fam4 (k + 4) (create_topology loss delay) H1 True (ipv4 10 0 2 2) = Some (Delivered H2)"
  unfolding fuel_Suc4
  by (simp add: topo_facts fwd_defs ipv4_def cong: option.case_cong_weak if_weak_cong)

lemma forward_h2_h1_ipv4:
  "forward fam4 (k + 4) (create_topology loss delay) H2 True (ipv4 10 0 1 2) = Some (Delivered H1)"
  unfolding fuel_Suc4
  by (simp add: topo_facts fwd_defs ipv4_def cong: option.case_cong_weak if_weak_cong)

lemma forward_h1_h2_ipv6:
  "forward fam6 (k + 4) (create_topology loss delay) H1 True (ipv6 [0x2001, 0xdb8, 0, 2, 0, 0, 0, 2])
     = Some (Delivered H2)"
  unfolding fuel_Suc4
  by (simp add: topo_facts fwd_defs ipv6_def cong: option.case_cong_weak if_weak_cong)

lemma forward_h2_h1_ipv6:
  "forward fam6 (k + 4) (create_topology loss delay) H2 True (ipv6 [0x2001, 0xdb8, 0, 1, 0, 0, 0, 2])
     = Some (Delivered H1)"
  unfolding fuel_Suc4
  by (simp add: topo_facts fwd_defs ipv6_def cong: option.case_cong_weak if_weak_cong)

subsection \<open>Properties of the emulated network\<close>

text \<open>C16. After \<open>create_topology\<close>, whatever loss and delay it is given, an IPv4
  packet from h1 to h2's address \<open>10.0.2.2\<close> is delivered to h2 through r1 and r2, and one
  from h2 to h1's \<open>10.0.1.2\<close> is delivered to h1: four hops of fuel suffice and more fuel
  changes nothing.\<close>

theorem create_topology_ipv4_reachable:
  "forward fam4 (k + 4) (create_topology loss delay) H1 True (ipv4 10 0 2 2) = Some (Delivered H2) \<and>
   forward fam4 (k + 4) (create_topology loss delay) H2 True (ipv4 10 0 1 2) = Some (Delivered H1)"
  by (intro conjI forward_h1_h2_ipv4 forward_h2_h1_ipv4)

text \<open>C17. The same for IPv6: h1 reaches h2 at \<open>2001:db8:0:2::2\<close> (the address the client
  of \<open>measure_metrics\<close> connects to) and h2 reaches h1 at \<open>2001:db8:0:1::2\<close>, through the
  routes of lines 54--55 and 63--64.\<close>

theorem create_topology_ipv6_reachable:
  "forward fam6 (k + 4) (create_topology loss delay) H1 True (ipv6 [0x2001, 0xdb8, 0, 2, 0, 0, 0, 2])
     = Some (Delivered H2) \<and>
   forward fam6 (k + 4) (create_topology loss delay) H2 True (ipv6 [0x2001, 0xdb8, 0, 1, 0, 0, 0, 2])
     = Some (Delivered H1)"
  by (intro conjI forward_h1_h2_ipv6 forward_h2_h1_ipv6)

text \<open>C18. Loss and delay are configured on exactly one link, the one between the routers
  (\<open>r1-eth1\<close>--\<open>r2-eth1\<close>), with the values passed to \<open>create_topology\<close>; the host links
  carry no impairment.\<close>

theorem create_topology_impairment:
  "[l \<leftarrow> links (create_topology loss delay). (l_loss l, l_delay l) \<noteq> (None, None)] =
     [\<lparr>l_a = (R1, 1), l_b = (R2, 1), l_loss = Some loss, l_delay = Some delay\<rparr>] \<and>
   map (intf_name \<circ> l_a) [l \<leftarrow> links (create_topology loss delay). l_loss l \<noteq> None] = [''r1-eth1''] \<and>
   map (intf_name \<circ> l_b) [l \<leftarrow> links (create_topology loss delay). l_loss l \<noteq> None] = [''r2-eth1'']"
  by (simp add: topo_links intf_name_def digits_nat.simps digit_char_def)

text \<open>C19. After \<open>net.stop()\<close> no node of the topology forwards IPv4 or IPv6 any more
  (\<open>LinuxRouter.terminate\<close> switched both off), no link is left and no packet is
  delivered anywhere.\<close>

theorem stop_net_quiescent:
  "pred_option (\<lambda>s. \<not> fwd4 s \<and> \<not> fwd6 s) (nodes (stop_net (create_topology loss delay)) n) \<and>
   links (stop_net (create_topology loss delay)) = [] \<and>
   forward fam k (stop_net (create_topology loss delay)) n origin dst \<in> {None, Some (Dropped n)}"
  using topo_nodes_some[of loss delay n]
  by (cases k; cases n) (auto simp: stop_net_def terminate_node_def topo_facts)

text \<open>C20. Every address the topology configures is reachable from every node: a packet
  sent from any of r1, r2, h1, h2 to any IPv4 or IPv6 address of a node is delivered to
  that node within four hops, whatever the loss and delay.\<close>

theorem create_topology_all_reachable:
  "(\<forall>e \<in> set (addrs4 (the (nodes (create_topology loss delay) m))).
      forward fam4 (k + 4) (create_topology loss delay) n True (fst (snd e)) = Some (Delivered m)) \<and>
   (\<forall>e \<in> set (addrs6 (the (nodes (create_topology loss delay) m))).
      forward fam6 (k + 4) (create_topology loss delay) n True (fst (snd e)) = Some (Delivered m))"
  unfolding fuel_Suc4
  by (cases m; cases n)
     (simp_all add: topo_facts fwd_defs ipv4_def ipv6_def cong: option.case_cong_weak if_weak_cong)

lemma create_topology_all_reachable_witness:
  "forward fam4 5 (create_topology 1 10) H1 True (ipv4 192 168 1 2) = Some (Delivered R2)"
  using create_topology_all_reachable[of 1 10 R2 1 H1] by (simp add: topo_facts)

text \<open>C21. There is no default route on the routers: a packet from h1 to any address
  outside the three subnets \<open>10.0.1.0/24\<close>, \<open>10.0.2.0/24\<close> and \<open>192.168.1.0/30\<close> is
  dropped at r1.\<close>

theorem create_topology_unknown_dropped:
  assumes "\<not> in_prefix (ipv4 10 0 1 0) 24 dst" and "\<not> in_prefix (ipv4 10 0 2 0) 24 dst"
    and "\<not> in_prefix (ipv4 192 168 1 0) 30 dst"
  shows "forward fam4 (Suc (Suc k)) (create_topology loss delay) H1 True dst = Some (Dropped R1)"
proof -
  have "dst \<noteq> ipv4 10 0 1 2" "dst \<noteq> ipv4 10 0 1 1" "dst \<noteq> ipv4 192 168 1 1"
    using assms by (auto simp: in_prefix_def ipv4_def)
  then show ?thesis
    using assms
    by (simp add: topo_facts fwd_defs ipv4_def cong: option.case_cong_weak if_weak_cong)
qed

lemma create_topology_unknown_dropped_witness:
  "forward fam4 (Suc (Suc 0)) (create_topology 1 10) H1 True (ipv4 8 8 8 8) = Some (Dropped R1)"
  by (rule create_topology_unknown_dropped) (simp_all add: in_prefix_def ipv4_def)

text \<open>The prefix test of the routing tables is the usual one: \<open>a\<close> is in \<open>p/n\<close>
  exactly when the two agree on the \<open>n\<close> most significant bits.\<close>

theorem in_prefix_bits:
  fixes p a :: "'a::len word"
  shows "in_prefix p n a \<longleftrightarrow> (\<forall>i. LENGTH('a) - n \<le> i \<longrightarrow> i < LENGTH('a) \<longrightarrow> bit a i = bit p i)"
proof -
  let ?k = "LENGTH('a) - n"
  have "in_prefix p n a \<longleftrightarrow> (\<forall>m < LENGTH('a). bit a (?k + m) = bit p (?k + m))"
    unfolding in_prefix_def bit_eq_iff by (simp add: bit_drop_bit_eq)
  also have "\<dots> \<longleftrightarrow> (\<forall>i. ?k \<le> i \<longrightarrow> i < LENGTH('a) \<longrightarrow> bit a i = bit p i)"
  proof (rule iffI; intro allI impI)
    fix i assume H: "\<forall>m < LENGTH('a). bit a (?k + m) = bit p (?k + m)"
      and i: "?k \<le> i" "i < LENGTH('a)"
    from H[rule_format, of "i - ?k"] i show "bit a i = bit p i" by simp
  next
    fix m assume "m < LENGTH('a)"
      and H: "\<forall>i. ?k \<le> i \<longrightarrow> i < LENGTH('a) \<longrightarrow> bit a i = bit p i"
    show "bit a (?k + m) = bit p (?k + m)"
    proof (cases "?k + m < LENGTH('a)")
      case True
      with H show ?thesis by simp
    next
      case False
      then show ?thesis by (auto dest: bit_imp_le_length)
    qed
  qed
  finally show ?thesis .
qed

text \<open>C22. The routing tables have no loop: from any node, for any destination of
  either family, the forwarding walk ends, with a delivery or a drop, within four hops.\<close>

theorem create_topology_loop_free:
  "forward fam4 (k + 4) (create_topology loss delay) n origin dst \<noteq> None \<and>
   forward fam6 (k + 4) (create_topology loss delay) n origin dst6 \<noteq> None"
  unfolding fuel_Suc4
  by (cases n) (simp_all add: topo_facts fwd_defs ipv4_def ipv6_def
                 cong: option.case_cong_weak if_weak_cong split: if_split)

text \<open>Every accepted command of the topology keeps the network well formed (link ends are
  existing ports, no interface carries two links), provided \<open>addHost\<close> names a new
  node; \<open>addLink\<close> in particular numbers the new ports past every port in use.\<close>

theorem topo_step_wf:
  assumes "wf_net t" and "cmd_ok t c"
  shows "wf_net (topo_step t c)"
proof (cases c)
  case (AddHost n router ip dflt)
  have "map_option ports (nodes (topo_step t c) m) = map_option ports (nodes t m)" if "m \<noteq> n" for m
    using that AddHost by simp
  then have "port_ok (topo_step t c) i = port_ok t i" if "i \<in> set (link_intfs t)" for i
    using that assms AddHost by (auto simp: port_ok_def wf_net_def list_all_iff)
  then show ?thesis
    using assms AddHost by (simp add: wf_net_def list_all_iff link_intfs_def)
next
  case (AddLink a b loss delay)
  then show ?thesis using assms(1) by (simp only: wf_net_AddLink)
next
  case Start
  then show ?thesis
    using assms(1) by (subst wf_net_same_ports) (simp_all add: option.map_comp comp_def)
next
  case Stop
  then show ?thesis
    by (simp add: wf_net_def link_intfs_def)
qed (simp_all add: assms(1) wf_net_update_node set_ip4_def topo_step_intf)

lemma cmds_ok_wf:
  "wf_net t \<Longrightarrow> cmds_ok t cs \<Longrightarrow> wf_net (run_topo t (take k cs))"
proof (induction cs arbitrary: t k)
  case Nil
  then show ?case by (simp add: run_topo_def)
next
  case (Cons c cs)
  then show ?case
    using topo_step_wf[OF Cons.prems(1)]
    by (cases k) (simp_all add: run_topo_def)
qed

lemma wf_empty_net: "wf_net empty_net"
  by (simp add: wf_net_def link_intfs_def empty_net_def)

text \<open>C23. Mininet and Linux accept every command \<open>create_topology\<close> issues, in the
  order it issues them: each host name is new, each link joins added nodes, each address
  goes on an existing interface, and each static route's gateway is on a connected
  subnet. So every network built on the way is well formed.\<close>

theorem create_topology_cmds_ok:
  "cmds_ok empty_net (create_topology_cmds loss delay) \<and>
   (\<forall>k. wf_net (run_topo empty_net (take k (create_topology_cmds loss delay))))"
proof
  show c: "cmds_ok empty_net (create_topology_cmds loss delay)"
    by (simp add: create_topology_cmds_def empty_net_def new_node_def update_node_def set_ip4_def
        add_route_def onlink_port_def port_ok_def in_prefix_def ipv4_def ipv6_def)
  show "\<forall>k. wf_net (run_topo empty_net (take k (create_topology_cmds loss delay)))"
    using cmds_ok_wf[OF wf_empty_net c] by blast
qed

end
