(* ===== verification/Json.thy ===== *)
theory Json
  imports Prelude
begin

text \<open>
  The value \<open>json.loads\<close> returns for the measurement tool's \<open>-J\<close> output, and the
  Python operations the script applies to it: subscripts \<open>x[k]\<close> and chains of them,
  \<open>dict.get\<close> with a default, iteration (in \<open>sum(... for stream in streams)\<close>) and the
  use of a value as a number. Every failure is the exception CPython raises.
  JSON objects are association lists in document order; \<open>json.loads\<close> keeps the
  last value of a duplicated key, so lookup searches from the end.
\<close>

datatype json =
    JNull
  | JBool bool
  | JNum real
  | JStr string
  | JArr "json list"
  | JObj "(string \<times> json) list"

definition obj_lookup :: "(string \<times> json) list \<Rightarrow> string \<Rightarrow> json option" where
  "obj_lookup kvs k = map_of (rev kvs) k"

text \<open>\<open>x[k]\<close>.\<close>

fun py_getitem :: "json \<Rightarrow> py_key \<Rightarrow> json py_result" where
  "py_getitem (JObj kvs) (KStr k) =
     (case obj_lookup kvs k of None \<Rightarrow> Inl (KeyError (KStr k)) | Some v \<Rightarrow> Inr v)"
| "py_getitem (JObj kvs) (KIdx i) = Inl (KeyError (KIdx i))"
| "py_getitem (JArr xs) (KIdx i) = py_index xs i"
| "py_getitem (JStr s) (KIdx i) = rbind (py_index s i) (\<lambda>c. Inr (JStr [c]))"
| "py_getitem _ _ = Inl TypeError"

text \<open>\<open>x[k1][k2]...[kn]\<close>, evaluated left to right.\<close>

fun py_get_path :: "json \<Rightarrow> py_key list \<Rightarrow> json py_result" where
  "py_get_path v [] = Inr v"
| "py_get_path v (k # ks) = rbind (py_getitem v k) (\<lambda>w. py_get_path w ks)"

text \<open>\<open>x.get(k, default)\<close>: only dictionaries have \<open>get\<close>.\<close>

fun py_dict_get :: "json \<Rightarrow> string \<Rightarrow> json \<Rightarrow> json py_result" where
  "py_dict_get (JObj kvs) k d = Inr (case obj_lookup kvs k of None \<Rightarrow> d | Some v \<Rightarrow> v)"
| "py_dict_get _ k d = Inl AttributeError"

text \<open>A value used in arithmetic: numbers, and booleans as 0 and 1.\<close>

fun py_num :: "json \<Rightarrow> real py_result" where
  "py_num (JNum r) = Inr r"
| "py_num (JBool b) = Inr (of_bool b)"
| "py_num _ = Inl TypeError"

text \<open>\<open>for x in v\<close>: a list yields its elements, a dictionary its distinct keys in
  order of first appearance, a string its characters.\<close>

fun py_iter :: "json \<Rightarrow> json list py_result" where
  "py_iter (JArr xs) = Inr xs"
| "py_iter (JObj kvs) = Inr (map JStr (rev (remdups (rev (map fst kvs)))))"
| "py_iter (JStr s) = Inr (map (\<lambda>c. JStr [c]) s)"
| "py_iter _ = Inl TypeError"

text \<open>\<open>a / b\<close> on two values read from the document.\<close>

definition py_truediv :: "json \<Rightarrow> json \<Rightarrow> real py_result" where
  "py_truediv a b =
     rbind (py_num a) (\<lambda>x. rbind (py_num b) (\<lambda>y.
       if y = 0 then Inl ZeroDivisionError else Inr (x / y)))"

subsection \<open>Lookup along paths\<close>

text \<open>A path of a claim is a literal list; unfolding it would turn a hypothesis
  \<open>py_get_path d [k1, k2] = Inr v\<close> into nested existentials, so the recursion
  equations are used by name (\<open>json_eval\<close>) where a concrete document is evaluated.\<close>

declare py_get_path.simps(2) [simp del]

lemmas json_eval = py_get_path.simps obj_lookup_def

lemma py_get_path_append:
  "py_get_path v (ks @ ls) = rbind (py_get_path v ks) (\<lambda>w. py_get_path w ls)"
  by (induction ks arbitrary: v) (auto simp: rbind_def py_get_path.simps split: sum.split)

lemma py_get_path_single [simp]: "py_get_path v [k] = py_getitem v k"
  by (cases "py_getitem v k") (simp_all add: py_get_path.simps)

lemma py_get_path_prefix_Inl:
  "py_get_path v ks = Inl e \<Longrightarrow> py_get_path v (ks @ ls) = Inl e"
  by (simp add: py_get_path_append)

lemma py_get_path_prefix_Inr:
  "py_get_path v ks = Inr w \<Longrightarrow> py_get_path v (ks @ ls) = py_get_path w ls"
  by (simp add: py_get_path_append)

lemma obj_lookup_Cons:
  "obj_lookup ((k', v) # kvs) k =
     (case obj_lookup kvs k of None \<Rightarrow> (if k = k' then Some v else None) | Some w \<Rightarrow> Some w)"
  by (simp add: obj_lookup_def map_add_def split: option.split)

lemma obj_lookup_Nil [simp]: "obj_lookup [] k = None"
  by (simp add: obj_lookup_def)

lemma obj_lookup_None_iff: "obj_lookup kvs k = None \<longleftrightarrow> k \<notin> fst ` set kvs"
  by (simp add: obj_lookup_def map_of_eq_None_iff)

lemma py_getitem_obj [py_simps]:
  "obj_lookup kvs k = Some v \<Longrightarrow> py_getitem (JObj kvs) (KStr k) = Inr v"
  "obj_lookup kvs k = None \<Longrightarrow> py_getitem (JObj kvs) (KStr k) = Inl (KeyError (KStr k))"
  by simp_all

lemma py_truediv_ok [py_simps]:
  "py_truediv (JNum x) (JNum y) = (if y = 0 then Inl ZeroDivisionError else Inr (x / y))"
  by (simp add: py_truediv_def)

end
