(* ===== verification/Metrics.thy ===== *)
theory Metrics
  imports Json
begin

text \<open>
  The metrics extractor: the \<open>try\<close> block of \<open>measure_metrics\<close> in
  \<open>src/script.py\<close> (lines 107--131), which reads the measurement tool's JSON result
  and builds one dataset row. Statements are evaluated in the order of the source,
  so the exception a malformed document raises is the one CPython raises first.
  \<open>extract_metrics\<close> returns the row or that exception; the caller
  (\<open>Driver.measure_metrics\<close>) catches only \<open>KeyError\<close>.
\<close>

text \<open>The dictionary appended to \<open>metrics\<close> (lines 122--131), one field per column.
  Retransmissions and mean RTT are stored as read from the document; packet loss is
  the string \<open>"{:.2f}".format(...)\<close> produces.\<close>

record metrics_row =
  m_id :: int
  m_tcp :: string
  m_ip :: string
  m_throughput :: real
  m_packet_loss :: string
  m_rtt :: json
  m_retrans :: json
  m_cpu :: real

text \<open>\<open>stream['receiver']['bits_per_second']\<close>, used as a number by \<open>sum\<close>.\<close>

definition stream_receiver_bps :: "json \<Rightarrow> real py_result" where
  "stream_receiver_bps s =
     rbind (py_get_path s [KStr ''receiver'', KStr ''bits_per_second'']) py_num"

text \<open>\<open>sum(stream['receiver']['bits_per_second'] for stream in streams)\<close>.\<close>

fun sum_stream_bps :: "json list \<Rightarrow> real py_result" where
  "sum_stream_bps [] = Inr 0"
| "sum_stream_bps (s # ss) =
     rbind (stream_receiver_bps s) (\<lambda>x. rbind (sum_stream_bps ss) (\<lambda>y. Inr (x + y)))"

text \<open>Lines 109--113: the receiver throughput in bits per second.\<close>

definition extract_throughput_bps :: "json \<Rightarrow> int \<Rightarrow> real py_result" where
  "extract_throughput_bps d connections =
     (if 1 < connections then
        rbind (py_get_path d [KStr ''end'', KStr ''streams'']) (\<lambda>streams.
        rbind (py_iter streams) (\<lambda>ss.
        rbind (sum_stream_bps ss) (\<lambda>total. Inr (total / of_int connections))))
      else rbind (py_get_path d [KStr ''end'', KStr ''sum_received'', KStr ''bits_per_second''])
             py_num)"

text \<open>Line 120: \<open>(retransmissions / total_packets_sent) * 100 if total_packets_sent > 0
  else 0\<close>; the division is evaluated only when the guard holds.\<close>

definition packet_loss_value :: "json \<Rightarrow> real \<Rightarrow> real py_result" where
  "packet_loss_value retransmissions total_packets_sent =
     (if 0 < total_packets_sent
      then rbind (py_num retransmissions) (\<lambda>r. Inr (r / total_packets_sent * 100))
      else Inr 0)"

text \<open>Lines 109--131.\<close>

definition extract_metrics ::
  "json \<Rightarrow> int \<Rightarrow> int \<Rightarrow> string \<Rightarrow> string \<Rightarrow> real \<Rightarrow> metrics_row py_result" where
  "extract_metrics iperf_data connections test_id tcp_version ip_version avg_cpu_usage =
     rbind (extract_throughput_bps iperf_data connections) (\<lambda>throughput_bps.
     let throughput_gbps = py_round2 (throughput_bps / 1000000000) in
     rbind (py_get_path iperf_data [KStr ''end'', KStr ''sum_sent'', KStr ''retransmits''])
       (\<lambda>retransmissions.
     rbind (rbind (py_get_path iperf_data
                     [KStr ''end'', KStr ''streams'', KIdx 0, KStr ''sender''])
              (\<lambda>sender. py_dict_get sender ''mean_rtt'' (JNum 0))) (\<lambda>mean_rtt.
     rbind (py_get_path iperf_data [KStr ''end'', KStr ''sum_sent'', KStr ''bytes''])
       (\<lambda>total_bytes_sent.
     rbind (py_get_path iperf_data [KStr ''start'', KStr ''tcp_mss_default'']) (\<lambda>tcp_mss.
     rbind (py_truediv total_bytes_sent tcp_mss) (\<lambda>q.
     let total_packets_sent = py_round2 q in
     rbind (packet_loss_value retransmissions total_packets_sent) (\<lambda>loss.
     Inr \<lparr>m_id = test_id, m_tcp = tcp_version, m_ip = ip_version,
          m_throughput = throughput_gbps, m_packet_loss = fmt2 loss,
          m_rtt = mean_rtt, m_retrans = retransmissions, m_cpu = avg_cpu_usage\<rparr>)))))))"

text \<open>A document of the shape \<open>iperf3 -J\<close> reports (\<open>spec.md\<close> section 6): one
  entry per parallel stream with its sender RTT and receiver throughput, the sender
  totals and the negotiated MSS.\<close>

definition iperf_doc :: "real list \<Rightarrow> real \<Rightarrow> json \<Rightarrow> real \<Rightarrow> real \<Rightarrow> real \<Rightarrow> json" where
  "iperf_doc bps sum_bps retr sent mss rtt =
     JObj [(''start'', JObj [(''tcp_mss_default'', JNum mss)]),
           (''end'', JObj
              [(''streams'', JArr (map (\<lambda>b. JObj
                   [(''sender'', JObj [(''mean_rtt'', JNum rtt)]),
                    (''receiver'', JObj [(''bits_per_second'', JNum b)])]) bps)),
               (''sum_sent'', JObj [(''bytes'', JNum sent), (''retransmits'', retr)]),
               (''sum_received'', JObj [(''bits_per_second'', JNum sum_bps)])])]"

text \<open>The same document when \<open>iperf3\<close> reports no \<open>mean_rtt\<close> in the sender
  statistics of its streams.\<close>

definition iperf_doc_no_rtt :: "real list \<Rightarrow> real \<Rightarrow> json \<Rightarrow> real \<Rightarrow> real \<Rightarrow> json" where
  "iperf_doc_no_rtt bps sum_bps retr sent mss =
     JObj [(''start'', JObj [(''tcp_mss_default'', JNum mss)]),
           (''end'', JObj
              [(''streams'', JArr (map (\<lambda>b. JObj
                   [(''sender'', JObj []),
                    (''receiver'', JObj [(''bits_per_second'', JNum b)])]) bps)),
               (''sum_sent'', JObj [(''bytes'', JNum sent), (''retransmits'', retr)]),
               (''sum_received'', JObj [(''bits_per_second'', JNum sum_bps)])])]"

text \<open>A two-stream result: 4 and 2 Gbit/s received, 144800 bytes sent in segments of
  1448 bytes (100 packets), 3 retransmissions, 12 ms mean RTT.\<close>

abbreviation sample_doc :: json where
  "sample_doc \<equiv> iperf_doc [4000000000, 2000000000] 6000000000 (JNum 3) 144800 1448 12"

abbreviation sample_row :: metrics_row where
  "sample_row \<equiv> \<lparr>m_id = 1, m_tcp = ''cubic'', m_ip = ''IPv4'', m_throughput = 3,
      m_packet_loss = ''3.00'', m_rtt = JNum 12, m_retrans = JNum 3, m_cpu = 5\<rparr>"

lemmas extract_defs = extract_metrics_def extract_throughput_bps_def packet_loss_value_def
  py_truediv_def Let_def

subsection \<open>Throughput\<close>

lemma sum_stream_bps_map:
  "map stream_receiver_bps ss = map Inr bs \<Longrightarrow> sum_stream_bps ss = Inr (sum_list bs)"
proof (induction ss arbitrary: bs)
  case Nil
  then show ?case by simp
next
  case (Cons s ss)
  then obtain b bs' where "bs = b # bs'" and "stream_receiver_bps s = Inr b"
    and "map stream_receiver_bps ss = map Inr bs'"
    by (cases bs) auto
  with Cons.IH show ?case by simp
qed

lemma extract_throughput_streams:
  assumes "1 < c"
    and "py_get_path d [KStr ''end'', KStr ''streams''] = Inr (JArr ss)"
    and "map stream_receiver_bps ss = map Inr bs"
  shows "extract_throughput_bps d c = Inr (sum_list bs / of_int c)"
  using assms by (auto simp: extract_throughput_bps_def sum_stream_bps_map)

lemma sum_stream_bps_doc:
  "sum_stream_bps (map (\<lambda>b. JObj [(''sender'', snd_stats),
      (''receiver'', JObj [(''bits_per_second'', JNum b)])]) bps) = Inr (sum_list bps)"
  by (induction bps) (simp_all add: stream_receiver_bps_def json_eval)

lemma sample_doc_extract:
  "extract_metrics sample_doc 2 1 ''cubic'' ''IPv4'' 5 = Inr sample_row"
proof -
  have "fmt2 3 = ''3.00''"
    by (simp add: fmt2_def round_half_even_def two_digits_def digits_nat.simps digit_char_def)
  then show ?thesis
    by (simp add: extract_defs iperf_doc_def json_eval stream_receiver_bps_def)
qed

lemma sample_doc_paths:
  "py_get_path sample_doc [KStr ''end'', KStr ''streams''] =
     Inr (JArr (map (\<lambda>b. JObj [(''sender'', JObj [(''mean_rtt'', JNum 12)]),
        (''receiver'', JObj [(''bits_per_second'', JNum b)])]) [4000000000, 2000000000]))"
  "py_get_path sample_doc [KStr ''end'', KStr ''sum_sent'', KStr ''bytes''] = Inr (JNum 144800)"
  "py_get_path sample_doc [KStr ''start'', KStr ''tcp_mss_default''] = Inr (JNum 1448)"
  "py_get_path sample_doc [KStr ''end'', KStr ''sum_sent'', KStr ''retransmits''] = Inr (JNum 3)"
  "py_get_path sample_doc [KStr ''end'', KStr ''streams'', KIdx 0, KStr ''sender''] =
     Inr (JObj [(''mean_rtt'', JNum 12)])"
  by (simp_all add: iperf_doc_def json_eval)

subsection \<open>Properties of the extractor\<close>

text \<open>C1. With more than one connection and one stream entry per connection, the
  extracted throughput is the arithmetic mean of the per-stream receiver throughputs,
  in Gbit/s rounded to two decimals.\<close>

theorem extract_throughput_mean:
  assumes "extract_metrics d c i tcp ip cpu = Inr r"
    and "1 < c"
    and "py_get_path d [KStr ''end'', KStr ''streams''] = Inr (JArr ss)"
    and "map stream_receiver_bps ss = map Inr bs"
    and "length ss = nat c"
  shows "m_throughput r = py_round2 (sum_list bs / of_nat (length bs) / 1000000000)"
proof -
  have t: "extract_throughput_bps d c = Inr (sum_list bs / of_int c)"
    using assms(2-4) by (rule extract_throughput_streams)
  have "length bs = length ss"
    using arg_cong[OF assms(4), of length] by simp
  with assms(2,5) have "of_nat (length bs) = (of_int c :: real)"
    by simp
  with t assms(1) show ?thesis
    by (auto simp: extract_metrics_def Let_def)
qed

theorem extract_throughput_mean_witness:
  "extract_metrics sample_doc 2 1 ''cubic'' ''IPv4'' 5 = Inr sample_row \<and>
   m_throughput sample_row = py_round2 (sum_list [4000000000, 2000000000] / 2 / 1000000000)"
proof -
  let ?ss = "map (\<lambda>b. JObj [(''sender'', JObj [(''mean_rtt'', JNum 12)]),
        (''receiver'', JObj [(''bits_per_second'', JNum b)])]) [4000000000::real, 2000000000]"
  have m: "map stream_receiver_bps ?ss = map Inr [4000000000, 2000000000]"
    by (simp add: stream_receiver_bps_def json_eval)
  have "m_throughput sample_row =
        py_round2 (sum_list [4000000000, 2000000000] / of_nat (length [4000000000::real, 2000000000]) / 1000000000)"
    using extract_throughput_mean [OF sample_doc_extract _ sample_doc_paths(1) m] by simp
  then show ?thesis using sample_doc_extract by simp
qed

text \<open>C2. Where the total number of packets sent is positive, the packet loss is
  \<open>retransmissions / total_packets_sent * 100\<close> printed with two decimals, the total
  being \<open>bytes / mss\<close> rounded to two decimals.\<close>

theorem extract_packet_loss:
  assumes "extract_metrics d c i tcp ip cpu = Inr r"
    and "py_get_path d [KStr ''end'', KStr ''sum_sent'', KStr ''bytes''] = Inr (JNum b)"
    and "py_get_path d [KStr ''start'', KStr ''tcp_mss_default''] = Inr (JNum m)"
    and "py_get_path d [KStr ''end'', KStr ''sum_sent'', KStr ''retransmits''] = Inr (JNum rt)"
    and "0 < py_round2 (b / m)"
  shows "m_packet_loss r = fmt2 (rt / py_round2 (b / m) * 100)"
  using assms
  by (auto simp: extract_metrics_def packet_loss_value_def py_truediv_def Let_def split: if_splits)

theorem extract_packet_loss_witness:
  "m_packet_loss sample_row = fmt2 (3 / py_round2 (144800 / 1448) * 100) \<and>
   0 < py_round2 (144800 / 1448)"
proof -
  have pos: "0 < py_round2 (144800 / 1448)"
    by simp
  show ?thesis
    using extract_packet_loss [OF sample_doc_extract sample_doc_paths(2,3,4) pos] pos by simp
qed

text \<open>C3. Where the total number of packets sent rounds to zero, extraction does not
  fail on the packet-loss step (not even on a non-numeric retransmission count, which
  is then never divided) and the packet loss is \<open>0.00\<close>.\<close>

theorem extract_zero_packets:
  assumes "extract_throughput_bps d c = Inr t"
    and "py_get_path d [KStr ''end'', KStr ''sum_sent'', KStr ''retransmits''] = Inr rv"
    and "py_get_path d [KStr ''end'', KStr ''streams'', KIdx 0, KStr ''sender''] = Inr (JObj kvs)"
    and "py_get_path d [KStr ''end'', KStr ''sum_sent'', KStr ''bytes''] = Inr (JNum b)"
    and "py_get_path d [KStr ''start'', KStr ''tcp_mss_default''] = Inr (JNum m)"
    and "m \<noteq> 0" and "py_round2 (b / m) = 0"
  shows "\<exists>r. extract_metrics d c i tcp ip cpu = Inr r \<and> m_packet_loss r = ''0.00''"
  using assms by (simp add: extract_metrics_def packet_loss_value_def py_truediv_def)

theorem extract_zero_packets_witness:
  "\<exists>r. extract_metrics (iperf_doc [4000000000, 2000000000] 6000000000 (JStr ''n/a'') 0 1448 12)
         2 1 ''cubic'' ''IPv4'' 5 = Inr r \<and> m_packet_loss r = ''0.00''"
proof -
  let ?d = "iperf_doc [4000000000, 2000000000] 6000000000 (JStr ''n/a'') 0 1448 12"
  have t: "extract_throughput_bps ?d 2 = Inr 3000000000"
    by (simp add: extract_throughput_bps_def iperf_doc_def json_eval stream_receiver_bps_def)
  have p: "py_get_path ?d [KStr ''end'', KStr ''sum_sent'', KStr ''retransmits''] = Inr (JStr ''n/a'')"
    "py_get_path ?d [KStr ''end'', KStr ''streams'', KIdx 0, KStr ''sender''] =
       Inr (JObj [(''mean_rtt'', JNum 12)])"
    "py_get_path ?d [KStr ''end'', KStr ''sum_sent'', KStr ''bytes''] = Inr (JNum 0)"
    "py_get_path ?d [KStr ''start'', KStr ''tcp_mss_default''] = Inr (JNum 1448)"
    by (simp_all add: iperf_doc_def json_eval)
  show ?thesis
    by (rule extract_zero_packets [OF t p]) simp_all
qed

text \<open>C4. A result without an \<open>end\<close> section fails with \<open>KeyError('end')\<close>, on both
  throughput branches, and produces no row.\<close>

theorem extract_missing_end:
  "obj_lookup kvs ''end'' = None \<Longrightarrow>
   extract_metrics (JObj kvs) c i tcp ip cpu = Inl (KeyError (KStr ''end''))"
  by (simp add: extract_metrics_def extract_throughput_bps_def py_get_path.simps)

theorem extract_missing_end_witness:
  "extract_metrics (JObj [(''start'', JObj [(''tcp_mss_default'', JNum 1448)])]) 4 1 ''bbr'' ''IPv6'' 7
     = Inl (KeyError (KStr ''end''))"
  by (rule extract_missing_end) (simp add: obj_lookup_def)

text \<open>C5. A result whose streams report no \<open>mean_rtt\<close> is not an error (line 116
  reads it with \<open>.get\<close> and a default): extraction succeeds with the row of C6 and a
  mean RTT of 0.\<close>

theorem extract_rtt_default:
  assumes "bps \<noteq> []" and "mss \<noteq> 0"
  shows "extract_metrics (iperf_doc_no_rtt bps sum_bps (JNum rt) sent mss) c i tcp ip cpu =
    Inr \<lparr>m_id = i, m_tcp = tcp, m_ip = ip,
         m_throughput = py_round2 ((if 1 < c then sum_list bps / of_int c else sum_bps) / 1000000000),
         m_packet_loss = fmt2 (let tps = py_round2 (sent / mss) in if 0 < tps then rt / tps * 100 else 0),
         m_rtt = JNum 0, m_retrans = JNum rt, m_cpu = cpu\<rparr>"
  using assms
  by (simp add: extract_defs iperf_doc_no_rtt_def json_eval sum_stream_bps_doc py_index_hd hd_map)

theorem extract_rtt_default_witness:
  "[4000000000, 2000000000::real] \<noteq> [] \<and> (1448::real) \<noteq> 0 \<and>
   extract_metrics (iperf_doc_no_rtt [4000000000, 2000000000] 6000000000 (JNum 3) 144800 1448)
       2 1 ''cubic'' ''IPv4'' 5 =
    Inr \<lparr>m_id = 1, m_tcp = ''cubic'', m_ip = ''IPv4'',
         m_throughput = py_round2 ((if 1 < (2::int) then sum_list [4000000000, 2000000000] / of_int 2
                                    else 6000000000) / 1000000000),
         m_packet_loss = fmt2 (let tps = py_round2 (144800 / 1448) in if 0 < tps then 3 / tps * 100 else 0),
         m_rtt = JNum 0, m_retrans = JNum 3, m_cpu = 5\<rparr>"
  using extract_rtt_default [of "[4000000000, 2000000000]" 1448 6000000000 3 144800 2 1 "''cubic''" "''IPv4''" 5]
  by simp

text \<open>C6. On a result of the documented shape the extractor succeeds and returns
  exactly: the mean over the stream entries (more than one connection) or the
  aggregate receiver throughput (otherwise) in Gbit/s, the packet loss of C2/C3, the
  first stream's RTT, the retransmission count and the CPU sample it was given.\<close>

theorem extract_metrics_doc:
  assumes "bps \<noteq> []" and "mss \<noteq> 0"
  shows "extract_metrics (iperf_doc bps sum_bps (JNum rt) sent mss rtt) c i tcp ip cpu =
    Inr \<lparr>m_id = i, m_tcp = tcp, m_ip = ip,
         m_throughput = py_round2 ((if 1 < c then sum_list bps / of_int c else sum_bps) / 1000000000),
         m_packet_loss = fmt2 (let tps = py_round2 (sent / mss) in if 0 < tps then rt / tps * 100 else 0),
         m_rtt = JNum rtt, m_retrans = JNum rt, m_cpu = cpu\<rparr>"
  using assms
  by (simp add: extract_defs iperf_doc_def json_eval sum_stream_bps_doc py_index_hd hd_map)

theorem extract_metrics_doc_witness:
  "[4000000000, 2000000000::real] \<noteq> [] \<and> (1448::real) \<noteq> 0 \<and>
   extract_metrics sample_doc 2 1 ''cubic'' ''IPv4'' 5 =
    Inr \<lparr>m_id = 1, m_tcp = ''cubic'', m_ip = ''IPv4'',
         m_throughput = py_round2 ((if 1 < (2::int) then sum_list [4000000000, 2000000000] / of_int 2
                                    else 6000000000) / 1000000000),
         m_packet_loss = fmt2 (let tps = py_round2 (144800 / 1448) in if 0 < tps then 3 / tps * 100 else 0),
         m_rtt = JNum 12, m_retrans = JNum 3, m_cpu = 5\<rparr>"
  using extract_metrics_doc [of "[4000000000, 2000000000]" 1448 6000000000 3 144800 12 2 1 "''cubic''" "''IPv4''" 5]
  by simp

end
