(* ===== verification/Dataset.thy ===== *)
theory Dataset
  imports Metrics "HOL-Library.AList"
begin

text \<open>
  The dataset store: the directory \<open>dataset/\<close> of CSV tables, one per
  (IP version, algorithm). \<open>clear_datasets\<close> (\<open>src/script.py\<close> lines 154--161)
  truncates every \<open>.csv\<close> file; the tail of \<open>measure_metrics\<close> (lines 136--146)
  opens the group's table in append mode, writes the header when the file is empty and
  then the rows. The directory is an association list from file names (as
  \<open>os.listdir\<close> returns them) to contents; a table is a list of lines, the header
  or one row. How \<open>csv.DictWriter\<close> prints a number is not modelled: a row is kept
  as the dictionary it was written from, and \<open>read_csv\<close> gives the rows back.
\<close>

text \<open>Lines 139--142.\<close>

definition fieldnames :: "string list" where
  "fieldnames = [''ID'', ''TCP Version'', ''IP Version'', ''Throughput (Gbps)'',
                 ''Packet Loss (%)'', ''Mean RTT (ms)'', ''Retransmissions'', ''CPU Usage (%)'']"

datatype csv_line = HeaderLine "string list" | DataLine metrics_row

type_synonym csv_file = "csv_line list"
type_synonym dataset_dir = "(string \<times> csv_file) list"

text \<open>Line 137, the name inside \<open>dataset/\<close>.\<close>

definition dataset_filename :: "string \<Rightarrow> string \<Rightarrow> string" where
  "dataset_filename ip_version tcp_version =
     ''dataset_'' @ py_lower ip_version @ ''_'' @ py_lower tcp_version @ ''.csv''"

text \<open>\<open>open(name, 'a')\<close> creates a missing file empty.\<close>

definition file_content :: "dataset_dir \<Rightarrow> string \<Rightarrow> csv_file" where
  "file_content dir name = (case map_of dir name of None \<Rightarrow> [] | Some c \<Rightarrow> c)"

text \<open>Lines 138--146: the header only when \<open>csvfile.tell() == 0\<close>, then
  \<open>writer.writerows(metrics)\<close>.\<close>

definition write_rows :: "dataset_dir \<Rightarrow> string \<Rightarrow> metrics_row list \<Rightarrow> dataset_dir" where
  "write_rows dir name metrics =
     (let cur = file_content dir name;
          header = (if cur = [] then [HeaderLine fieldnames] else [])
      in AList.update name (cur @ header @ map DataLine metrics) dir)"

text \<open>Lines 154--161: every listed file ending in \<open>.csv\<close> is truncated.\<close>

definition clear_datasets :: "dataset_dir \<Rightarrow> dataset_dir" where
  "clear_datasets dir =
     map (\<lambda>(name, c). (name, if py_endswith name ''.csv'' then [] else c)) dir"

text \<open>\<open>pd.read_csv\<close> on a table: the first line is the header; an empty file raises
  \<open>EmptyDataError\<close>, a \<open>ValueError\<close>.\<close>

fun read_csv :: "csv_file \<Rightarrow> metrics_row list py_result" where
  "read_csv [] = Inl ValueError"
| "read_csv (l # ls) = Inr [r. DataLine r \<leftarrow> ls]"

subsection \<open>The table invariant\<close>

text \<open>A table is empty, or the header followed by rows only: the header is written
  exactly once.\<close>

fun is_data :: "csv_line \<Rightarrow> bool" where
  "is_data (DataLine _) = True"
| "is_data (HeaderLine _) = False"

definition wf_table :: "csv_file \<Rightarrow> bool" where
  "wf_table c = (c = [] \<or> (hd c = HeaderLine fieldnames \<and> list_all is_data (tl c)))"

definition dataset_ok :: "dataset_dir \<Rightarrow> bool" where
  "dataset_ok dir = (distinct (map fst dir) \<and> list_all (\<lambda>(_, c). wf_table c) dir)"

text \<open>The two operations the rest of the script performs on the store, as
  \<open>spec.md\<close> 4.4 names them (\<open>clear\<close>, \<open>append\<close>), and a run of them.\<close>

datatype store_op = Clear | Append string "metrics_row list"

fun store_step :: "dataset_dir \<Rightarrow> store_op \<Rightarrow> dataset_dir" where
  "store_step dir Clear = clear_datasets dir"
| "store_step dir (Append name rows) = write_rows dir name rows"

definition run_store :: "dataset_dir \<Rightarrow> store_op list \<Rightarrow> dataset_dir" where
  "run_store dir ops = foldl store_step dir ops"

text \<open>The rows a table holds, in file order.\<close>

definition rows_of :: "csv_file \<Rightarrow> metrics_row list" where
  "rows_of c = [r. DataLine r \<leftarrow> c]"

subsection \<open>Lemmas on the store\<close>

lemma file_content_update [simp]:
  "file_content (AList.update n c dir) m = (if m = n then c else file_content dir m)"
  by (simp add: file_content_def update_conv')

lemma file_content_write_rows:
  "file_content (write_rows dir n rs) m =
     (if m = n then file_content dir n @ (if file_content dir n = [] then [HeaderLine fieldnames] else [])
                     @ map DataLine rs
      else file_content dir m)"
  by (simp add: write_rows_def Let_def)

lemma map_of_clear:
  "map_of (clear_datasets dir) m =
     map_option (\<lambda>c. if py_endswith m ''.csv'' then [] else c) (map_of dir m)"
  by (induction dir) (auto simp: clear_datasets_def)

lemma file_content_clear:
  "file_content (clear_datasets dir) m =
     (if py_endswith m ''.csv'' then [] else file_content dir m)"
  by (simp add: file_content_def map_of_clear split: option.split)

lemma dataset_filename_csv [simp]: "py_endswith (dataset_filename ip tcp) ''.csv''"
  by (simp add: dataset_filename_def py_endswith_def)

lemma rows_of_append [simp]: "rows_of (a @ b) = rows_of a @ rows_of b"
  by (simp add: rows_of_def)

lemma rows_of_simps [simp]:
  "rows_of [] = []" "rows_of (HeaderLine h # c) = rows_of c" "rows_of (DataLine r # c) = r # rows_of c"
  "rows_of (map DataLine rs) = rs"
  by (simp_all add: rows_of_def) (induction rs, simp_all)

lemma wf_table_extend:
  "wf_table c \<Longrightarrow> wf_table (c @ (if c = [] then [HeaderLine fieldnames] else []) @ map DataLine rs)"
  by (cases c) (auto simp: wf_table_def list_all_iff)

lemma read_csv_wf:
  "wf_table c \<Longrightarrow> c \<noteq> [] \<Longrightarrow> read_csv c = Inr (rows_of c)"
  by (cases c) (auto simp: wf_table_def rows_of_def)

lemma distinct_clear: "map fst (clear_datasets dir) = map fst dir"
  by (induction dir) (auto simp: clear_datasets_def)

lemma set_update_subset: "set (AList.update k v al) \<subseteq> insert (k, v) (set al)"
  by (induction al) auto

lemma wf_file_content:
  "dataset_ok dir \<Longrightarrow> wf_table (file_content dir n)"
  by (auto simp: dataset_ok_def file_content_def list_all_iff wf_table_def
      dest: map_of_SomeD split: option.split)

lemma dataset_ok_write_rows:
  assumes "dataset_ok dir"
  shows "dataset_ok (write_rows dir n rs)"
proof -
  let ?c = "file_content dir n @ (if file_content dir n = [] then [HeaderLine fieldnames] else [])
              @ map DataLine rs"
  have "wf_table ?c"
    using wf_file_content [OF assms] by (rule wf_table_extend)
  then have "\<forall>(m, c) \<in> set (AList.update n ?c dir). wf_table c"
    using assms set_update_subset [of n ?c dir] by (auto simp: dataset_ok_def list_all_iff)
  then show ?thesis
    using assms by (simp add: dataset_ok_def write_rows_def Let_def distinct_update list_all_iff)
qed

lemma wf_table_Nil [simp]: "wf_table []"
  by (simp add: wf_table_def)

lemma dataset_ok_clear:
  assumes "dataset_ok dir"
  shows "dataset_ok (clear_datasets dir)"
proof -
  have "distinct (map fst (clear_datasets dir))"
    using assms by (simp add: dataset_ok_def distinct_clear)
  moreover have "list_all (\<lambda>(_, c). wf_table c) (clear_datasets dir)"
    using assms by (fastforce simp: dataset_ok_def list_all_iff clear_datasets_def)
  ultimately show ?thesis by (simp add: dataset_ok_def)
qed

lemma dataset_ok_store_step: "dataset_ok dir \<Longrightarrow> dataset_ok (store_step dir op)"
  by (cases op) (simp_all add: dataset_ok_write_rows dataset_ok_clear)

lemma dataset_ok_run_store: "dataset_ok dir \<Longrightarrow> dataset_ok (run_store dir ops)"
  unfolding run_store_def
  by (induction ops arbitrary: dir) (simp_all add: dataset_ok_store_step)

lemma header_count_wf:
  "wf_table c \<Longrightarrow> length (filter (\<lambda>l. \<not> is_data l) c) = (if c = [] then 0 else 1)"
  by (cases c) (auto simp: wf_table_def list_all_iff filter_empty_conv)

subsection \<open>Properties of the store\<close>

text \<open>C7. Clearing the tables and appending one row to a group leaves that group's
  table with exactly the header and the row.\<close>

theorem clear_then_append:
  "file_content (write_rows (clear_datasets dir) (dataset_filename ip tcp) [r]) (dataset_filename ip tcp)
     = [HeaderLine fieldnames, DataLine r]"
  by (simp add: file_content_write_rows file_content_clear)

text \<open>C8. Starting from a well-formed directory (in particular an empty one), any run
  of clears and appends leaves every table with at most one header line, which is
  there exactly when the table is not empty.\<close>

theorem header_written_once:
  assumes "dataset_ok dir"
  shows "length (filter (\<lambda>l. \<not> is_data l) (file_content (run_store dir ops) n)) =
           (if file_content (run_store dir ops) n = [] then 0 else 1)"
  using assms by (intro header_count_wf wf_file_content dataset_ok_run_store)

theorem header_written_once_witness:
  "dataset_ok [] \<and>
   length (filter (\<lambda>l. \<not> is_data l)
      (file_content (run_store [] [Append ''dataset_ipv4_cubic.csv'' [], Clear,
                                   Append ''dataset_ipv4_cubic.csv'' []]) ''dataset_ipv4_cubic.csv'')) =
   (if file_content (run_store [] [Append ''dataset_ipv4_cubic.csv'' [], Clear,
                                   Append ''dataset_ipv4_cubic.csv'' []]) ''dataset_ipv4_cubic.csv'' = []
    then 0 else 1)"
proof -
  have ok: "dataset_ok []" by (simp add: dataset_ok_def)
  show ?thesis using ok header_written_once [OF ok] by simp
qed

text \<open>C9. An append keeps insertion order: reading a well-formed table back after
  appending gives the rows it held followed by the new rows.\<close>

theorem write_rows_order:
  assumes "wf_table (file_content dir n)"
  shows "read_csv (file_content (write_rows dir n rs) n) = Inr (rows_of (file_content dir n) @ rs)"
proof -
  have "wf_table (file_content (write_rows dir n rs) n)"
    using assms by (simp add: file_content_write_rows wf_table_extend)
  moreover have "file_content (write_rows dir n rs) n \<noteq> []"
    by (simp add: file_content_write_rows)
  ultimately show ?thesis
    by (simp add: read_csv_wf file_content_write_rows)
qed

theorem write_rows_order_witness:
  "wf_table (file_content [] ''dataset_ipv4_cubic.csv'') \<and>
   read_csv (file_content (write_rows [] ''dataset_ipv4_cubic.csv'' [sample_row]) ''dataset_ipv4_cubic.csv'')
     = Inr (rows_of (file_content [] ''dataset_ipv4_cubic.csv'') @ [sample_row])"
proof -
  have wf: "wf_table (file_content [] ''dataset_ipv4_cubic.csv'')"
    by (simp add: file_content_def)
  show ?thesis using wf write_rows_order [OF wf] by blast
qed

end
