(* ===== verification/Statistics.thy ===== *)
theory Statistics
  imports Dataset "HOL-Library.Multiset"
begin

text \<open>
  The statistics engine: \<open>generate_statistics_tables\<close> (\<open>src/script.py\<close> lines
  263--326). For every table of \<open>dataset/\<close> it reads the rows back, derives the
  group's names from the file name, and for each of the five metrics computes what
  pandas computes: \<open>mean\<close>, \<open>median\<close>, \<open>mode()[0]\<close>, the sample standard deviation
  \<open>std\<close> (denominator \<open>n - 1\<close>) and the 95\<percent> confidence half-width
  \<open>1.96 * std / sqrt(n)\<close> with its bounds, each rounded to two decimals. The table
  image itself is not modelled.

  The functions \<open>py_mean\<close>, \<open>py_median\<close>, \<open>py_std\<close> give pandas' value where it is a
  number, which is all the script can use: with \<open>n \<le> 1\<close> it raises before any of
  them reaches the output (\<open>describe_metric\<close>).
\<close>

text \<open>Line 271, in its order.\<close>

datatype metric = Throughput | MeanRtt | PacketLoss | Retransmissions | CpuUsage

definition metrics :: "metric list" where
  "metrics = [Throughput, MeanRtt, PacketLoss, Retransmissions, CpuUsage]"

fun metric_name :: "metric \<Rightarrow> string" where
  "metric_name Throughput = ''Throughput (Gbps)''"
| "metric_name MeanRtt = ''Mean RTT (ms)''"
| "metric_name PacketLoss = ''Packet Loss (%)''"
| "metric_name Retransmissions = ''Retransmissions''"
| "metric_name CpuUsage = ''CPU Usage (%)''"

subsection \<open>pandas' descriptive statistics\<close>

definition py_mean :: "real list \<Rightarrow> real" where
  "py_mean xs = sum_list xs / real (length xs)"

text \<open>\<open>median\<close>: the middle of the sorted sample, or the mean of the two middle values.\<close>

definition py_median :: "real list \<Rightarrow> real" where
  "py_median xs =
     (let s = sort xs; n = length xs in
      if odd n then s ! (n div 2) else (s ! (n div 2 - 1) + s ! (n div 2)) / 2)"

text \<open>\<open>Series.mode()\<close>: every value of maximal frequency, in ascending order.\<close>

definition max_count :: "real list \<Rightarrow> nat" where
  "max_count xs = foldr (\<lambda>x m. max (count_list xs x) m) xs 0"

definition py_mode :: "real list \<Rightarrow> real list" where
  "py_mode xs = sort (remdups (filter (\<lambda>x. count_list xs x = max_count xs) xs))"

text \<open>\<open>std\<close> with pandas' default \<open>ddof=1\<close>.\<close>

definition py_std :: "real list \<Rightarrow> real" where
  "py_std xs =
     sqrt (sum_list (map (\<lambda>x. (x - py_mean xs)\<^sup>2) xs) / (real (length xs) - 1))"

text \<open>One line of the statistics table (the list appended at lines 295--304).\<close>

record stat_row =
  st_metric :: metric
  st_avg :: real
  st_median :: real
  st_mode :: real
  st_std :: real
  st_lower :: real
  st_upper :: real
  st_ci :: real

text \<open>Lines 280--304 for one metric. Where \<open>n \<le> 1\<close> the bounds are the string
  \<open>"N/A"\<close>, and \<open>round(lower_bound, 2)\<close> at line 301 raises \<open>TypeError\<close>.\<close>

definition describe_metric :: "metric \<Rightarrow> real list \<Rightarrow> stat_row py_result" where
  "describe_metric m xs =
     (let mean_value = py_mean xs; median_value = py_median xs;
          mode_value = hd (py_mode xs); std_dev = py_std xs; n = length xs in
      if 1 < n then
        (let conf_interval = 196 / 100 * (std_dev / sqrt (real n));
             lower_bound = mean_value - conf_interval;
             upper_bound = mean_value + conf_interval
         in Inr \<lparr>st_metric = m, st_avg = py_round2 mean_value,
                 st_median = py_round2 median_value, st_mode = mode_value,
                 st_std = py_round2 std_dev, st_lower = py_round2 lower_bound,
                 st_upper = py_round2 upper_bound, st_ci = py_round2 conf_interval\<rparr>)
      else Inl TypeError)"

text \<open>Lines 275--276: the names the table is labelled with, taken from the file name
  \<open>dataset_<ip>_<tcp>.csv\<close> by position.\<close>

definition stats_names :: "string \<Rightarrow> (string \<times> string) py_result" where
  "stats_names file =
     (let parts = py_split CHR ''_'' file in
      rbind (py_index parts 1) (\<lambda>p1.
      rbind (py_index parts 2) (\<lambda>p2.
      rbind (py_index (py_split CHR ''.'' p2) 0) (\<lambda>q.
      Inr (py_capitalize p1, py_upper q)))))"

text \<open>Lines 323--324: the image file and its title.\<close>

definition stats_output_name :: "string \<Rightarrow> string \<Rightarrow> string" where
  "stats_output_name tcp_version ip_version =
     ''tables/statistics_tables/statistics_'' @ tcp_version @ ''_'' @ ip_version @ ''.png''"

definition stats_title :: "string \<Rightarrow> string \<Rightarrow> string" where
  "stats_title tcp_version ip_version =
     ''Descriptive Statistics for TCP '' @ ip_version @ '' with '' @ tcp_version"

text \<open>\<open>df[metric]\<close> after \<open>pd.read_csv\<close>: a cell is the number its text denotes;
  a column with a cell that is not a number makes \<open>mean()\<close> raise \<open>TypeError\<close>.\<close>

fun metric_cell :: "metric \<Rightarrow> metrics_row \<Rightarrow> real py_result" where
  "metric_cell Throughput r = Inr (m_throughput r)"
| "metric_cell MeanRtt r = py_num (m_rtt r)"
| "metric_cell PacketLoss r =
     (case parse_decimal (m_packet_loss r) of None \<Rightarrow> Inl TypeError | Some v \<Rightarrow> Inr v)"
| "metric_cell Retransmissions r = py_num (m_retrans r)"
| "metric_cell CpuUsage r = Inr (m_cpu r)"

definition metric_column :: "metric \<Rightarrow> metrics_row list \<Rightarrow> real list py_result" where
  "metric_column m rows = rmap (metric_cell m) rows"

text \<open>Lines 274--304 for one file: the table of five lines, with its image name and
  title.\<close>

definition statistics_for_file ::
  "string \<Rightarrow> csv_file \<Rightarrow> (string \<times> string \<times> stat_row list) py_result" where
  "statistics_for_file file content =
     rbind (read_csv content) (\<lambda>df.
     rbind (stats_names file) (\<lambda>(tcp_version, ip_version).
     rbind (rmap (\<lambda>m. rbind (metric_column m df) (describe_metric m)) metrics) (\<lambda>stats_data.
     Inr (stats_output_name tcp_version ip_version, stats_title tcp_version ip_version,
          stats_data))))"

text \<open>Lines 269--273: every \<open>.csv\<close> file of the directory, in listing order; the first
  exception ends the function.\<close>

definition generate_statistics_tables ::
  "dataset_dir \<Rightarrow> (string \<times> string \<times> stat_row list) list py_result" where
  "generate_statistics_tables dir =
     rmap (\<lambda>file. statistics_for_file file (file_content dir file))
       [file \<leftarrow> map fst dir. py_endswith file ''.csv'']"

lemmas stats_defs = describe_metric_def py_mean_def py_median_def py_std_def py_mode_def
  max_count_def Let_def

subsection \<open>Lemmas on pandas' statistics\<close>

lemma foldr_max_bound:
  "\<forall>y\<in>set xs. f y \<le> foldr (\<lambda>x m. max (f x) m) xs (0::nat)"
  by (induction xs) auto

lemma foldr_max_attained:
  "xs \<noteq> [] \<Longrightarrow> \<exists>y\<in>set xs. f y = foldr (\<lambda>x m. max (f x) m) xs (0::nat)"
proof (induction xs)
  case Nil
  then show ?case by simp
next
  case (Cons x xs)
  show ?case
  proof (cases "xs = [] \<or> foldr (\<lambda>x m. max (f x) m) xs 0 \<le> f x")
    case True
    then show ?thesis by (auto simp: max_def)
  next
    case False
    with Cons.IH show ?thesis by (auto simp: max_def)
  qed
qed

lemma py_mode_set: "set (py_mode xs) = {x \<in> set xs. count_list xs x = max_count xs}"
  by (auto simp: py_mode_def)

lemma py_mode_nonempty: "xs \<noteq> [] \<Longrightarrow> py_mode xs \<noteq> []"
proof -
  assume "xs \<noteq> []"
  then obtain y where "y \<in> set xs" and "count_list xs y = max_count xs"
    using foldr_max_attained [of xs "count_list xs"] by (auto simp: max_count_def)
  then have "y \<in> set (py_mode xs)" by (simp add: py_mode_set)
  then show ?thesis by auto
qed

lemma sorted_hd_le: "sorted ys \<Longrightarrow> ys \<noteq> [] \<Longrightarrow> y \<in> set ys \<Longrightarrow> hd ys \<le> y"
  by (cases ys) auto

lemma sum_list_mset: "mset xs = mset ys \<Longrightarrow> sum_list (map (f :: real \<Rightarrow> real) xs) = sum_list (map f ys)"
proof -
  assume eq: "mset xs = mset ys"
  have "sum_list (map f xs) = sum_mset (image_mset f (mset xs))"
    by (simp flip: sum_mset_sum_list)
  also have "\<dots> = sum_list (map f ys)"
    by (simp add: eq flip: sum_mset_sum_list)
  finally show ?thesis .
qed

lemma sort_mset: "mset xs = mset ys \<Longrightarrow> sort xs = sort ys"
  by (rule properties_for_sort) simp_all

lemma count_list_mset: "mset xs = mset ys \<Longrightarrow> count_list xs = count_list ys"
  by (rule ext) (simp add: count_mset [symmetric])

lemma foldr_max_Max:
  "foldr (\<lambda>x m. max (f x) m) xs (0::nat) = Max (insert 0 (f ` set xs))"
proof (induction xs)
  case Nil
  then show ?case by simp
next
  case (Cons a xs)
  have "Max (insert 0 (f ` set (a # xs))) = Max (insert (f a) (insert 0 (f ` set xs)))"
    by (simp add: insert_commute)
  also have "\<dots> = max (f a) (Max (insert 0 (f ` set xs)))"
    by (rule Max_insert) simp_all
  finally show ?case using Cons.IH by simp
qed

lemma max_count_mset:
  assumes "mset xs = mset ys"
  shows "max_count xs = max_count ys"
proof -
  have "set xs = set ys" using assms by (rule mset_eq_setD)
  moreover have "count_list xs = count_list ys" using assms by (rule count_list_mset)
  ultimately show ?thesis by (simp add: max_count_def foldr_max_Max)
qed

lemma py_mode_mset:
  assumes "mset xs = mset ys"
  shows "py_mode xs = py_mode ys"
proof -
  have "set xs = set ys" using assms by (rule mset_eq_setD)
  moreover have "count_list xs = count_list ys" using assms by (rule count_list_mset)
  moreover have "max_count xs = max_count ys" using assms by (rule max_count_mset)
  ultimately show ?thesis
    by (simp add: py_mode_def flip: sorted_list_of_set_sort_remdups)
qed

lemma py_std_nonneg: "0 \<le> py_std xs"
proof -
  have "0 \<le> sum_list (map (\<lambda>x. (x - py_mean xs)\<^sup>2) xs)"
    by (rule sum_list_nonneg) auto
  moreover have "0 \<le> real (length xs) - 1 \<or> length xs = 0"
    by (cases xs) auto
  ultimately show ?thesis
    by (auto simp: py_std_def)
qed

subsection \<open>Properties of the statistics\<close>

text \<open>For a group of at most one row the script does not produce the
  "undefined" marker the spec asks for: \<open>round("N/A", 2)\<close> raises \<open>TypeError\<close>, which
  aborts \<open>generate_statistics_tables\<close>.\<close>

lemma describe_metric_small:
  "length xs \<le> 1 \<Longrightarrow> describe_metric m xs = Inl TypeError"
  by (simp add: describe_metric_def Let_def)

text \<open>For two or more values the row holds the rounded mean, median and sample
  standard deviation, the smallest mode, and the 95\<percent> half-width
  \<open>1.96 * std / sqrt(n)\<close> with the bounds \<open>mean -/+ half-width\<close>, each rounded after
  the exact computation.\<close>

lemma describe_metric_ok:
  assumes "1 < length xs"
  shows "describe_metric m xs =
    Inr \<lparr>st_metric = m, st_avg = py_round2 (py_mean xs), st_median = py_round2 (py_median xs),
         st_mode = hd (py_mode xs), st_std = py_round2 (py_std xs),
         st_lower = py_round2 (py_mean xs - 196 / 100 * (py_std xs / sqrt (real (length xs)))),
         st_upper = py_round2 (py_mean xs + 196 / 100 * (py_std xs / sqrt (real (length xs)))),
         st_ci = py_round2 (196 / 100 * (py_std xs / sqrt (real (length xs))))\<rparr>"
  using assms by (simp add: describe_metric_def Let_def)

text \<open>The spec's sample \<open>[10, 12, 11, 13, 9]\<close>: mean and median 11, smallest mode
  9, sample standard deviation \<open>sqrt(10/4)\<close> (denominator \<open>n - 1 = 4\<close>), and the
  half-width \<open>1.96 * sqrt(10/4) / sqrt(5)\<close>.\<close>

theorem describe_metric_sample:
  "describe_metric Throughput [10, 12, 11, 13, 9] =
    Inr \<lparr>st_metric = Throughput, st_avg = 11, st_median = 11, st_mode = 9,
         st_std = py_round2 (sqrt (10 / 4)),
         st_lower = py_round2 (11 - 196 / 100 * (sqrt (10 / 4) / sqrt 5)),
         st_upper = py_round2 (11 + 196 / 100 * (sqrt (10 / 4) / sqrt 5)),
         st_ci = py_round2 (196 / 100 * (sqrt (10 / 4) / sqrt 5))\<rparr>"
  by (simp add: stats_defs power2_eq_square)

text \<open>\<open>mode()[0]\<close> is a value of maximal frequency and the smallest such value.\<close>

lemma py_mode_hd_smallest:
  assumes "xs \<noteq> []"
  shows "hd (py_mode xs) \<in> set xs \<and>
         (\<forall>y\<in>set xs. count_list xs y \<le> count_list xs (hd (py_mode xs))) \<and>
         (\<forall>y\<in>set xs. count_list xs y = count_list xs (hd (py_mode xs)) \<longrightarrow> hd (py_mode xs) \<le> y)"
proof -
  let ?md = "hd (py_mode xs)"
  have ne: "py_mode xs \<noteq> []" using assms by (rule py_mode_nonempty)
  then have "?md \<in> set (py_mode xs)" by simp
  then have md: "?md \<in> set xs" "count_list xs ?md = max_count xs"
    by (simp_all add: py_mode_set)
  have bound: "\<forall>y\<in>set xs. count_list xs y \<le> max_count xs"
    unfolding max_count_def by (rule foldr_max_bound)
  have "hd (py_mode xs) \<le> y" if "y \<in> set xs" "count_list xs y = max_count xs" for y
    using that ne by (intro sorted_hd_le) (simp_all add: py_mode_set, simp add: py_mode_def)
  with md bound show ?thesis by auto
qed

text \<open>It is not the first value of maximal frequency, as the spec says: for the
  column \<open>[3, 1, 3, 1]\<close> the script reports 1 where the first most frequent value is 3.\<close>

theorem mode_not_first_most_frequent:
  "hd (py_mode [3, 1, 3, 1]) = 1 \<and>
   hd (filter (\<lambda>x. count_list [3, 1, 3, 1] x = max_count [3, 1, 3, 1]) [3, 1, 3, 1]) = (3::real)"
  by (simp add: py_mode_def max_count_def)

text \<open>C10. The mode the statistics table reports is a value of maximal frequency in the
  column and the smallest such value (\<open>mode()[0]\<close> of pandas' sorted modes), not the
  first value of maximal frequency as the spec says.\<close>

theorem describe_metric_mode:
  assumes "describe_metric m xs = Inr r"
  shows "st_mode r \<in> set xs \<and>
         (\<forall>y\<in>set xs. count_list xs y \<le> count_list xs (st_mode r)) \<and>
         (\<forall>y\<in>set xs. count_list xs y = count_list xs (st_mode r) \<longrightarrow> st_mode r \<le> y)"
proof -
  have n: "1 < length xs"
    using assms by (simp add: describe_metric_def Let_def split: if_splits)
  then have "st_mode r = hd (py_mode xs)"
    using assms describe_metric_ok[OF n, of m] by auto
  moreover have "xs \<noteq> []"
    using n by auto
  ultimately show ?thesis
    using py_mode_hd_smallest by simp
qed

theorem describe_metric_mode_witness:
  "st_mode (projr (describe_metric Throughput [3, 1, 3, 1])) = 1 \<and>
   count_list [3, 1, 3, 1 :: real] 3 \<le>
     count_list [3, 1, 3, 1] (st_mode (projr (describe_metric Throughput [3, 1, 3, 1])))"
proof -
  have r: "describe_metric Throughput [3, 1, 3, 1] = Inr (projr (describe_metric Throughput [3, 1, 3, 1]))"
    by (simp add: describe_metric_def Let_def)
  have "st_mode (projr (describe_metric Throughput [3, 1, 3, 1])) = 1"
    by (simp add: describe_metric_def Let_def py_mode_def max_count_def)
  moreover have "count_list [3, 1, 3, 1 :: real] 3 \<le>
      count_list [3, 1, 3, 1] (st_mode (projr (describe_metric Throughput [3, 1, 3, 1])))"
    using describe_metric_mode[OF r] by simp
  ultimately show ?thesis by blast
qed

text \<open>C11. The statistics do not depend on the order of the rows: two columns with the
  same multiset of values give the same table line.\<close>

theorem describe_metric_perm:
  assumes "mset xs = mset ys"
  shows "describe_metric m xs = describe_metric m ys"
proof -
  have "length xs = length ys" using mset_eq_length [OF assms] .
  moreover have "sum_list xs = sum_list ys"
    using sum_list_mset [OF assms, of id] by simp
  moreover have "sort xs = sort ys" using assms by (rule sort_mset)
  moreover have "py_mode xs = py_mode ys" using assms by (rule py_mode_mset)
  moreover have "sum_list (map (\<lambda>x. (x - sum_list ys / real (length ys))\<^sup>2) xs) =
                 sum_list (map (\<lambda>x. (x - sum_list ys / real (length ys))\<^sup>2) ys)"
    using assms by (rule sum_list_mset)
  ultimately show ?thesis
    by (simp add: describe_metric_def py_mean_def py_median_def py_std_def)
qed

theorem describe_metric_perm_witness:
  "mset [1, 2, 2 :: real] = mset [2, 1, 2] \<and>
   describe_metric PacketLoss [1, 2, 2] = describe_metric PacketLoss [2, 1, 2]"
proof -
  have eq: "mset [1, 2, 2 :: real] = mset [2, 1, 2]" by simp
  show ?thesis using eq describe_metric_perm [OF eq] by simp
qed

text \<open>C12. The reported bounds enclose the reported mean: rounding is monotone and the
  half-width is not negative.\<close>

theorem describe_metric_bounds:
  assumes "describe_metric m xs = Inr r"
  shows "st_lower r \<le> st_avg r \<and> st_avg r \<le> st_upper r \<and> 0 \<le> st_ci r"
proof -
  have n: "1 < length xs" using assms by (simp add: describe_metric_def Let_def split: if_splits)
  have ci: "0 \<le> 196 / 100 * (py_std xs / sqrt (real (length xs)))"
    by (simp add: py_std_nonneg)
  then have "py_round2 (py_mean xs - 196 / 100 * (py_std xs / sqrt (real (length xs)))) \<le> py_round2 (py_mean xs)"
    and "py_round2 (py_mean xs) \<le> py_round2 (py_mean xs + 196 / 100 * (py_std xs / sqrt (real (length xs))))"
    by (simp_all add: py_round2_mono)
  moreover have "py_round2 0 \<le> py_round2 (196 / 100 * (py_std xs / sqrt (real (length xs))))"
    using ci by (rule py_round2_mono)
  ultimately show ?thesis using assms describe_metric_ok [OF n, of m] by auto
qed

theorem describe_metric_bounds_witness:
  "describe_metric Throughput [10, 12, 11, 13, 9] = Inr \<lparr>st_metric = Throughput, st_avg = 11, st_median = 11, st_mode = 9,
         st_std = py_round2 (sqrt (10 / 4)),
         st_lower = py_round2 (11 - 196 / 100 * (sqrt (10 / 4) / sqrt 5)),
         st_upper = py_round2 (11 + 196 / 100 * (sqrt (10 / 4) / sqrt 5)),
         st_ci = py_round2 (196 / 100 * (sqrt (10 / 4) / sqrt 5))\<rparr> \<and>
   py_round2 (11 - 196 / 100 * (sqrt (10 / 4) / sqrt 5)) \<le> 11"
proof -
  have d: "describe_metric Throughput [10, 12, 11, 13, 9] = Inr \<lparr>st_metric = Throughput, st_avg = 11, st_median = 11, st_mode = 9,
         st_std = py_round2 (sqrt (10 / 4)),
         st_lower = py_round2 (11 - 196 / 100 * (sqrt (10 / 4) / sqrt 5)),
         st_upper = py_round2 (11 + 196 / 100 * (sqrt (10 / 4) / sqrt 5)),
         st_ci = py_round2 (196 / 100 * (sqrt (10 / 4) / sqrt 5))\<rparr>"
    by (simp add: stats_defs power2_eq_square)
  show ?thesis using d describe_metric_bounds [OF d] by simp
qed



text \<open>C14. The statistics stage reads the group back from the file name by position:
  for a group whose names contain no \<open>_\<close> (and an algorithm name without \<open>.\<close>) the
  variable the script calls \<open>tcp_version\<close> receives the capitalised IP version and
  \<open>ip_version\<close> the upper-cased algorithm, so the image for (IPv4, reno) is
  \<open>statistics_Ipv4_RENO.png\<close>.\<close>

theorem stats_names_dataset_file:
  assumes "CHR ''_'' \<notin> set ip" and "CHR ''_'' \<notin> set tcp" and "CHR ''.'' \<notin> set tcp"
  shows "stats_names (dataset_filename ip tcp) = Inr (py_capitalize (py_lower ip), py_upper (py_lower tcp))"
proof -
  have sep: "CHR ''_'' \<notin> set (py_lower ip)" "CHR ''_'' \<notin> set (py_lower tcp)"
    "CHR ''.'' \<notin> set (py_lower tcp)"
    using assms by (simp_all add: py_lower_keeps_out ascii_lower_def)
  have "py_split CHR ''_'' (dataset_filename ip tcp) = [''dataset'', py_lower ip, py_lower tcp @ ''.csv'']"
    using sep by (simp add: dataset_filename_def py_split_append_sep py_split_no_sep)
  moreover have "py_split CHR ''.'' (py_lower tcp @ ''.csv'') = [py_lower tcp, ''csv'']"
    using sep by (simp add: py_split_append_sep py_split_no_sep)
  ultimately show ?thesis
    by (simp add: stats_names_def py_index_def)
qed

theorem stats_names_dataset_file_witness:
  "CHR ''_'' \<notin> set ''IPv4'' \<and> CHR ''_'' \<notin> set ''reno'' \<and> CHR ''.'' \<notin> set ''reno'' \<and>
   stats_names (dataset_filename ''IPv4'' ''reno'') = Inr (''Ipv4'', ''RENO'') \<and>
   stats_output_name ''Ipv4'' ''RENO'' = ''tables/statistics_tables/statistics_Ipv4_RENO.png''"
proof -
  have h: "CHR ''_'' \<notin> set ''IPv4''" "CHR ''_'' \<notin> set ''reno''" "CHR ''.'' \<notin> set ''reno''"
    by simp_all
  have "py_capitalize (py_lower ''IPv4'') = ''Ipv4''" "py_upper (py_lower ''reno'') = ''RENO''"
    by (simp_all add: py_capitalize_def py_lower_def py_upper_def py_lower_char_def
        py_upper_char_def ascii_upper_def ascii_lower_def)
  then show ?thesis
    using h stats_names_dataset_file [OF h] by (simp add: stats_output_name_def)
qed

text \<open>C15. A table with a single row stops the whole statistics stage: the first
  metric's column has one value, and \<open>describe_metric\<close> raises \<open>TypeError\<close>.\<close>

theorem statistics_single_row:
  assumes "stats_names file = Inr names"
  shows "statistics_for_file file [HeaderLine h, DataLine r] = Inl TypeError"
  using assms
  by (simp add: statistics_for_file_def metrics_def metric_column_def describe_metric_def
      Let_def split: prod.split)

theorem statistics_single_row_witness:
  "stats_names ''dataset_ipv4_reno.csv'' = Inr (''Ipv4'', ''RENO'') \<and>
   statistics_for_file ''dataset_ipv4_reno.csv'' [HeaderLine fieldnames, DataLine sample_row] = Inl TypeError"
proof -
  have n: "stats_names ''dataset_ipv4_reno.csv'' = Inr (''Ipv4'', ''RENO'')"
    by (simp add: stats_names_def py_index_def py_capitalize_def py_lower_def py_upper_def
        py_lower_char_def py_upper_char_def ascii_upper_def ascii_lower_def)
  show ?thesis using n statistics_single_row [OF n] by simp
qed

end
