(* ===== verification/Driver.thy ===== *)
theory Driver
  imports Topology Statistics
begin

text \<open>
  The benchmark driver: \<open>configure_tcp_version\<close>, \<open>measure_metrics\<close>, \<open>cleanup\<close>
  (\<open>src/script.py\<close> lines 71--152) and the experiment matrix of the \<open>__main__\<close>
  block (lines 328--363). The effects of the script on the machine form one record,
  \<open>world\<close>: the dataset directory, the text of \<open>output/full_output.log\<close>, the console,
  the emulated network of the current trial, the background \<open>iperf3\<close> servers and
  the shell commands issued on the emulated hosts. What the machine answers enters
  through a \<open>trial_env\<close> per trial: whether Mininet builds the network, the two CPU
  samples of \<open>psutil\<close>, the text \<open>iperf3 -J\<close> prints, and what \<open>json.loads\<close> makes
  of it. A function that may raise returns the exception next to the world it leaves,
  \<open>py_exc option \<times> world\<close>, so that \<open>finally\<close> is an ordinary step after it.
\<close>

text \<open>The values read at lines 331--335: \<open>bw\<close> is the rate in Mbit/s (the input
  times \<open>1e3\<close>), the others the integers typed in.\<close>

record params =
  p_bw :: real
  p_loss :: int
  p_delay :: int
  p_reps :: int
  p_conns :: int

record trial_env =
  e_topology_ok :: bool
  e_cpu_before :: real
  e_cpu_after :: real
  e_output :: string
  e_json :: "json option"

record world =
  w_datasets :: dataset_dir
  w_log :: string
  w_console :: "string list"
  w_net :: "net option"
  w_procs :: "(node \<times> string) list"
  w_cmds :: "(node \<times> string) list"
  w_current :: int

definition newline :: string where
  "newline = [CHR 0x0A]"

text \<open>Python's \<open>int(x)\<close> on a float truncates towards zero.\<close>

definition py_int :: "real \<Rightarrow> int" where
  "py_int x = (if 0 \<le> x then \<lfloor>x\<rfloor> else \<lceil>x\<rceil>)"

text \<open>\<open>str\<close> of an IPv4 address, as Mininet's \<open>IP()\<close> returns it.\<close>

definition show_ipv4 :: "ipv4addr \<Rightarrow> string" where
  "show_ipv4 a =
     digits_nat (unat (drop_bit 24 a)) @ ''.'' @ digits_nat (unat (drop_bit 16 a) mod 256) @ ''.'' @
     digits_nat (unat (drop_bit 8 a) mod 256) @ ''.'' @ digits_nat (unat a mod 256)"

text \<open>\<open>h.IP()\<close>: the IPv4 address of the host's first interface, \<open>None\<close> if it has none.\<close>

definition host_IP :: "net \<Rightarrow> node \<Rightarrow> string" where
  "host_IP t n =
     (case nodes t n of None \<Rightarrow> ''None''
      | Some s \<Rightarrow> (case [e \<leftarrow> addrs4 s. fst e = 0] of [] \<Rightarrow> ''None''
                   | e # _ \<Rightarrow> show_ipv4 (fst (snd e))))"

text \<open>\<open>h.cmd(c)\<close>: the command runs in the host's shell.\<close>

definition host_cmd :: "node \<Rightarrow> string \<Rightarrow> world \<Rightarrow> world" where
  "host_cmd n c w = w\<lparr>w_cmds := w_cmds w @ [(n, c)]\<rparr>"

subsection \<open>\<open>configure_tcp_version\<close> and the \<open>iperf3\<close> commands\<close>

text \<open>Lines 71--73: the sysctl sets the algorithm in the host's namespace.\<close>

definition configure_tcp_version :: "node \<Rightarrow> string \<Rightarrow> world \<Rightarrow> world" where
  "configure_tcp_version host tcp_version w =
     host_cmd host (''sysctl -w net.ipv4.tcp_congestion_control='' @ tcp_version)
       (w\<lparr>w_net := map_option (update_node host (\<lambda>s. s\<lparr>congestion := tcp_version\<rparr>)) (w_net w)\<rparr>)"

text \<open>Lines 80--83: the server on h2, in the background.\<close>

definition server_cmd :: "string \<Rightarrow> string" where
  "server_cmd ip_version =
     (if ip_version = ''IPv6'' then ''iperf3 -s -6 -p 5202 &'' else ''iperf3 -s -p 5201 &'')"

definition start_server :: "string \<Rightarrow> world \<Rightarrow> world" where
  "start_server ip_version w =
     (let c = server_cmd ip_version in host_cmd H2 c (w\<lparr>w_procs := w_procs w @ [(H2, c)]\<rparr>))"

text \<open>Lines 95--98: the client on h1.\<close>

definition client_cmd :: "params \<Rightarrow> string \<Rightarrow> net \<Rightarrow> string" where
  "client_cmd p ip_version t =
     (let rate = '' -t 30 -b '' @ show_int (py_int (p_bw p / 1000)) @ ''G -P '' @ show_int (p_conns p)
                 @ '' -J'' in
      if ip_version = ''IPv6''
      then ''iperf3 -c 2001:db8:0:2::2%h1-eth0 -6 -p 5202'' @ rate
      else ''iperf3 -c '' @ host_IP t H2 @ '' -p 5201'' @ rate)"

subsection \<open>\<open>measure_metrics\<close>\<close>

text \<open>Lines 136--146 on the world: the CSV append of the rows of this trial.\<close>

definition write_metrics :: "string \<Rightarrow> string \<Rightarrow> metrics_row list \<Rightarrow> world \<Rightarrow> world" where
  "write_metrics ip_version tcp_version rows w =
     w\<lparr>w_datasets := write_rows (w_datasets w) (dataset_filename ip_version tcp_version) rows\<rparr>"

definition log_write :: "string \<Rightarrow> world \<Rightarrow> world" where
  "log_write s w = w\<lparr>w_log := w_log w @ s\<rparr>"

definition console :: "string \<Rightarrow> world \<Rightarrow> world" where
  "console s w = w\<lparr>w_console := w_console w @ [s]\<rparr>"

text \<open>The two lines \<open>measure_metrics\<close> writes to the log of its own (lines 91 and 134).\<close>

definition running_msg :: "string \<Rightarrow> string \<Rightarrow> string" where
  "running_msg tcp_version ip_version =
     ''Running iperf test for '' @ tcp_version @ '' with '' @ ip_version @ ''...'' @ newline"

definition missing_key_msg :: "py_key \<Rightarrow> string" where
  "missing_key_msg k = ''Error: Missing key '' @ show_key k @ '' in iperf result.'' @ newline"

text \<open>Lines 107--131, the \<open>try\<close> block: \<open>json.loads\<close> (its \<open>JSONDecodeError\<close> is a
  \<open>ValueError\<close>) and the extraction.\<close>

definition parse_and_extract ::
  "trial_env \<Rightarrow> int \<Rightarrow> int \<Rightarrow> string \<Rightarrow> string \<Rightarrow> real \<Rightarrow> metrics_row py_result" where
  "parse_and_extract e connections test_id tcp_version ip_version avg_cpu_usage =
     (case e_json e of None \<Rightarrow> Inl ValueError
      | Some iperf_data \<Rightarrow> extract_metrics iperf_data connections test_id tcp_version ip_version
                             avg_cpu_usage)"

text \<open>Lines 75--146. Only \<open>KeyError\<close> is caught (line 133); any other exception leaves
  the \<open>with\<close> block and the function before the CSV append.\<close>

definition measure_metrics ::
  "params \<Rightarrow> trial_env \<Rightarrow> int \<Rightarrow> string \<Rightarrow> string \<Rightarrow> world \<Rightarrow> py_exc option \<times> world" where
  "measure_metrics p e test_id tcp_version ip_version w =
     (let w1 = configure_tcp_version H2 tcp_version (configure_tcp_version H1 tcp_version w);
          w2 = start_server ip_version w1;
          w3 = log_write (running_msg tcp_version ip_version) (console ''Running iperf test...'' w2);
          cpu_usage_before = e_cpu_before e;
          w4 = (case w_net w3 of None \<Rightarrow> w3
                | Some t \<Rightarrow> host_cmd H1 (client_cmd p ip_version t) w3);
          cpu_usage_after = e_cpu_after e;
          avg_cpu_usage = py_round2 ((cpu_usage_before + cpu_usage_after) / 2);
          w5 = log_write newline (log_write (e_output e) w4);
          result = parse_and_extract e (p_conns p) test_id tcp_version ip_version avg_cpu_usage
      in case result of
           Inr row \<Rightarrow> (None, write_metrics ip_version tcp_version [row] w5)
         | Inl (KeyError k) \<Rightarrow>
             (None, write_metrics ip_version tcp_version []
                      (log_write (missing_key_msg k) w5))
         | Inl ex \<Rightarrow> (Some ex, w5))"

text \<open>Lines 148--152: \<open>net.stop()\<close>, then \<open>pkill -f iperf3\<close> ends every server.\<close>

definition cleanup :: "world \<Rightarrow> world" where
  "cleanup w =
     (console ''Stopping network...'' w)\<lparr>w_net := map_option stop_net (w_net w), w_procs := []\<rparr>"

subsection \<open>The experiment matrix\<close>

definition tcp_versions :: "string list" where
  "tcp_versions = [''reno'', ''cubic'', ''bbr'', ''vegas'', ''veno'', ''westwood'']"

definition ip_versions :: "string list" where
  "ip_versions = [''IPv4'', ''IPv6'']"

definition total_tests :: "params \<Rightarrow> int" where
  "total_tests p = int (length tcp_versions) * int (length ip_versions) * p_reps p"

text \<open>The trials in the order of the three nested loops (lines 345--347).\<close>

definition trials :: "params \<Rightarrow> (string \<times> string \<times> int) list" where
  "trials p = [(tcp, ip, i). tcp \<leftarrow> tcp_versions, ip \<leftarrow> ip_versions, i \<leftarrow> [1..p_reps p]]"

text \<open>The two lines printed at the start of a trial (lines 348--349, without the
  colour codes).\<close>

definition progress_msg :: "int \<Rightarrow> int \<Rightarrow> string" where
  "progress_msg current_test n_tests = ''Executing test '' @ show_int current_test @ ''/'' @ show_int n_tests @ ''...''"

definition start_msg :: "string \<Rightarrow> string \<Rightarrow> string" where
  "start_msg tcp_version ip_version =
     ''Starting TCP version: '' @ tcp_version @ '' tests with '' @ ip_version @ ''...''"

text \<open>One iteration of the inner loop (lines 348--357): the topology is created outside
  the \<open>try\<close>; \<open>cleanup\<close> runs whatever \<open>measure_metrics\<close> does; the counter advances
  only when it returned.\<close>

definition run_trial ::
  "params \<Rightarrow> trial_env \<Rightarrow> string \<times> string \<times> int \<Rightarrow> world \<Rightarrow> py_exc option \<times> world" where
  "run_trial p e trial w =
     (case trial of (tcp_version, ip_version, test_id) \<Rightarrow>
       let w1 = console (start_msg tcp_version ip_version)
                  (console (progress_msg (w_current w) (total_tests p)) w)
       in if \<not> e_topology_ok e then (Some TopologyError, w1)
          else
            (case measure_metrics p e test_id tcp_version ip_version
                    (w1\<lparr>w_net := Some (create_topology (p_loss p) (p_delay p))\<rparr>) of
               (r, w2) \<Rightarrow>
                 let w3 = cleanup w2 in
                 (case r of None \<Rightarrow> (None, w3\<lparr>w_current := w_current w3 + 1\<rparr>)
                  | Some ex \<Rightarrow> (Some ex, w3))))"

fun run_trials ::
  "params \<Rightarrow> (string \<times> string \<times> int \<Rightarrow> trial_env) \<Rightarrow> (string \<times> string \<times> int) list \<Rightarrow> world
     \<Rightarrow> py_exc option \<times> world" where
  "run_trials p env [] w = (None, w)"
| "run_trials p env (t # ts) w =
     (case run_trial p (env t) t w of
        (None, w') \<Rightarrow> run_trials p env ts w'
      | (Some ex, w') \<Rightarrow> (Some ex, w'))"

text \<open>The world the program starts from: the dataset directory as found, the log as
  found, nothing else.\<close>

definition initial_world :: "dataset_dir \<Rightarrow> string \<Rightarrow> world" where
  "initial_world dir log_text =
     \<lparr>w_datasets = dir, w_log = log_text, w_console = [], w_net = None, w_procs = [], w_cmds = [],
      w_current = 1\<rparr>"

text \<open>Lines 337--358: \<open>clear_datasets\<close>, then the matrix.\<close>

definition run_matrix ::
  "params \<Rightarrow> (string \<times> string \<times> int \<Rightarrow> trial_env) \<Rightarrow> dataset_dir \<Rightarrow> string
     \<Rightarrow> py_exc option \<times> world" where
  "run_matrix p env dir log_text =
     run_trials p env (trials p) (initial_world (clear_datasets dir) log_text)"

text \<open>Line 362, after the matrix: the statistics stage over the tables the matrix
  wrote (the two reporting stages before it, lines 360--361, are in \<open>Reporting\<close>).\<close>

definition main_statistics ::
  "params \<Rightarrow> (string \<times> string \<times> int \<Rightarrow> trial_env) \<Rightarrow> dataset_dir \<Rightarrow> string
     \<Rightarrow> (string \<times> string \<times> stat_row list) list py_result" where
  "main_statistics p env dir log_text =
     (case run_matrix p env dir log_text of
        (Some ex, _) \<Rightarrow> Inl ex
      | (None, w) \<Rightarrow> generate_statistics_tables (w_datasets w))"

subsection \<open>What a trial does to the store\<close>

text \<open>The outcome of the \<open>try\<close> block of a trial, the rows it appends, the table it
  appends them to, and whether the exception (if any) is caught.\<close>

definition trial_result :: "params \<Rightarrow> trial_env \<Rightarrow> string \<times> string \<times> int \<Rightarrow> metrics_row py_result" where
  "trial_result p e t =
     (case t of (tcp_version, ip_version, test_id) \<Rightarrow>
        parse_and_extract e (p_conns p) test_id tcp_version ip_version
          (py_round2 ((e_cpu_before e + e_cpu_after e) / 2)))"

fun caught :: "'a py_result \<Rightarrow> bool" where
  "caught (Inr _) = True"
| "caught (Inl (KeyError _)) = True"
| "caught (Inl _) = False"

fun result_rows :: "metrics_row py_result \<Rightarrow> metrics_row list" where
  "result_rows (Inr r) = [r]"
| "result_rows (Inl _) = []"

definition trial_file :: "string \<times> string \<times> int \<Rightarrow> string" where
  "trial_file t = (case t of (tcp_version, ip_version, _) \<Rightarrow> dataset_filename ip_version tcp_version)"

definition trial_ok :: "params \<Rightarrow> trial_env \<Rightarrow> string \<times> string \<times> int \<Rightarrow> bool" where
  "trial_ok p e t = (e_topology_ok e \<and> caught (trial_result p e t))"

text \<open>Between trials nothing runs: the network of the last trial is stopped and no
  \<open>iperf3\<close> process is left.\<close>

definition quiescent :: "world \<Rightarrow> bool" where
  "quiescent w = (pred_option (\<lambda>t. \<not> started t) (w_net w) \<and> w_procs w = [])"

text \<open>Inputs for the examples: 1 Gbit/s, 1\<percent> loss, 10 ms delay; a machine on which
  every trial runs, with CPU samples of 4\<percent> and 6\<percent>, and \<open>iperf3\<close> printing the
  two-stream result of \<open>sample_doc\<close>, an empty object, or text that is not JSON.\<close>

abbreviation example_params :: "int \<Rightarrow> int \<Rightarrow> params" where
  "example_params reps conns \<equiv>
     \<lparr>p_bw = 1000, p_loss = 1, p_delay = 10, p_reps = reps, p_conns = conns\<rparr>"

abbreviation example_env :: "json option \<Rightarrow> trial_env" where
  "example_env doc \<equiv>
     \<lparr>e_topology_ok = True, e_cpu_before = 4, e_cpu_after = 6, e_output = ''{...}'', e_json = doc\<rparr>"

lemma world_ops_datasets [simp]:
  "w_datasets (host_cmd n c w) = w_datasets w"
  "w_datasets (configure_tcp_version n tcp w) = w_datasets w"
  "w_datasets (start_server ip w) = w_datasets w"
  "w_datasets (log_write s w) = w_datasets w"
  "w_datasets (console s w) = w_datasets w"
  "w_datasets (write_metrics ip tcp rows w) = write_rows (w_datasets w) (dataset_filename ip tcp) rows"
  by (simp_all add: host_cmd_def configure_tcp_version_def start_server_def Let_def log_write_def
      console_def write_metrics_def)

lemma world_ops_log [simp]:
  "w_log (host_cmd n c w) = w_log w"
  "w_log (configure_tcp_version n tcp w) = w_log w"
  "w_log (start_server ip w) = w_log w"
  "w_log (log_write s w) = w_log w @ s"
  "w_log (console s w) = w_log w"
  "w_log (write_metrics ip tcp rows w) = w_log w"
  by (simp_all add: host_cmd_def configure_tcp_version_def start_server_def Let_def log_write_def
      console_def write_metrics_def)

lemma world_ops_current [simp]:
  "w_current (host_cmd n c w) = w_current w"
  "w_current (configure_tcp_version n tcp w) = w_current w"
  "w_current (start_server ip w) = w_current w"
  "w_current (log_write s w) = w_current w"
  "w_current (console s w) = w_current w"
  "w_current (write_metrics ip tcp rows w) = w_current w"
  by (simp_all add: host_cmd_def configure_tcp_version_def start_server_def Let_def log_write_def
      console_def write_metrics_def)

lemma quiescent_current_update [simp]: "quiescent (w\<lparr>w_current := n\<rparr>) = quiescent w"
  by (simp add: quiescent_def)

lemma measure_metrics_fst:
  "fst (measure_metrics p e i tcp ip w) =
     (if caught (trial_result p e (tcp, ip, i)) then None
      else Some (projl (trial_result p e (tcp, ip, i))))"
  by (auto simp: measure_metrics_def trial_result_def Let_def
           split: sum.splits py_exc.splits elim: caught.elims)

lemma measure_metrics_datasets:
  "w_datasets (snd (measure_metrics p e i tcp ip w)) =
     (if caught (trial_result p e (tcp, ip, i))
      then write_rows (w_datasets w) (dataset_filename ip tcp) (result_rows (trial_result p e (tcp, ip, i)))
      else w_datasets w)"
  by (auto simp: measure_metrics_def trial_result_def Let_def
           split: sum.splits py_exc.splits option.splits elim: caught.elims)

lemma measure_metrics_current:
  "w_current (snd (measure_metrics p e i tcp ip w)) = w_current w"
  by (simp add: measure_metrics_def Let_def split: sum.splits py_exc.splits option.splits)

lemma measure_metrics_log:
  "w_log (snd (measure_metrics p e i tcp ip w)) =
     w_log w @ running_msg tcp ip @ e_output e @ newline @
     (case trial_result p e (tcp, ip, i) of Inl (KeyError k) \<Rightarrow> missing_key_msg k | _ \<Rightarrow> [])"
  by (simp add: measure_metrics_def trial_result_def Let_def split: sum.splits py_exc.splits option.splits)

lemma cleanup_quiescent: "quiescent (cleanup w)"
  by (cases "w_net w") (simp_all add: cleanup_def quiescent_def console_def stop_net_def)

lemma cleanup_datasets [simp]: "w_datasets (cleanup w) = w_datasets w"
  by (simp add: cleanup_def console_def)

lemma cleanup_current [simp]: "w_current (cleanup w) = w_current w"
  by (simp add: cleanup_def console_def)

lemma run_trial_quiescent: "quiescent w \<Longrightarrow> quiescent (snd (run_trial p e t w))"
  using cleanup_quiescent
  by (auto simp: run_trial_def Let_def quiescent_def console_def split: prod.splits option.splits)

lemma run_trial_fst:
  "fst (run_trial p e t w) =
     (if \<not> e_topology_ok e then Some TopologyError
      else if caught (trial_result p e t) then None else Some (projl (trial_result p e t)))"
  by (cases t) (simp add: run_trial_def Let_def case_prod_unfold measure_metrics_fst)

lemma run_trial_datasets:
  "w_datasets (snd (run_trial p e t w)) =
     (if trial_ok p e t
      then write_rows (w_datasets w) (trial_file t) (result_rows (trial_result p e t))
      else w_datasets w)"
  by (cases t) (simp add: run_trial_def Let_def case_prod_unfold measure_metrics_fst
      measure_metrics_datasets trial_ok_def trial_file_def console_def)

lemma run_trial_current:
  "trial_ok p e t \<Longrightarrow> w_current (snd (run_trial p e t w)) = w_current w + 1"
  by (cases t) (simp add: run_trial_def Let_def case_prod_unfold measure_metrics_fst
      measure_metrics_current trial_ok_def console_def)

lemma run_trials_fst:
  "fst (run_trials p env ts w) = None \<longleftrightarrow> (\<forall>t \<in> set ts. trial_ok p (env t) t)"
proof (induction ts arbitrary: w)
  case Nil
  then show ?case by simp
next
  case (Cons t ts)
  then show ?case
    using run_trial_fst[of p "env t" t w]
    by (auto simp: trial_ok_def split: prod.split option.split if_splits)
qed

lemma run_trials_store:
  "\<forall>t \<in> set ts. trial_ok p (env t) t \<Longrightarrow>
     w_datasets (snd (run_trials p env ts w)) =
       run_store (w_datasets w) [Append (trial_file t) (result_rows (trial_result p (env t) t)). t \<leftarrow> ts]"
proof (induction ts arbitrary: w)
  case Nil
  then show ?case by (simp add: run_store_def)
next
  case (Cons t ts)
  then show ?case
    using run_trial_fst[of p "env t" t w] run_trial_datasets[of p "env t" t w]
    by (auto simp: trial_ok_def run_store_def split: prod.split)
qed

lemma run_trials_current:
  "\<forall>t \<in> set ts. trial_ok p (env t) t \<Longrightarrow>
     w_current (snd (run_trials p env ts w)) = w_current w + int (length ts)"
proof (induction ts arbitrary: w)
  case Nil
  then show ?case by simp
next
  case (Cons t ts)
  then show ?case
    using run_trial_fst[of p "env t" t w] run_trial_current[of p "env t" t w]
    by (auto simp: trial_ok_def split: prod.split)
qed

lemma run_trials_quiescent:
  "quiescent w \<Longrightarrow> quiescent (snd (run_trials p env ts w))"
proof (induction ts arbitrary: w)
  case Nil
  then show ?case by simp
next
  case (Cons t ts)
  then show ?case
    using run_trial_quiescent[of w p "env t" t]
    by (auto split: prod.split option.split)
qed

lemma run_trials_dataset_ok:
  "dataset_ok (w_datasets w) \<Longrightarrow> dataset_ok (w_datasets (snd (run_trials p env ts w)))"
proof (induction ts arbitrary: w)
  case Nil
  then show ?case by simp
next
  case (Cons t ts)
  have "dataset_ok (w_datasets (snd (run_trial p (env t) t w)))"
    using Cons.prems by (simp add: run_trial_datasets dataset_ok_write_rows)
  with Cons.IH show ?case
    by (auto split: prod.split option.split)
qed

lemma initial_world_quiescent: "quiescent (initial_world dir log_text)"
  by (simp add: initial_world_def quiescent_def)

lemma run_trial_cleanup:
  "e_topology_ok e \<Longrightarrow> quiescent (snd (run_trial p e t w))"
  using cleanup_quiescent
  by (cases t) (simp add: run_trial_def Let_def case_prod_unfold split: option.split)

lemma run_matrix_fst:
  "fst (run_matrix p env dir log_text) = None \<longleftrightarrow> (\<forall>t \<in> set (trials p). trial_ok p (env t) t)"
  by (simp add: run_matrix_def run_trials_fst)

lemma run_matrix_store:
  "\<forall>t \<in> set (trials p). trial_ok p (env t) t \<Longrightarrow>
     w_datasets (snd (run_matrix p env dir log_text)) =
       run_store dir (Clear # [Append (trial_file t) (result_rows (trial_result p (env t) t)). t \<leftarrow> trials p])"
  by (simp add: run_matrix_def run_trials_store initial_world_def run_store_def)

subsection \<open>Properties of the driver\<close>

text \<open>C24. Whatever the machine answers, nothing is left running after any trial of
  the matrix, not only at its end: after the first \<open>k\<close> trials (or the trial that
  raised) the network of the last trial has been stopped and every \<open>iperf3\<close> server
  killed (the \<open>finally\<close> of line 355), so the next trial starts on a quiet machine.\<close>

theorem run_matrix_quiescent:
  "quiescent (snd (run_matrix p env dir log_text)) \<and>
   (\<forall>k. quiescent (snd (run_trials p env (take k (trials p)) (initial_world (clear_datasets dir) log_text))))"
  unfolding run_matrix_def
  by (auto intro: run_trials_quiescent initial_world_quiescent)

text \<open>C25. When the matrix completes, its effect on the dataset directory is the
  DatasetStore run \<open>Clear\<close> followed by one \<open>Append\<close> per trial, in trial order, of
  the rows the trial extracted (none when its \<open>KeyError\<close> was caught).\<close>

theorem run_matrix_refines_store:
  "fst (run_matrix p env dir log_text) = None \<Longrightarrow>
     w_datasets (snd (run_matrix p env dir log_text)) =
       run_store dir (Clear # [Append (trial_file t) (result_rows (trial_result p (env t) t)). t \<leftarrow> trials p])"
  by (rule run_matrix_store) (simp add: run_matrix_fst)

text \<open>C27. A result without a key the extraction needs (\<open>KeyError\<close>) is logged and
  swallowed: \<open>measure_metrics\<close> returns, the log gets the trial's lines and the error
  line, and the table gets no row, but is created with its header if it did not exist.\<close>

theorem measure_metrics_keyerror:
  assumes "trial_result p e (tcp, ip, i) = Inl (KeyError k)"
  shows "fst (measure_metrics p e i tcp ip w) = None \<and>
    rows_of (file_content (w_datasets (snd (measure_metrics p e i tcp ip w))) (dataset_filename ip tcp))
      = rows_of (file_content (w_datasets w) (dataset_filename ip tcp)) \<and>
    file_content (w_datasets (snd (measure_metrics p e i tcp ip w))) (dataset_filename ip tcp) \<noteq> [] \<and>
    w_log (snd (measure_metrics p e i tcp ip w)) =
      w_log w @ running_msg tcp ip @ e_output e @ newline @ missing_key_msg k"
  using assms
  by (simp add: measure_metrics_fst measure_metrics_datasets measure_metrics_log file_content_write_rows)

text \<open>C28. Every other exception of the \<open>try\<close> block (an output that is not JSON, a
  \<open>TypeError\<close> or \<open>ZeroDivisionError\<close> of the extraction, an \<open>IndexError\<close>) escapes
  \<open>measure_metrics\<close>: the trial writes nothing to the table, \<open>cleanup\<close> still runs,
  and the exception ends the whole matrix, the remaining trials not run.\<close>

theorem run_trials_uncaught:
  assumes "e_topology_ok (env t)" and "\<not> caught (trial_result p (env t) t)"
  shows "run_trials p env (t # ts) w = (Some (projl (trial_result p (env t) t)), snd (run_trial p (env t) t w)) \<and>
    w_datasets (snd (run_trial p (env t) t w)) = w_datasets w \<and>
    quiescent (snd (run_trial p (env t) t w))"
proof -
  obtain r w' where rt: "run_trial p (env t) t w = (r, w')"
    by (cases "run_trial p (env t) t w")
  have "r = Some (projl (trial_result p (env t) t))"
    using rt assms run_trial_fst[of p "env t" t w] by simp
  moreover have "w_datasets w' = w_datasets w"
    using rt assms run_trial_datasets[of p "env t" t w] by (simp add: trial_ok_def)
  moreover have "quiescent w'"
    using rt run_trial_cleanup[OF assms(1), of p t w] by simp
  ultimately show ?thesis
    using rt by simp
qed

text \<open>C29. The DatasetStore invariant (every table is empty or one header followed by
  rows) holds of the dataset directory after the matrix if it held before.\<close>

theorem run_matrix_dataset_ok:
  "dataset_ok dir \<Longrightarrow> dataset_ok (w_datasets (snd (run_matrix p env dir log_text)))"
  unfolding run_matrix_def
  by (rule run_trials_dataset_ok) (simp add: initial_world_def dataset_ok_clear)

lemma py_lower_names:
  "py_lower ''IPv4'' = ''ipv4''" "py_lower ''IPv6'' = ''ipv6''"
  "py_lower ''reno'' = ''reno''" "py_lower ''cubic'' = ''cubic''" "py_lower ''bbr'' = ''bbr''"
  "py_lower ''vegas'' = ''vegas''" "py_lower ''veno'' = ''veno''" "py_lower ''westwood'' = ''westwood''"
  by (simp_all add: py_lower_def py_lower_char_def ascii_upper_def ascii_lower_def)

lemma trials_filter:
  assumes "tcp \<in> set tcp_versions" "ip \<in> set ip_versions"
  shows "filter (\<lambda>t. trial_file t = dataset_filename ip tcp) (trials p) = map (\<lambda>i. (tcp, ip, i)) [1..p_reps p]"
  using assms
  unfolding trials_def tcp_versions_def ip_versions_def
  by (auto simp: trial_file_def dataset_filename_def py_lower_names filter_concat filter_map comp_def)

lemma length_trials: "int (length (trials p)) = max 0 (total_tests p)"
  by (simp add: trials_def total_tests_def tcp_versions_def ip_versions_def)

lemma rows_of_run_store_appends:
  "rows_of (file_content (run_store d (map (\<lambda>t. Append (f t) (rs t)) ts)) n) =
     rows_of (file_content d n) @ concat (map rs (filter (\<lambda>t. f t = n) ts))"
  by (induction ts arbitrary: d) (simp_all add: run_store_def file_content_write_rows)

lemma extract_sample_doc:
  "extract_metrics sample_doc 2 i tcp ip cpu =
     Inr \<lparr>m_id = i, m_tcp = tcp, m_ip = ip, m_throughput = 3, m_packet_loss = ''3.00'',
          m_rtt = JNum 12, m_retrans = JNum 3, m_cpu = cpu\<rparr>"
proof -
  have "fmt2 3 = ''3.00''"
    by (simp add: fmt2_def round_half_even_def two_digits_def digits_nat.simps digit_char_def)
  then show ?thesis
    by (simp add: extract_defs iperf_doc_def json_eval stream_receiver_bps_def)
qed

lemma example_trials_ok:
  "trial_ok (example_params r 2) (example_env (Some sample_doc)) t"
  by (cases t) (simp add: trial_ok_def trial_result_def parse_and_extract_def extract_sample_doc)

lemma example_trials_keyerror:
  "trial_result (example_params r 1) (example_env (Some (JObj []))) t = Inl (KeyError (KStr ''end''))"
  by (cases t) (simp add: trial_result_def parse_and_extract_def extract_defs json_eval)

text \<open>C26. When every trial completes, the table of each (IP version, algorithm) holds
  exactly the rows its trials extracted, in the order of the repetitions, whatever the
  directory held before; and the progress counter has advanced once per trial, to one
  more than \<open>total_tests\<close>.\<close>

theorem run_matrix_tables:
  assumes "\<forall>t \<in> set (trials p). trial_ok p (env t) t"
    and "tcp \<in> set tcp_versions" and "ip \<in> set ip_versions"
  shows "rows_of (file_content (w_datasets (snd (run_matrix p env dir log_text))) (dataset_filename ip tcp))
           = concat [result_rows (trial_result p (env (tcp, ip, i)) (tcp, ip, i)). i \<leftarrow> [1..p_reps p]] \<and>
         w_current (snd (run_matrix p env dir log_text)) = 1 + max 0 (total_tests p)"
proof
  let ?rs = "\<lambda>t. result_rows (trial_result p (env t) t)"
  have "w_datasets (snd (run_matrix p env dir log_text)) =
          run_store (clear_datasets dir) (map (\<lambda>t. Append (trial_file t) (?rs t)) (trials p))"
    using run_matrix_store[OF assms(1)] by (simp add: run_store_def)
  then have "rows_of (file_content (w_datasets (snd (run_matrix p env dir log_text))) (dataset_filename ip tcp))
           = concat (map ?rs (filter (\<lambda>t. trial_file t = dataset_filename ip tcp) (trials p)))"
    by (simp add: rows_of_run_store_appends file_content_clear)
  also have "\<dots> = concat [result_rows (trial_result p (env (tcp, ip, i)) (tcp, ip, i)). i \<leftarrow> [1..p_reps p]]"
    using trials_filter[OF assms(2,3)] by (simp add: comp_def)
  finally show "rows_of (file_content (w_datasets (snd (run_matrix p env dir log_text))) (dataset_filename ip tcp))
           = concat [result_rows (trial_result p (env (tcp, ip, i)) (tcp, ip, i)). i \<leftarrow> [1..p_reps p]]" .
next
  show "w_current (snd (run_matrix p env dir log_text)) = 1 + max 0 (total_tests p)"
    using assms(1)
    by (simp add: run_matrix_def run_trials_current initial_world_def length_trials)
qed

lemma run_matrix_tables_witness:
  "rows_of (file_content (w_datasets (snd (run_matrix (example_params 2 2) (\<lambda>_. example_env (Some sample_doc))
       [(''dataset_ipv4_cubic.csv'', [HeaderLine fieldnames, DataLine sample_row])] '''')))
     ''dataset_ipv4_cubic.csv'')
   = [\<lparr>m_id = 1, m_tcp = ''cubic'', m_ip = ''IPv4'', m_throughput = 3, m_packet_loss = ''3.00'',
        m_rtt = JNum 12, m_retrans = JNum 3, m_cpu = 5\<rparr>,
      \<lparr>m_id = 2, m_tcp = ''cubic'', m_ip = ''IPv4'', m_throughput = 3, m_packet_loss = ''3.00'',
        m_rtt = JNum 12, m_retrans = JNum 3, m_cpu = 5\<rparr>]"
proof -
  have "dataset_filename ''IPv4'' ''cubic'' = ''dataset_ipv4_cubic.csv''"
    by (simp add: dataset_filename_def py_lower_names)
  moreover have "py_round2 5 = 5"
    by (simp add: py_round2_numeral)
  ultimately show ?thesis
    using run_matrix_tables[of "example_params 2 2" "\<lambda>_. example_env (Some sample_doc)" "''cubic''" "''IPv4''"
        "[(''dataset_ipv4_cubic.csv'', [HeaderLine fieldnames, DataLine sample_row])]" "''''"]
    by (simp add: example_trials_ok tcp_versions_def ip_versions_def trial_result_def
        parse_and_extract_def extract_sample_doc upto.simps)
qed

lemma run_matrix_refines_store_witness:
  "file_content (w_datasets (snd (run_matrix (example_params 1 1) (\<lambda>_. example_env (Some (JObj []))) [] '''')))
     ''dataset_ipv6_bbr.csv'' = [HeaderLine fieldnames]"
proof -
  have "fst (run_matrix (example_params 1 1) (\<lambda>_. example_env (Some (JObj []))) [] '''') = None"
    by (simp add: run_matrix_fst trial_ok_def example_trials_keyerror)
  from run_matrix_refines_store[OF this] show ?thesis
    by (simp add: run_store_def trials_def tcp_versions_def ip_versions_def example_trials_keyerror
        trial_file_def dataset_filename_def py_lower_names file_content_write_rows file_content_clear
        py_endswith_def file_content_def[of "[]"])
qed

lemma measure_metrics_keyerror_witness:
  "fst (measure_metrics (example_params 1 1) (example_env (Some (JObj []))) 1 ''cubic'' ''IPv4''
          (initial_world [] '''')) = None \<and>
   file_content (w_datasets (snd (measure_metrics (example_params 1 1) (example_env (Some (JObj []))) 1
          ''cubic'' ''IPv4'' (initial_world [] '''')))) (dataset_filename ''IPv4'' ''cubic'') \<noteq> []"
  using measure_metrics_keyerror[of "example_params 1 1" "example_env (Some (JObj []))" "''cubic''" "''IPv4''" 1
      "KStr ''end''" "initial_world [] ''''"]
  by (simp add: example_trials_keyerror)

lemma run_trials_uncaught_witness:
  "run_trials (example_params 1 1) (\<lambda>_. example_env None) [(''reno'', ''IPv4'', 1), (''cubic'', ''IPv4'', 1)]
       (initial_world [] '''') =
     (Some ValueError, snd (run_trial (example_params 1 1) (example_env None) (''reno'', ''IPv4'', 1)
       (initial_world [] '''')))"
  using run_trials_uncaught[of "\<lambda>_. example_env None" "(''reno'', ''IPv4'', 1)" "example_params 1 1"
      "[(''cubic'', ''IPv4'', 1)]" "initial_world [] ''''"]
  by (simp add: trial_result_def parse_and_extract_def)

lemma run_matrix_dataset_ok_witness:
  "dataset_ok (w_datasets (snd (run_matrix (example_params 1 1) (\<lambda>_. example_env None) [] '''')))"
  using run_matrix_dataset_ok[of "[]" "example_params 1 1" "\<lambda>_. example_env None" "''''"]
  by (simp add: dataset_ok_def)

end
