(* ===== verification/Reporting.thy ===== *)
theory Reporting
  imports Driver "HOL-Library.List_Lexorder" "HOL-Library.Char_ord" "HOL-Library.Product_Lexorder"
begin

text \<open>
  The reporting stage: the data behind the graphs of \<open>generate_graphs\<close> (lines
  163--233) and the table images of \<open>generate_table_images\<close> (lines 236--261), and the
  three reporting calls that end the \<open>__main__\<close> block (lines 360--363). What the
  functions draw is not modelled; what they compute is: which files they read, the
  rows that survive \<open>dropna\<close>, the groups of \<open>groupby(["TCP Version", "IP Version"])\<close>
  (sorted, as pandas sorts group keys), the mean and the 95\<percent> half-width of every
  group, the names of the images, and the exception that stops them. Strings are ordered
  lexicographically by code point (\<open>List_Lexorder\<close>, \<open>Char_ord\<close>), as pandas orders them.
\<close>

subsection \<open>\<open>str.replace\<close>\<close>

text \<open>\<open>s.replace(old, new)\<close> for a non-empty \<open>old\<close>: every occurrence, left to right,
  without overlaps.\<close>

function py_replace_ne :: "string \<Rightarrow> string \<Rightarrow> string \<Rightarrow> string" where
  "py_replace_ne old new [] = []"
| "py_replace_ne old new (c # cs) =
     (if old \<noteq> [] \<and> take (length old) (c # cs) = old
      then new @ py_replace_ne old new (drop (length old) (c # cs))
      else c # py_replace_ne old new cs)"
  by pat_completeness auto
termination
  by (relation "measure (\<lambda>(_, _, s). length s)") auto

text \<open>With an empty \<open>old\<close>, Python inserts \<open>new\<close> before every character and at the end.\<close>

definition py_replace :: "string \<Rightarrow> string \<Rightarrow> string \<Rightarrow> string" where
  "py_replace s old new =
     (if old = [] then new @ concat (map (\<lambda>c. [c] @ new) s) else py_replace_ne old new s)"

subsection \<open>The data of \<open>generate_graphs\<close>\<close>

text \<open>Line 173: the \<open>.csv\<close> files of the directory, in listing order.\<close>

definition csv_files :: "dataset_dir \<Rightarrow> string list" where
  "csv_files dir = [f \<leftarrow> map fst dir. py_endswith f ''.csv'']"

text \<open>\<open>df.dropna()\<close> (line 178): \<open>csv.DictWriter\<close> writes \<open>None\<close> as an empty field,
  which \<open>read_csv\<close> reads as NaN; the other cells are never empty.\<close>

definition dropna :: "metrics_row list \<Rightarrow> metrics_row list" where
  "dropna rows = [r \<leftarrow> rows. m_rtt r \<noteq> JNull \<and> m_retrans r \<noteq> JNull]"

text \<open>Lines 176--179: every table read, cleaned and concatenated; an empty file makes
  \<open>read_csv\<close> raise.\<close>

definition read_tables :: "dataset_dir \<Rightarrow> metrics_row list py_result" where
  "read_tables dir =
     rbind (rmap (\<lambda>file. read_csv (file_content dir file)) (csv_files dir)) (\<lambda>dfs.
     Inr (concat (map dropna dfs)))"

definition group_key :: "metrics_row \<Rightarrow> string \<times> string" where
  "group_key r = (m_tcp r, m_ip r)"

definition group_keys :: "metrics_row list \<Rightarrow> (string \<times> string) list" where
  "group_keys rows = sort (remdups (map group_key rows))"

text \<open>One bar of a graph: the group, its mean, and the half-width of its confidence
  interval \<open>1.96 * std / n ** 0.5\<close> (lines 213--217); a group of one row has standard
  deviation NaN, drawn as no error bar.\<close>

record bar =
  b_group :: "string \<times> string"
  b_mean :: real
  b_ci :: "real option"

definition conf_interval :: "real list \<Rightarrow> real option" where
  "conf_interval xs =
     (if 1 < length xs then Some (196 / 100 * (py_std xs / sqrt (real (length xs)))) else None)"

text \<open>\<open>data.groupby([...])[metric].mean()\<close>: the aggregation needs the whole column
  numeric; then every group gets its mean.\<close>

definition graph_bars :: "metric \<Rightarrow> metrics_row list \<Rightarrow> bar list py_result" where
  "graph_bars m rows =
     rbind (metric_column m rows) (\<lambda>_.
     rmap (\<lambda>k. rbind (metric_column m [r \<leftarrow> rows. group_key r = k]) (\<lambda>xs.
                 Inr \<lparr>b_group = k, b_mean = py_mean xs, b_ci = conf_interval xs\<rparr>))
          (group_keys rows))"

text \<open>Lines 208 and 232: \<open>metric.replace(' ', '_').lower()\<close>.\<close>

definition graph_name :: "metric \<Rightarrow> string" where
  "graph_name m = py_lower (py_replace (metric_name m) '' '' ''_'')"

definition avg_graph_file :: "metric \<Rightarrow> string" where
  "avg_graph_file m = ''graphs/averages/'' @ graph_name m @ ''.png''"

definition conf_graph_file :: "metric \<Rightarrow> string" where
  "conf_graph_file m = ''graphs/confidence_interval/'' @ graph_name m @ ''_conf.png''"

text \<open>Lines 163--233. With no file, \<open>data\<close> is the empty \<open>DataFrame()\<close> and
  \<open>groupby\<close> raises \<open>KeyError: 'TCP Version'\<close>; with files but no row left, plotting
  the empty aggregate raises \<open>TypeError\<close> (no numeric data to plot).\<close>

definition generate_graphs ::
  "dataset_dir \<Rightarrow> (string \<times> string \<times> bar list) list py_result" where
  "generate_graphs dir =
     (if csv_files dir = [] then Inl (KeyError (KStr ''TCP Version''))
      else rbind (read_tables dir) (\<lambda>data.
           if data = [] then Inl TypeError
           else rmap (\<lambda>m. rbind (graph_bars m data) (\<lambda>bars.
                           Inr (avg_graph_file m, conf_graph_file m, bars))) metrics))"

subsection \<open>\<open>generate_table_images\<close>\<close>

text \<open>Line 258: \<open>table_<file with .csv replaced by .png>\<close>.\<close>

definition table_image_name :: "string \<Rightarrow> string" where
  "table_image_name file = ''tables/datasets_tables/table_'' @ py_replace file ''.csv'' ''.png''"

text \<open>Lines 236--261: one image per \<open>.csv\<close> file, with the rows of the table.\<close>

definition generate_table_images ::
  "dataset_dir \<Rightarrow> (string \<times> string \<times> metrics_row list) list py_result" where
  "generate_table_images dir =
     rmap (\<lambda>file. rbind (read_csv (file_content dir file)) (\<lambda>rows.
                   Inr (table_image_name file, ''Dataset values: '' @ file, rows)))
       (csv_files dir)"

subsection \<open>The end of the program\<close>

text \<open>Lines 337--363: the matrix, then the three reporting stages in order; the first
  exception ends the program, and only a run that gets through all of them prints
  \<open>All tests completed.\<close> (line 363, without its colour code and leading blank line).
  The world is the one the matrix leaves: the reporting stages write only images.\<close>

type_synonym reports =
  "(string \<times> string \<times> bar list) list \<times> (string \<times> string \<times> metrics_row list) list
     \<times> (string \<times> string \<times> stat_row list) list"

definition main_reports ::
  "params \<Rightarrow> (string \<times> string \<times> int \<Rightarrow> trial_env) \<Rightarrow> dataset_dir \<Rightarrow> string
     \<Rightarrow> reports py_result \<times> world" where
  "main_reports p env dir log_text =
     (case run_matrix p env dir log_text of
        (Some ex, w) \<Rightarrow> (Inl ex, w)
      | (None, w) \<Rightarrow>
          (case rbind (generate_graphs (w_datasets w)) (\<lambda>graphs.
                rbind (generate_table_images (w_datasets w)) (\<lambda>images.
                rbind (generate_statistics_tables (w_datasets w)) (\<lambda>stats.
                Inr (graphs, images, stats)))) of
             Inl ex \<Rightarrow> (Inl ex, w)
           | Inr r \<Rightarrow> (Inr r, console ''All tests completed.'' w)))"

subsection \<open>Lemmas\<close>

lemma py_replace_ne_no_head:
  "old \<noteq> [] \<Longrightarrow> hd old \<notin> set s \<Longrightarrow> py_replace_ne old new s = s"
proof (induction s)
  case Nil
  then show ?case by simp
next
  case (Cons c cs)
  then have "take (length old) (c # cs) \<noteq> old"
    by (cases old) auto
  with Cons show ?case by simp
qed

lemma py_replace_ne_append:
  assumes "old \<noteq> []" "hd old \<notin> set s"
  shows "py_replace_ne old new (s @ old @ t) = s @ new @ py_replace_ne old new t"
  using assms(2)
proof (induction s)
  case Nil
  obtain o1 os where "old = o1 # os" using assms(1) by (cases old) auto
  then show ?case by simp
next
  case (Cons c cs)
  then have "take (length old) (c # cs @ old @ t) \<noteq> old"
    using assms(1) by (cases old) auto
  with Cons show ?case by simp
qed

text \<open>A loop whose body can only raise one exception: it raises exactly when some
  element fails, and otherwise returns every result.\<close>

lemma rmap_one_error:
  assumes "\<And>x e. x \<in> set xs \<Longrightarrow> f x = Inl e \<Longrightarrow> e = e0"
  shows "rmap f xs = (if \<forall>x \<in> set xs. \<not> isl (f x) then Inr (map (\<lambda>x. projr (f x)) xs) else Inl e0)"
  using assms
proof (induction xs)
  case Nil
  then show ?case by simp
next
  case (Cons x xs)
  have ih: "rmap f xs = (if \<forall>x \<in> set xs. \<not> isl (f x) then Inr (map (\<lambda>x. projr (f x)) xs) else Inl e0)"
    by (rule Cons.IH) (auto intro: Cons.prems)
  show ?case
    using Cons.prems by (cases "f x") (auto simp: ih)
qed

lemma rmap_one_error_perm:
  assumes "\<And>x e. x \<in> set xs \<Longrightarrow> f x = Inl e \<Longrightarrow> e = e0" and "mset ys = mset xs"
  shows "map_sum id mset (rmap f ys) = map_sum id mset (rmap f xs)"
proof -
  have s: "set ys = set xs"
    using assms(2) by (metis set_mset_mset)
  have x: "rmap f xs = (if \<forall>x \<in> set xs. \<not> isl (f x) then Inr (map (\<lambda>x. projr (f x)) xs) else Inl e0)"
    by (rule rmap_one_error) (rule assms(1))
  have y: "rmap f ys = (if \<forall>x \<in> set ys. \<not> isl (f x) then Inr (map (\<lambda>x. projr (f x)) ys) else Inl e0)"
    by (rule rmap_one_error) (use assms(1) s in blast)
  show ?thesis
    using x y s assms(2) by (simp add: mset_map)
qed

lemma metric_cell_error: "metric_cell m r = Inl e \<Longrightarrow> e = TypeError"
  by (cases m) (auto elim: py_num.elims split: option.splits)

lemma read_csv_error: "read_csv c = Inl e \<Longrightarrow> e = ValueError"
  by (cases c) auto

lemma py_mean_mset:
  assumes "mset xs = mset ys"
  shows "py_mean xs = py_mean ys"
proof -
  have "sum_list xs = sum_list ys"
    using sum_list_mset[OF assms, of id] by simp
  then show ?thesis
    using mset_eq_length[OF assms] by (simp add: py_mean_def)
qed

lemma py_std_mset:
  assumes "mset xs = mset ys"
  shows "py_std xs = py_std ys"
proof -
  have "sum_list (map (\<lambda>x. (x - py_mean ys)\<^sup>2) xs) = sum_list (map (\<lambda>x. (x - py_mean ys)\<^sup>2) ys)"
    using assms by (rule sum_list_mset)
  then show ?thesis
    using mset_eq_length[OF assms] py_mean_mset[OF assms] by (simp add: py_std_def)
qed

lemma conf_interval_mset:
  assumes "mset xs = mset ys"
  shows "conf_interval xs = conf_interval ys"
  using py_std_mset[OF assms] mset_eq_length[OF assms] by (simp add: conf_interval_def)

lemma metric_column_mset:
  assumes "mset rows' = mset rows"
  shows "map_sum id mset (metric_column m rows') = map_sum id mset (metric_column m rows)"
  unfolding metric_column_def using metric_cell_error
  by (intro rmap_one_error_perm[OF _ assms]) blast

lemma metric_column_mset_Inr:
  assumes "mset rows' = mset rows"
  shows "(metric_column m rows' = Inl e) = (metric_column m rows = Inl e) \<and>
         (\<forall>xs'. metric_column m rows' = Inr xs' \<longrightarrow>
            (\<exists>xs. metric_column m rows = Inr xs \<and> mset xs' = mset xs))"
  using metric_column_mset[OF assms, of m]
  by (cases "metric_column m rows'"; cases "metric_column m rows") auto

lemma group_keys_mset: "mset rows' = mset rows \<Longrightarrow> group_keys rows' = group_keys rows"
  by (simp add: group_keys_def sorted_list_of_set_sort_remdups[symmetric] mset_map
      flip: set_mset_mset)


lemma column_bind_mset:
  assumes "mset rows' = mset rows" and "\<And>xs xs'. mset xs' = mset xs \<Longrightarrow> F xs' = F xs"
  shows "rbind (metric_column m rows') F = rbind (metric_column m rows) F"
proof (cases "metric_column m rows")
  case (Inl e)
  then have "metric_column m rows' = Inl e"
    using metric_column_mset[OF assms(1), of m] by (cases "metric_column m rows'") auto
  with Inl show ?thesis by simp
next
  case (Inr xs)
  then obtain xs' where "metric_column m rows' = Inr xs'" "mset xs' = mset xs"
    using metric_column_mset[OF assms(1), of m] by (cases "metric_column m rows'") auto
  with Inr assms(2)[of xs' xs] show ?thesis by simp
qed

lemma graph_bars_mset:
  assumes "mset rows' = mset rows"
  shows "graph_bars m rows' = graph_bars m rows"
proof -
  let ?G = "\<lambda>k xs. Inr \<lparr>b_group = k, b_mean = py_mean xs, b_ci = conf_interval xs\<rparr> :: bar py_result"
  have G: "?G k xs' = ?G k xs" if "mset xs' = mset xs" for k xs xs'
    using py_mean_mset[OF that] conf_interval_mset[OF that] by simp
  have each: "rbind (metric_column m [r \<leftarrow> rows'. group_key r = k]) (?G k) =
              rbind (metric_column m [r \<leftarrow> rows. group_key r = k]) (?G k)" for k
    by (rule column_bind_mset) (simp add: assms, rule G)
  have inner: "rmap (\<lambda>k. rbind (metric_column m [r \<leftarrow> rows'. group_key r = k]) (?G k)) ks =
               rmap (\<lambda>k. rbind (metric_column m [r \<leftarrow> rows. group_key r = k]) (?G k)) ks" for ks
    by (simp only: each)
  show ?thesis
    unfolding graph_bars_def group_keys_mset[OF assms] inner
    by (rule column_bind_mset[OF assms]) (rule refl)
qed

lemma mset_concat_sum: "mset (concat xss) = sum_mset (image_mset mset (mset xss))"
  by (induction xss) simp_all

lemma file_content_perm:
  assumes "distinct (map fst dir)" "mset dir' = mset dir"
  shows "file_content dir' = file_content dir"
proof -
  have "distinct (map fst dir')"
    using assms by (metis mset_eq_imp_distinct_iff mset_map)
  then have "map_of dir' = map_of dir"
    using assms by (simp add: map_of_inject_set flip: set_mset_mset)
  then show ?thesis
    by (simp add: file_content_def fun_eq_iff)
qed

lemma read_tables_perm:
  assumes "distinct (map fst dir)" "mset dir' = mset dir"
  shows "map_sum id mset (read_tables dir') = map_sum id mset (read_tables dir)"
proof -
  have fc: "file_content dir' = file_content dir"
    using assms by (rule file_content_perm)
  have cf: "mset (csv_files dir') = mset (csv_files dir)"
    using assms(2) by (simp add: csv_files_def mset_filter mset_map)
  have "map_sum id mset (rmap (\<lambda>file. read_csv (file_content dir file)) (csv_files dir')) =
        map_sum id mset (rmap (\<lambda>file. read_csv (file_content dir file)) (csv_files dir))"
    using read_csv_error cf by (intro rmap_one_error_perm) blast+
  then show ?thesis
    unfolding read_tables_def fc
    by (cases "rmap (\<lambda>file. read_csv (file_content dir file)) (csv_files dir')";
        cases "rmap (\<lambda>file. read_csv (file_content dir file)) (csv_files dir)")
       (auto simp: mset_concat_sum mset_map)
qed

lemma stats_names_ipv4_reno: "stats_names ''dataset_ipv4_reno.csv'' = Inr (''Ipv4'', ''RENO'')"
  by (simp add: stats_names_def py_index_def py_capitalize_def py_lower_def py_upper_def
      py_lower_char_def py_upper_char_def ascii_upper_def ascii_lower_def)

lemma sample_row_cells:
  "metric_cell m sample_row =
     Inr (case m of Throughput \<Rightarrow> 3 | MeanRtt \<Rightarrow> 12 | PacketLoss \<Rightarrow> 3 | Retransmissions \<Rightarrow> 3
          | CpuUsage \<Rightarrow> 5)"
  by (cases m) (simp_all add: parse_decimal_def parse_unsigned_def parse_nat_def digit_val_def)


lemma rmap_length: "rmap f xs = Inr ys \<Longrightarrow> length ys = length xs"
  by (induction xs arbitrary: ys) (auto simp: rbind_def split: sum.splits)

lemma group_keys_one:
  assumes "rows \<noteq> []" and "\<forall>row\<in>set rows. group_key row = k"
  shows "group_keys rows = [k]"
proof -
  have "map group_key rows = replicate (length rows) k"
    using assms(2) by (induction rows) auto
  moreover obtain n where "length rows = Suc n"
    using assms(1) by (cases rows) auto
  moreover have "remdups (replicate (Suc n) k) = [k]" for n
    by (induction n) auto
  ultimately show ?thesis
    by (simp add: group_keys_def)
qed

subsection \<open>Properties of the reporting stage\<close>

text \<open>C32. The image of a dataset table is named after the table with \<open>.csv\<close> replaced
  by \<open>.png\<close>, as long as the IP version and the algorithm contain no dot.\<close>

theorem table_image_name_dataset:
  assumes "CHR ''.'' \<notin> set ip" and "CHR ''.'' \<notin> set tcp"
  shows "table_image_name (dataset_filename ip tcp) =
           ''tables/datasets_tables/table_dataset_'' @ py_lower ip @ ''_'' @ py_lower tcp @ ''.png''"
proof -
  have "CHR ''.'' \<notin> set (py_lower ip)" "CHR ''.'' \<notin> set (py_lower tcp)"
    using assms by (simp_all add: py_lower_keeps_out ascii_lower_def)
  then have "py_replace_ne ''.csv'' ''.png'' ((''dataset_'' @ py_lower ip @ ''_'' @ py_lower tcp) @ ''.csv'' @ [])
               = (''dataset_'' @ py_lower ip @ ''_'' @ py_lower tcp) @ ''.png'' @ []"
    by (subst py_replace_ne_append) auto
  then show ?thesis
    by (simp add: table_image_name_def py_replace_def dataset_filename_def)
qed

lemma table_image_name_dataset_witness:
  "table_image_name (dataset_filename ''IPv6'' ''westwood'') =
     ''tables/datasets_tables/table_dataset_ipv6_westwood.png''"
  using table_image_name_dataset[of "''IPv6''" "''westwood''"]
  by (simp add: py_lower_names)


text \<open>C33. The graphs do not depend on the order in which \<open>os.listdir\<close> lists the
  tables (an order Python leaves unspecified): any permutation of a directory with
  distinct names gives the same bars, or the same exception.\<close>

theorem generate_graphs_listing_order:
  assumes "distinct (map fst dir)" and "mset dir' = mset dir"
  shows "generate_graphs dir' = generate_graphs dir"
proof -
  have cf: "(csv_files dir' = []) = (csv_files dir = [])"
    using assms(2) by (metis csv_files_def mset_filter mset_map mset_zero_iff)
  have rt: "map_sum id mset (read_tables dir') = map_sum id mset (read_tables dir)"
    using assms by (rule read_tables_perm)
  show ?thesis
  proof (cases "read_tables dir")
    case (Inl e)
    with rt show ?thesis
      by (cases "read_tables dir'") (auto simp: generate_graphs_def cf)
  next
    case (Inr data)
    with rt obtain data' where d': "read_tables dir' = Inr data'" "mset data' = mset data"
      by (cases "read_tables dir'") auto
    then have "(data' = []) = (data = [])"
      by (metis mset_zero_iff)
    with d' Inr show ?thesis
      by (simp add: generate_graphs_def cf graph_bars_mset[OF d'(2)])
  qed
qed


lemma generate_graphs_listing_order_witness:
  "generate_graphs [(''dataset_ipv6_reno.csv'', [HeaderLine fieldnames]),
                    (''dataset_ipv4_reno.csv'', [HeaderLine fieldnames, DataLine sample_row])] =
   generate_graphs [(''dataset_ipv4_reno.csv'', [HeaderLine fieldnames, DataLine sample_row]),
                    (''dataset_ipv6_reno.csv'', [HeaderLine fieldnames])]"
  by (rule generate_graphs_listing_order) simp_all

text \<open>C34. A table of one row with numeric cells is drawn, each graph with one bar at the
  row's value and no error bar, while \<open>generate_statistics_tables\<close> raises \<open>TypeError\<close>
  on the same directory: the graphs treat a one-row group's NaN deviation as no error
  bar, the statistics stage turns it into an exception.\<close>

theorem single_row_reports:
  assumes "m_rtt r \<noteq> JNull" and "m_retrans r \<noteq> JNull" and "\<And>m. metric_cell m r = Inr (v m)"
  shows "generate_graphs [(''dataset_ipv4_reno.csv'', [HeaderLine fieldnames, DataLine r])] =
           Inr (map (\<lambda>m. (avg_graph_file m, conf_graph_file m,
                          [\<lparr>b_group = group_key r, b_mean = v m, b_ci = None\<rparr>])) metrics) \<and>
         generate_statistics_tables [(''dataset_ipv4_reno.csv'', [HeaderLine fieldnames, DataLine r])] =
           Inl TypeError"
  using assms
  by (simp add: generate_graphs_def csv_files_def read_tables_def dropna_def py_endswith_def
      file_content_def graph_bars_def metric_column_def group_keys_def conf_interval_def py_mean_def
      metrics_def generate_statistics_tables_def statistics_for_file_def stats_names_ipv4_reno
      describe_metric_def Let_def)

lemma single_row_reports_witness:
  "generate_statistics_tables [(''dataset_ipv4_reno.csv'', [HeaderLine fieldnames, DataLine sample_row])]
     = Inl TypeError \<and>
   map_sum id (map (\<lambda>(_, _, bars). map b_ci bars))
     (generate_graphs [(''dataset_ipv4_reno.csv'', [HeaderLine fieldnames, DataLine sample_row])]) =
   Inr [[None], [None], [None], [None], [None]]"
  using single_row_reports[of sample_row, OF _ _ sample_row_cells]
  by (simp add: metrics_def)

text \<open>C35. For the rows of one group, the statistics table and the graphs agree: the
  average is the bar's height rounded to two decimals, the group has an error bar, and
  the table's half-width and bounds are that error bar (line 217) and the bar's height
  minus and plus it, rounded, as computed separately at lines 286--290.\<close>

theorem statistics_match_graphs:
  assumes "\<forall>row\<in>set rows. group_key row = k" and "metric_column m rows = Inr xs"
    and "describe_metric m xs = Inr r"
  shows "\<exists>c. graph_bars m rows = Inr [\<lparr>b_group = k, b_mean = py_mean xs, b_ci = Some c\<rparr>] \<and>
             st_avg r = py_round2 (py_mean xs) \<and> st_ci r = py_round2 c \<and>
             st_lower r = py_round2 (py_mean xs - c) \<and> st_upper r = py_round2 (py_mean xs + c)"
proof -
  have n: "1 < length xs"
    using assms(3) by (simp add: describe_metric_def Let_def split: if_splits)
  have "length xs = length rows"
    using assms(2) unfolding metric_column_def by (rule rmap_length)
  with n have "rows \<noteq> []" by auto
  then have keys: "group_keys rows = [k]" using assms(1) by (rule group_keys_one)
  have "[row \<leftarrow> rows. group_key row = k] = rows"
    using assms(1) by simp
  then have "graph_bars m rows = Inr [\<lparr>b_group = k, b_mean = py_mean xs, b_ci = conf_interval xs\<rparr>]"
    using assms(2) keys by (simp add: graph_bars_def)
  moreover have "conf_interval xs = Some (196 / 100 * (py_std xs / sqrt (real (length xs))))"
    using n by (simp add: conf_interval_def)
  ultimately show ?thesis
    using assms(3) describe_metric_ok[OF n, of m] by auto
qed

lemma statistics_match_graphs_witness:
  "\<exists>c. graph_bars CpuUsage [sample_row, sample_row\<lparr>m_cpu := 7\<rparr>] =
         Inr [\<lparr>b_group = (''cubic'', ''IPv4''), b_mean = 6, b_ci = Some c\<rparr>] \<and>
       st_ci (projr (describe_metric CpuUsage [5, 7])) = py_round2 c"
proof -
  have r: "describe_metric CpuUsage [5, 7] = Inr (projr (describe_metric CpuUsage [5, 7]))"
    by (simp add: describe_metric_def Let_def)
  have col: "metric_column CpuUsage [sample_row, sample_row\<lparr>m_cpu := 7\<rparr>] = Inr [5, 7]"
    by (simp add: metric_column_def rbind_def)
  have keys: "\<forall>row\<in>set [sample_row, sample_row\<lparr>m_cpu := 7\<rparr>]. group_key row = (''cubic'', ''IPv4'')"
    by (simp add: group_key_def)
  have "py_mean [5, 7] = (6::real)"
    by (simp add: py_mean_def)
  then show ?thesis
    using statistics_match_graphs[OF keys col r] by auto
qed

end
