(* ===== verification/Prompting.thy ===== *)
theory Prompting
  imports Reporting
begin

text \<open>
  Operator prompting and the whole \<open>__main__\<close> block (\<open>src/script.py\<close> lines
  328--363). The five parameters are read with \<open>int(input(prompt))\<close> (lines 331--335):
  \<open>input\<close> writes the prompt and takes the next line of standard input, raising
  \<open>EOFError\<close> when there is none; \<open>int\<close> parses the line as CPython does for base 10.
  Standard input and output are a record \<open>tty\<close> of the lines still to be read and the
  text written so far. Characters are Isabelle's 8-bit characters, read as the
  Latin-1 code points 0--255.
\<close>

subsection \<open>\<open>int()\<close> of a string\<close>

text \<open>\<open>str.isspace\<close> on code points 0--255: the ASCII whitespace, the separators
  0x1C--0x1F, NEL and NO-BREAK SPACE. \<open>int()\<close> strips these from both ends.\<close>

definition py_isspace :: "char \<Rightarrow> bool" where
  "py_isspace c = (of_char c \<in> {9, 10, 11, 12, 13, 28, 29, 30, 31, 32, 133, 160 :: nat})"

definition py_strip :: "string \<Rightarrow> string" where
  "py_strip s = rev (dropWhile py_isspace (rev (dropWhile py_isspace s)))"

text \<open>The digits of a base-10 literal: \<open>digit (["_"] digit)*\<close>, an underscore only
  between two digits. The first digit is checked by the caller.\<close>

fun int_digits :: "nat \<Rightarrow> string \<Rightarrow> nat option" where
  "int_digits acc [] = Some acc"
| "int_digits acc (c # cs) =
     (case digit_val c of
        Some d \<Rightarrow> int_digits (10 * acc + d) cs
      | None \<Rightarrow> (if c = CHR ''_'' \<and> cs \<noteq> [] \<and> digit_val (hd cs) \<noteq> None
                 then int_digits acc cs else None))"

text \<open>An optional sign, directly before the digits.\<close>

definition py_sign :: "string \<Rightarrow> bool \<times> string" where
  "py_sign t =
     (case t of
        [] \<Rightarrow> (False, [])
      | c # cs \<Rightarrow> (if c = CHR ''-'' then (True, cs) else if c = CHR ''+'' then (False, cs)
                  else (False, t)))"

definition py_int_str :: "string \<Rightarrow> int py_result" where
  "py_int_str s =
     (case py_sign (py_strip s) of
        (neg, body) \<Rightarrow>
          (if body = [] then Inl ValueError
           else if digit_val (hd body) = None then Inl ValueError
           else (case int_digits 0 body of
                   None \<Rightarrow> Inl ValueError
                 | Some n \<Rightarrow> Inr (if neg then - int n else int n))))"

subsection \<open>\<open>input()\<close>\<close>

record tty =
  t_in :: "string list"
  t_out :: "string list"

definition py_input :: "string \<Rightarrow> tty \<Rightarrow> string py_result \<times> tty" where
  "py_input prompt t =
     (let t' = t\<lparr>t_out := t_out t @ [prompt]\<rparr> in
      case t_in t of
        [] \<Rightarrow> (Inl EOFError, t')
      | l # ls \<Rightarrow> (Inr l, t'\<lparr>t_in := ls\<rparr>))"

definition read_int :: "string \<Rightarrow> tty \<Rightarrow> int py_result \<times> tty" where
  "read_int prompt t = (case py_input prompt t of (r, t') \<Rightarrow> (rbind r py_int_str, t'))"

text \<open>Sequencing of statements that may raise and use the terminal.\<close>

definition tbind :: "'a py_result \<times> tty \<Rightarrow> ('a \<Rightarrow> tty \<Rightarrow> 'b py_result \<times> tty) \<Rightarrow> 'b py_result \<times> tty" where
  "tbind r f = (case r of (Inl e, t) \<Rightarrow> (Inl e, t) | (Inr a, t) \<Rightarrow> f a t)"

subsection \<open>Lines 331--335\<close>

text \<open>The prompts, without their colour codes.\<close>

definition bw_prompt :: string where
  "bw_prompt = newline @ ''Enter the throughput rate (Gbps): ''"

definition loss_prompt :: string where
  "loss_prompt = ''Enter the data loss percentage (%): ''"

definition delay_prompt :: string where
  "delay_prompt = ''Enter the delay (ms): ''"

definition reps_prompt :: string where
  "reps_prompt = ''Enter the number of repetitions: ''"

definition conns_prompt :: string where
  "conns_prompt = ''Enter the number of simultaneous connections: ''"

definition prompts :: "string list" where
  "prompts = [bw_prompt, loss_prompt, delay_prompt, reps_prompt, conns_prompt]"

definition read_params :: "tty \<Rightarrow> params py_result \<times> tty" where
  "read_params t =
     tbind (read_int bw_prompt t) (\<lambda>bw t.
     tbind (read_int loss_prompt t) (\<lambda>loss t.
     tbind (read_int delay_prompt t) (\<lambda>delay t.
     tbind (read_int reps_prompt t) (\<lambda>repetitions t.
     tbind (read_int conns_prompt t) (\<lambda>connections t.
     (Inr \<lparr>p_bw = real_of_int bw * 1000, p_loss = loss, p_delay = delay,
           p_reps = repetitions, p_conns = connections\<rparr>, t))))))"

subsection \<open>The program\<close>

text \<open>Lines 328--363 on the lines typed in: the prompts, then the matrix and the
  reports. What the prompts wrote comes first on the console. When reading fails,
  nothing else has happened: the world is the one the program started from.\<close>

definition main_program ::
  "string list \<Rightarrow> (string \<times> string \<times> int \<Rightarrow> trial_env) \<Rightarrow> dataset_dir \<Rightarrow> string
     \<Rightarrow> reports py_result \<times> world" where
  "main_program ins env dir log_text =
     (case read_params \<lparr>t_in = ins, t_out = []\<rparr> of
        (Inl e, t) \<Rightarrow> (Inl e, (initial_world dir log_text)\<lparr>w_console := t_out t\<rparr>)
      | (Inr p, t) \<Rightarrow>
          (case main_reports p env dir log_text of
             (r, w) \<Rightarrow> (r, w\<lparr>w_console := t_out t @ w_console w\<rparr>)))"


text \<open>A machine on which Mininet cannot build the network.\<close>

definition no_topology :: trial_env where
  "no_topology = \<lparr>e_topology_ok = False, e_cpu_before = 0, e_cpu_after = 0, e_output = [],
                   e_json = None\<rparr>"

subsection \<open>Lemmas\<close>

lemma digits_nat_digits: "c \<in> set (digits_nat n) \<Longrightarrow> digit_val c \<noteq> None"
proof (induction n rule: digits_nat.induct)
  case (1 n)
  then show ?case
    by (cases "n < 10") (auto simp: digits_nat.simps [of n])
qed

lemma int_digits_parse_digits:
  "\<forall>c \<in> set s. digit_val c \<noteq> None \<Longrightarrow> int_digits acc s = parse_digits acc s"
  by (induction acc s rule: int_digits.induct) (auto split: option.split)

lemma int_digits_digits_nat: "int_digits 0 (digits_nat n) = Some n"
  using digits_nat_digits by (simp add: int_digits_parse_digits parse_digits_digits_nat)

lemma digit_not_space: "digit_val c \<noteq> None \<Longrightarrow> \<not> py_isspace c"
  by (auto simp: digit_val_def py_isspace_def Let_def split: if_splits)

lemma digit_not_sign: "digit_val c \<noteq> None \<Longrightarrow> c \<noteq> CHR ''-'' \<and> c \<noteq> CHR ''+''"
  by (auto simp: digit_val_def)

lemma hd_digits_nat: "digit_val (hd (digits_nat n)) \<noteq> None"
  using digits_nat_digits digits_nat_nonempty hd_in_set by blast

lemma last_digits_nat: "digit_val (last (digits_nat n)) \<noteq> None"
  using digits_nat_digits digits_nat_nonempty last_in_set by blast

lemma py_strip_pad:
  assumes "list_all py_isspace a" and "list_all py_isspace b" and "s \<noteq> []"
    and "\<not> py_isspace (hd s)" and "\<not> py_isspace (last s)"
  shows "py_strip (a @ s @ b) = s"
proof -
  have "dropWhile py_isspace (a @ s @ b) = s @ b"
    using assms by (cases s) (auto simp: list_all_iff dropWhile_append2)
  moreover have "dropWhile py_isspace (rev s) = rev s"
    using assms(3,5) by (simp add: dropWhile_eq_self_iff hd_rev)
  then have "dropWhile py_isspace (rev b @ rev s) = rev s"
    using assms(2) by (subst dropWhile_append2) (auto simp: list_all_iff)
  ultimately show ?thesis by (simp add: py_strip_def)
qed

lemma show_int_ends:
  "show_int i \<noteq> [] \<and> \<not> py_isspace (hd (show_int i)) \<and> \<not> py_isspace (last (show_int i))"
  using digit_not_space[OF hd_digits_nat] digit_not_space[OF last_digits_nat]
  by (auto simp: show_int_def digits_nat_nonempty py_isspace_def)



lemma read_int_line:
  "py_int_str l = Inr v \<Longrightarrow>
     read_int pr \<lparr>t_in = l # ls, t_out = out\<rparr> = (Inr v, \<lparr>t_in = ls, t_out = out @ [pr]\<rparr>)"
  by (simp add: read_int_def py_input_def rbind_def)

lemma tbind_simps [simp]:
  "tbind (Inl e, t) f = (Inl e, t)"
  "tbind (Inr a, t) f = f a t"
  by (simp_all add: tbind_def)

subsection \<open>Properties of the prompting\<close>

text \<open>\<open>int()\<close> reads back what \<open>str()\<close> prints: the decimal form of any integer,
  with any whitespace \<open>input()\<close> leaves around it, is parsed to that integer.\<close>

lemma py_int_str_show_int:
  assumes "list_all py_isspace a" and "list_all py_isspace b"
  shows "py_int_str (a @ show_int i @ b) = Inr i"
proof -
  have strip: "py_strip (a @ show_int i @ b) = show_int i"
    using assms show_int_ends by (intro py_strip_pad) auto
  show ?thesis
  proof (cases "i < 0")
    case True
    then show ?thesis
      using strip hd_digits_nat[of "nat (- i)"]
      by (simp add: py_int_str_def py_sign_def digits_nat_nonempty int_digits_digits_nat
          show_int_def[of i])
  next
    case False
    obtain c cs where d: "digits_nat (nat i) = c # cs"
      using digits_nat_nonempty by (cases "digits_nat (nat i)") auto
    have "digit_val c \<noteq> None"
      using hd_digits_nat[of "nat i"] d by simp
    with False strip d show ?thesis
      using digit_not_sign[of c] int_digits_digits_nat[of "nat i"]
      by (simp add: py_int_str_def py_sign_def show_int_def[of i])
  qed
qed

text \<open>C36. The program reads its parameters from the first five lines typed in: when
  they parse as integers, it runs the matrix and the reports with the throughput rate
  times 1000 and the other four values as typed, and the five prompts come first on
  the console.\<close>

theorem main_program_params:
  assumes "py_int_str l1 = Inr bw" and "py_int_str l2 = Inr loss" and "py_int_str l3 = Inr delay"
    and "py_int_str l4 = Inr reps" and "py_int_str l5 = Inr conns"
  shows "main_program ([l1, l2, l3, l4, l5] @ rest) env dir log_text =
           (case main_reports \<lparr>p_bw = real_of_int bw * 1000, p_loss = loss, p_delay = delay,
                               p_reps = reps, p_conns = conns\<rparr> env dir log_text of
              (r, w) \<Rightarrow> (r, w\<lparr>w_console := prompts @ w_console w\<rparr>))"
  using assms
  by (simp add: main_program_def read_params_def read_int_line prompts_def)

lemma main_program_params_witness:
  "main_program [''10'', ''1'', '' 5 '', ''0_1'', ''+2''] (\<lambda>_. no_topology) [] [] =
     (case main_reports \<lparr>p_bw = 10000, p_loss = 1, p_delay = 5, p_reps = 1, p_conns = 2\<rparr>
             (\<lambda>_. no_topology) [] [] of
        (r, w) \<Rightarrow> (r, w\<lparr>w_console := prompts @ w_console w\<rparr>))"
  using main_program_params[of "''10''" 10 "''1''" 1 "'' 5 ''" 5 "''0_1''" 1 "''+2''" 2 "[]"
      "\<lambda>_. no_topology" "[]" "[]"]
  by (simp add: py_int_str_def py_strip_def py_isspace_def py_sign_def digit_val_def)

text \<open>A fractional rate is refused: \<open>int("0.5")\<close> raises \<open>ValueError\<close> after the
  first prompt, before anything else runs.\<close>

lemma main_program_fractional_rate:
  "main_program (''0.5'' # rest) env dir log_text =
     (Inl ValueError, (initial_world dir log_text)\<lparr>w_console := [bw_prompt]\<rparr>)"
  by (simp add: main_program_def read_params_def read_int_def py_input_def py_int_str_def py_strip_def
      py_isspace_def py_sign_def digit_val_def)

text \<open>C37. Running out of input is an error before anything else happens: when fewer
  than five lines are typed and each parses, \<open>input()\<close> raises \<open>EOFError\<close> at the
  next prompt, the prompts up to that one are on the console, and the program leaves
  the dataset directory and the log as it found them (\<open>clear_datasets\<close> runs only
  after the prompts).\<close>

theorem main_program_eof:
  assumes "length ins < 5" and "list_all (\<lambda>l. \<not> isl (py_int_str l)) ins"
  shows "main_program ins env dir log_text =
           (Inl EOFError, (initial_world dir log_text)\<lparr>w_console := take (Suc (length ins)) prompts\<rparr>)"
proof -
  have "ins = [] \<or> (\<exists>a. ins = [a]) \<or> (\<exists>a b. ins = [a, b]) \<or> (\<exists>a b c. ins = [a, b, c]) \<or>
        (\<exists>a b c d. ins = [a, b, c, d])"
    using assms(1) by (cases ins rule: rev_cases; auto simp: length_Suc_conv numeral_eq_Suc less_Suc_eq)
  then show ?thesis
    using assms(2)
    by (elim disjE exE)
       (auto simp: main_program_def read_params_def read_int_def py_input_def rbind_def prompts_def tbind_def Let_def
             split: sum.splits)
qed

lemma main_program_eof_witness:
  "main_program [''10'', ''1''] (\<lambda>_. no_topology) [(''dataset/x.csv'', [])] [] =
     (Inl EOFError, (initial_world [(''dataset/x.csv'', [])] [])\<lparr>w_console := [bw_prompt, loss_prompt, delay_prompt]\<rparr>)"
  using main_program_eof[of "[''10'', ''1'']" "\<lambda>_. no_topology" "[(''dataset/x.csv'', [])]" "[]"]
  by (simp add: py_int_str_def py_strip_def py_isspace_def py_sign_def digit_val_def prompts_def)

end
