(* ===== verification/Spec2Isabelle.thy ===== *)
theory Spec2Isabelle
  imports Prompting
begin

text \<open>
  \<^bold>\<open>A verification model of TCP-ExBench (\<open>src/script.py\<close>).\<close>

  The program is one Python script that emulates a dual-stack routed network with
  Mininet, runs \<open>iperf3\<close> trials over a matrix of six congestion-control algorithms,
  two IP versions and a number of repetitions, extracts metrics from each trial's JSON
  result, appends them to one CSV table per (IP version, algorithm), and finally draws
  graphs and table images and computes descriptive statistics over the tables. The
  driver calls the topology manager to build a network per trial, the extractor on the
  tool's output, and the store to append the row; after the matrix the reporting
  stages and the statistics engine read the store. Its parts, as \<open>spec.md\<close> names
  them, and the theories that model them:

  \<^item> Prelude: Python's exceptions (\<open>py_exc\<close>), results \<open>py_exc + 'a\<close> sequenced by
    \<open>rbind\<close> and \<open>rmap\<close> (a loop that stops at the first exception), \<open>round(x, 2)\<close>
    (\<open>py_round2\<close>, half-to-even on the exact value), \<open>"{:.2f}".format\<close> (\<open>fmt2\<close>),
    the ASCII string methods and the reading of decimals back (\<open>parse_decimal\<close>).
  \<^item> Json: the value \<open>json.loads\<close> returns and the operations the script applies to
    it (subscript chains, \<open>dict.get\<close>, iteration, arithmetic), each failure the
    exception CPython raises.
  \<^item> Metrics (MetricsExtractor, \<open>measure_metrics\<close> lines 107--131):
    \<open>extract_metrics\<close> follows the \<open>try\<close> block statement by statement and returns
    the row or the first exception. Its lemmas give the value of every field on every
    branch (C1--C6), the documented schema and a result without \<open>mean_rtt\<close> included.
  \<^item> Dataset (DatasetStore, \<open>clear_datasets\<close> lines 154--161 and the CSV append of
    \<open>measure_metrics\<close> lines 136--146): a directory is an association list from file
    names to lines; \<open>write_rows\<close> writes the header only into an empty file;
    \<open>read_csv\<close> reads a table back. The invariant \<open>dataset_ok\<close> (each table empty or
    one header followed by rows) is preserved by every \<open>store_step\<close> (C7--C9).
  \<^item> Statistics (StatisticsEngine, \<open>generate_statistics_tables\<close> lines 263--326):
    pandas' mean, median, mode and sample deviation as functions of real lists,
    \<open>describe_metric\<close> per metric and \<open>statistics_for_file\<close> per table. The lemmas
    show the reported mode, the invariance under permutation, the bounds, that the
    packet loss read back from a table is the extracted loss rounded to two decimals,
    the names read from the file name, and the \<open>TypeError\<close> on groups of at most one
    row (C10--C15).
  \<^item> Topology (TopologyManager, \<open>LinuxRouter\<close> and \<open>create_topology\<close> lines 15--69):
    each Mininet call or shell command is a \<open>topo_cmd\<close>, \<open>topo_step\<close> its effect on a
    \<open>net\<close> record; addresses are \<open>32 word\<close> and \<open>128 word\<close>; \<open>forward\<close> is a walk
    over the routing tables with longest-prefix match. The lemmas show reachability
    between the hosts and of every configured address from every node, the link
    impairment, teardown, that unknown destinations are dropped at r1, that the routing
    tables have no loop, and that Mininet and Linux accept every command in its order,
    so every network built on the way is well formed (\<open>wf_net\<close>) (C16--C23).
  \<^item> Driver (BenchmarkDriver, lines 71--152 and 328--363): the machine as a record
    \<open>world\<close> threaded through \<open>measure_metrics\<close>, \<open>cleanup\<close>, \<open>run_trials\<close> and
    \<open>run_matrix\<close>; what the machine answers (Mininet, \<open>psutil\<close>, the \<open>iperf3\<close> output)
    enters through one \<open>trial_env\<close> per trial, so every theorem holds for every answer.
    An exception travels next to the world it leaves, so the \<open>finally: cleanup(net)\<close>
    runs on every path. The lemmas show that after every trial the network is stopped
    and no server left running, that the matrix refines the store's Clear/Append run,
    the contents of each table, and the error paths (C24--C29).
  \<^item> Reporting (\<open>generate_graphs\<close> lines 163--233, \<open>generate_table_images\<close> lines
    236--261 and the calls at lines 360--363): what the reporting stages compute from
    the tables, namely the rows kept by \<open>dropna\<close>, the sorted group keys, each group's mean
    and 95\<percent> half-width, the image names and the first exception. The lemmas show the
    image names, independence from the order of \<open>os.listdir\<close>, the disagreement
    between graphs and statistics on one-row groups, and their agreement (average and
    interval) on larger groups (C32--C35). \<open>main_reports\<close> runs
    the matrix and the three stages and prints \<open>All tests completed.\<close> (line 363).
  \<^item> Prompting (operator prompting, lines 328--335, and the whole \<open>__main__\<close> block):
    \<open>int(input(prompt))\<close> over a record \<open>tty\<close> of the lines still to be read and
    the text written. \<open>py_int_str\<close> is CPython's base-10 \<open>int()\<close> of a string
    (surrounding whitespace, a sign, digits with single underscores, otherwise
    \<open>ValueError\<close>), and \<open>input()\<close> raises \<open>EOFError\<close> at the end of input.
    \<open>main_program\<close> composes the prompts with \<open>main_reports\<close>. The lemmas show that
    the typed values become the parameters of the run (C36) and that running out of
    input raises \<open>EOFError\<close> before the program touches anything (C37).
  \<^item> This theory: properties across components: the client and server agree on
    address and port (C30), and a one-repetition run never reaches statistics (C31).

  Fuel: \<open>forward\<close> spends one unit per hop. The network has four nodes, and a delivered
  packet crosses at most three links, so four hops suffice: C22 shows that with four
  hops every walk of the configured network ends (no routing loop), more fuel never
  changes an outcome (lemma \<open>forward_mono\<close>), and the reachability claims hold for
  any fuel of at least four. All other loops of the script are structural recursions over finite lists.

  Floats are modelled as reals: the model rounds exactly where the script rounds, and
  ignores the binary representation error of doubles.

  Not modelled: the emulator's internals (namespaces, \<open>TCLink\<close> shaping), \<open>iperf3\<close>
  itself, \<open>psutil\<close>, \<open>time.sleep\<close> and the JSON text parser, whose results enter the
  model as data; Mininet's \<open>setLogLevel\<close> and the colour codes of \<open>colorama\<close>; code
  points above 255 in what is typed at the prompts; and the matplotlib drawing (styles, colours, legends and
  image bytes) of the graphs, table images and statistics tables, of which the model
  keeps the data drawn and the file names.
\<close>

section \<open>Properties across components\<close>

lemma statistics_for_file_trial_rows:
  "statistics_for_file file (HeaderLine h # map DataLine (result_rows r)) =
     rbind (stats_names file) (\<lambda>_. Inl TypeError)"
  by (cases r) (auto simp: statistics_for_file_def metrics_def metric_column_def describe_metric_def
      Let_def case_prod_unfold)

text \<open>C30. The two ends of a trial meet: the IPv4 client of \<open>measure_metrics\<close> connects to
  \<open>10.0.2.2\<close>, the address \<open>create_topology\<close> gives h2, on port 5201 where the server
  listens, and h1's packets to that address reach h2 (and h2's answers reach h1); the
  IPv6 client and server agree on port 5202.\<close>

theorem client_targets_server:
  "client_cmd p ''IPv4'' (create_topology loss delay) =
     ''iperf3 -c 10.0.2.2 -p 5201 -t 30 -b '' @ show_int (py_int (p_bw p / 1000)) @ ''G -P '' @
     show_int (p_conns p) @ '' -J'' \<and>
   host_IP (create_topology loss delay) H2 = ''10.0.2.2'' \<and>
   server_cmd ''IPv4'' = ''iperf3 -s -p 5201 &'' \<and>
   forward fam4 (k + 4) (create_topology loss delay) H1 True (ipv4 10 0 2 2) = Some (Delivered H2) \<and>
   forward fam4 (k + 4) (create_topology loss delay) H2 True (ipv4 10 0 1 2) = Some (Delivered H1) \<and>
   server_cmd ''IPv6'' = ''iperf3 -s -6 -p 5202 &'' \<and>
   client_cmd p ''IPv6'' (create_topology loss delay) =
     ''iperf3 -c 2001:db8:0:2::2%h1-eth0 -6 -p 5202 -t 30 -b '' @ show_int (py_int (p_bw p / 1000)) @
     ''G -P '' @ show_int (p_conns p) @ '' -J''"
proof -
  have ip: "host_IP (create_topology loss delay) H2 = ''10.0.2.2''"
    by (simp add: host_IP_def topo_H2 show_ipv4_def ipv4_def digits_nat.simps digit_char_def)
  then show ?thesis
    using forward_h1_h2_ipv4[of k loss delay] forward_h2_h1_ipv4[of k loss delay]
    by (simp add: client_cmd_def server_cmd_def Let_def)
qed

text \<open>C31. With one repetition the program cannot produce its statistics: either a trial
  raises and ends the matrix, or every table gets at most one row and the statistics
  stage raises on the first of them (spec.md promises a table per group). The dataset
  directory is the one \<open>os.makedirs\<close> creates, empty.\<close>

theorem single_repetition_no_statistics:
  assumes "p_reps p = 1"
  shows "\<exists>ex. main_statistics p env [] log_text = Inl ex"
proof (cases "run_matrix p env [] log_text")
  case (Pair r w)
  show ?thesis
  proof (cases r)
    case (Some ex)
    with Pair show ?thesis by (simp add: main_statistics_def)
  next
    case None
    with Pair have ok: "\<forall>t \<in> set (trials p). trial_ok p (env t) t"
      using run_matrix_fst[of p env "[]" log_text] by simp
    have tr: "trials p = [(''reno'', ''IPv4'', 1), (''reno'', ''IPv6'', 1), (''cubic'', ''IPv4'', 1),
        (''cubic'', ''IPv6'', 1), (''bbr'', ''IPv4'', 1), (''bbr'', ''IPv6'', 1),
        (''vegas'', ''IPv4'', 1), (''vegas'', ''IPv6'', 1), (''veno'', ''IPv4'', 1),
        (''veno'', ''IPv6'', 1), (''westwood'', ''IPv4'', 1), (''westwood'', ''IPv6'', 1)]"
      using assms by (simp add: trials_def tcp_versions_def ip_versions_def)
    have "generate_statistics_tables (w_datasets w) = Inl TypeError"
      using run_matrix_store[OF ok, of "[]" log_text] Pair
      by (simp add: tr run_store_def clear_datasets_def write_rows_def file_content_def
          generate_statistics_tables_def trial_file_def dataset_filename_def py_lower_names
          py_endswith_def statistics_for_file_trial_rows stats_names_ipv4_reno
          cong: rbind_cong)
    with Pair None show ?thesis by (simp add: main_statistics_def)
  qed
qed

lemma single_repetition_no_statistics_witness:
  "\<exists>ex. main_statistics (example_params 1 2) (\<lambda>_. example_env (Some sample_doc)) [] '''' = Inl ex"
  using single_repetition_no_statistics[of "example_params 1 2" "\<lambda>_. example_env (Some sample_doc)" "''''"]
  by simp

end
